theory Spec2Isabelle
  imports Main
begin

section \<open>JavaScript strings and numbers\<close>

text \<open>
  Strings are lists of characters. Timestamps, scores and transaction counts are JavaScript
  numbers holding integers; they are modelled as \<^typ>\<open>int\<close> (milliseconds for timestamps).
  The result of \<open>parseInt\<close> is rounded to the nearest IEEE double, as JavaScript does, because
  a 16-digit hexadecimal suffix does not fit the 53 bits of a double's mantissa.
\<close>

text \<open>\<open>String.prototype.split(sep)\<close> for a one-character separator: the result is never empty.\<close>

fun splitOn :: "char \<Rightarrow> string \<Rightarrow> string list" where
  "splitOn c [] = [[]]"
| "splitOn c (x # xs) =
     (if x = c then [] # splitOn c xs
      else (case splitOn c xs of [] \<Rightarrow> [[x]] | p # ps \<Rightarrow> (x # p) # ps))"

text \<open>\<open>s.startsWith(p)\<close> and \<open>s.includes(sub)\<close>.\<close>

definition startsWith :: "string \<Rightarrow> string \<Rightarrow> bool" where
  "startsWith s p = (take (length p) s = p)"

fun includesStr :: "string \<Rightarrow> string \<Rightarrow> bool" where
  "includesStr [] sub = (sub = [])"
| "includesStr (x # xs) sub = (startsWith (x # xs) sub \<or> includesStr xs sub)"

text \<open>Digits as \<open>Number.prototype.toString(radix)\<close> writes them.\<close>

definition digitChar :: "nat \<Rightarrow> char" where
  "digitChar d = ''0123456789abcdefghijklmnopqrstuvwxyz'' ! (d mod 36)"

fun natToString :: "nat \<Rightarrow> nat \<Rightarrow> nat \<Rightarrow> string" where
  "natToString fuel radix n =
     (case fuel of 0 \<Rightarrow> [digitChar (n mod radix)]
      | Suc k \<Rightarrow> (if n < radix then [digitChar n]
                  else natToString k radix (n div radix) @ [digitChar (n mod radix)]))"

text \<open>
  \<open>n.toString(radix)\<close> for an integer \<open>n\<close>; the template literal \<open>`${n}`\<close> is radix 10
  (for integers below \<open>10 ^ 21\<close>, which JavaScript writes without an exponent). A number
  \<open>n\<close> has at most \<open>n + 1\<close> digits in every radix from 2 on, so \<open>n\<close> steps are enough.
\<close>

definition numToString :: "nat \<Rightarrow> int \<Rightarrow> string" where
  "numToString radix i =
     (if i < 0 then CHR ''-'' # natToString (nat (- i)) radix (nat (- i))
      else natToString (nat i) radix (nat i))"

definition padStart :: "nat \<Rightarrow> char \<Rightarrow> string \<Rightarrow> string" where
  "padStart n c s = replicate (n - length s) c @ s"

text \<open>The value of a character as a digit; 36 when it is no digit in any radix.\<close>

definition digitValue :: "char \<Rightarrow> nat" where
  "digitValue c =
     (let n = (of_char c :: nat) in
      if 48 \<le> n \<and> n \<le> 57 then n - 48
      else if 97 \<le> n \<and> n \<le> 122 then n - 87
      else if 65 \<le> n \<and> n \<le> 90 then n - 55
      else 36)"

definition isRadixDigit :: "nat \<Rightarrow> char \<Rightarrow> bool" where
  "isRadixDigit radix c = (digitValue c < radix)"

definition isWhiteSpace :: "char \<Rightarrow> bool" where
  "isWhiteSpace c = ((of_char c :: nat) \<in> {9, 10, 11, 12, 13, 32, 160})"

fun bitLength :: "nat \<Rightarrow> nat \<Rightarrow> nat" where
  "bitLength fuel n =
     (case fuel of 0 \<Rightarrow> 0
      | Suc k \<Rightarrow> (if n = 0 then 0 else Suc (bitLength k (n div 2))))"

text \<open>
  The integer an IEEE double holds after rounding \<open>n\<close> to 53 significant bits, ties to even
  (\<open>n\<close> below \<open>2 ^ 1024\<close>, which every number parsed here is unless it has more than 308 digits).
\<close>

definition toDouble :: "nat \<Rightarrow> nat" where
  "toDouble n =
     (if n < 2 ^ 53 then n
      else
        (let e = bitLength n n - 53;
             q = n div 2 ^ e;
             r = n mod 2 ^ e;
             half = 2 ^ (e - 1)
         in if r < half then q * 2 ^ e
            else if half < r then (q + 1) * 2 ^ e
            else if even q then q * 2 ^ e
            else (q + 1) * 2 ^ e))"

definition mathInt :: "nat \<Rightarrow> string \<Rightarrow> nat" where
  "mathInt radix z = foldl (\<lambda>a c. a * radix + digitValue c) 0 z"

text \<open>\<open>parseInt(str, radix)\<close> for radix 10 or 16; \<open>None\<close> is \<open>NaN\<close>.\<close>

definition parseInt :: "string \<Rightarrow> nat \<Rightarrow> int option" where
  "parseInt str radix =
     (let s = dropWhile isWhiteSpace str;
          neg = (take 1 s = ''-'');
          s1 = (if take 1 s = ''-'' \<or> take 1 s = ''+'' then drop 1 s else s);
          s2 = (if radix = 16 \<and> (take 2 s1 = ''0x'' \<or> take 2 s1 = ''0X'') then drop 2 s1 else s1);
          z = takeWhile (isRadixDigit radix) s2
      in if z = [] then None
         else if neg then Some (- int (toDouble (mathInt radix z)))
         else Some (int (toDouble (mathInt radix z))))"

text \<open>The regular expression \<open>/^[a-f0-9]{32}$/i\<close>.\<close>

definition isHex32 :: "string \<Rightarrow> bool" where
  "isHex32 s = (length s = 32 \<and> list_all (isRadixDigit 16) s)"

section \<open>HMAC\<close>

text \<open>
  \<open>crypto.createHmac('sha256', secret).update(data).digest()\<close> belongs to the platform, not to
  the repository: the digest function is a parameter \<open>H\<close> of the model, giving the 256-bit
  digest as a number. \<open>digest('hex')\<close> writes it as 64 lowercase hexadecimal digits.
\<close>

type_synonym hmac = "string \<Rightarrow> string \<Rightarrow> nat"

fun hexPad :: "nat \<Rightarrow> nat \<Rightarrow> string" where
  "hexPad k v = (case k of 0 \<Rightarrow> [] | Suc j \<Rightarrow> hexPad j (v div 16) @ [digitChar (v mod 16)])"

definition hmacHex :: "hmac \<Rightarrow> string \<Rightarrow> string \<Rightarrow> string" where
  "hmacHex H secret data = hexPad 64 (H secret data mod 2 ^ 256)"

text \<open>
  A concrete digest function, used only to run the model on concrete inputs; every theorem
  that mentions a digest function holds for an arbitrary one.
\<close>

definition sampleHmac :: hmac where
  "sampleHmac secret data =
     foldl (\<lambda>h c. (h * 31 + of_char c) mod 4294967291) 7 (secret @ CHR ''|'' # data)
       * (2 ^ 224 + 1)"

section \<open>The validation service (cryptoValidation.ts)\<close>

record ValidationKeys =
  temporalKey :: string
  payloadKey :: string
  identityKey :: string

record PlayerData =
  playerAddress :: string
  scoreAmount :: int
  transactionAmount :: int

record StampedData = PlayerData +
  timestamp :: int

record ValidationRequest = StampedData +
  validationKeys :: ValidationKeys

record ClientValidationRequest = StampedData +
  clientNonce :: string

text \<open>The fields of \<open>class CryptoValidationService\<close>: the three secrets and the four used-sets.\<close>

record CryptoValidationService =
  SERVER_TEMPORAL_SECRET :: string
  SERVER_PAYLOAD_SECRET :: string
  SERVER_IDENTITY_SECRET :: string
  usedTemporalKeys :: "string set"
  usedPayloadKeys :: "string set"
  usedIdentityKeys :: "string set"
  usedNonces :: "string set"

text \<open>A check's result \<open>{ valid: boolean; error?: string }\<close>.\<close>

datatype Validation = Valid | Invalid string

datatype SecurityLevel = HIGH | MEDIUM | LOW | FAILED

record KeysResult =
  valid :: bool
  errors :: "string list"
  securityLevel :: SecurityLevel

record ClientResult = KeysResult +
  generatedKeys :: "ValidationKeys option"

record ChallengeResponse =
  challenge :: string
  expiresAt :: int

definition generateNonceChallenge ::
  "hmac \<Rightarrow> int \<Rightarrow> CryptoValidationService \<Rightarrow> string \<Rightarrow> ChallengeResponse" where
  "generateNonceChallenge H now svc player =
     (let timestampHex = padStart 8 CHR ''0'' (numToString 16 (now div 1000));
          challengeData = player @ ''-'' @ timestampHex;
          challengeSignature = take 8 (hmacHex H (SERVER_TEMPORAL_SECRET svc) challengeData)
      in \<lparr>challenge = timestampHex @ challengeSignature, expiresAt = now + 5 * 60 * 1000\<rparr>)"

text \<open>
  \<open>validateNonceWithChallenge\<close> (lines 117-178). \<open>now\<close> is the value of \<open>Date.now()\<close>. The
  function reads no used-set and writes none. A comparison with \<open>NaN\<close> is false, so a
  timestamp or suffix that does not parse passes the checks on it.
\<close>

definition challengeAgeError :: "int \<Rightarrow> string \<Rightarrow> string option" where
  "challengeAgeError now timestampHex =
     (case parseInt timestampHex 16 of
        None \<Rightarrow> None
      | Some seconds \<Rightarrow>
          (let challengeTimestamp = seconds * 1000;
               challengeAge = now - challengeTimestamp
           in if 5 * 60 * 1000 < challengeAge then Some ''Challenge expired''
              else if challengeAge < - 60 * 1000 then Some ''Challenge timestamp invalid''
              else None))"

definition predictableSuffix :: "string \<Rightarrow> bool" where
  "predictableSuffix nonceSuffix =
     (case parseInt nonceSuffix 16 of
        None \<Rightarrow> False
      | Some suffixNum \<Rightarrow> suffixNum = 0 \<or> suffixNum mod 1000 = 0)"

definition validateNonceWithChallenge ::
  "hmac \<Rightarrow> int \<Rightarrow> CryptoValidationService \<Rightarrow> string \<Rightarrow> string \<Rightarrow> Validation" where
  "validateNonceWithChallenge H now svc nonce player =
     (if \<not> isHex32 nonce then Invalid ''Invalid nonce format''
      else
        (let challengePart = take 16 nonce;
             nonceSuffix = drop 16 nonce;
             timestampHex = take 8 challengePart;
             receivedSignature = drop 8 challengePart;
             challengeData = player @ ''-'' @ timestampHex;
             expectedSignature = take 8 (hmacHex H (SERVER_TEMPORAL_SECRET svc) challengeData)
         in if receivedSignature \<noteq> expectedSignature then Invalid ''Invalid challenge signature''
            else
              (case challengeAgeError now timestampHex of
                 Some e \<Rightarrow> Invalid e
               | None \<Rightarrow>
                   if length nonceSuffix \<noteq> 16 then Invalid ''Invalid nonce suffix length''
                   else if predictableSuffix nonceSuffix then Invalid ''Predictable nonce suffix''
                   else Valid)))"

text \<open>
  \<open>generateSecureValidationKeys\<close> (lines 181-213). The three values of
  \<open>crypto.randomBytes(n).toString('hex')\<close> are inputs.
\<close>

record RandomHex =
  temporalNonce :: string
  payloadSalt :: string
  sessionId :: string

definition generateSecureValidationKeys ::
  "hmac \<Rightarrow> RandomHex \<Rightarrow> CryptoValidationService \<Rightarrow> ClientValidationRequest \<Rightarrow> ValidationKeys" where
  "generateSecureValidationKeys H rnd svc clientRequest =
     (let temporalData = numToString 10 (timestamp clientRequest) @ ''-'' @ temporalNonce rnd
            @ ''-'' @ clientNonce clientRequest;
          payloadData = playerAddress clientRequest @ ''-'' @ numToString 10 (scoreAmount clientRequest)
            @ ''-'' @ numToString 10 (transactionAmount clientRequest) @ ''-'' @ payloadSalt rnd
            @ ''-'' @ numToString 10 (timestamp clientRequest);
          identityData = playerAddress clientRequest @ ''-'' @ numToString 10 (timestamp clientRequest)
            @ ''-'' @ sessionId rnd @ ''-'' @ clientNonce clientRequest
      in \<lparr>temporalKey = temporalData @ '':'' @ hmacHex H (SERVER_TEMPORAL_SECRET svc) temporalData,
          payloadKey = payloadData @ '':'' @ hmacHex H (SERVER_PAYLOAD_SECRET svc) payloadData,
          identityKey = identityData @ '':'' @ hmacHex H (SERVER_IDENTITY_SECRET svc) identityData\<rparr>)"

text \<open>
  \<open>validateClientRequest\<close> (lines 254-336): the errors are collected in the order of the
  source; the used-sets change only when there is none.
\<close>

definition nonceErrors ::
  "hmac \<Rightarrow> int \<Rightarrow> CryptoValidationService \<Rightarrow> ClientValidationRequest \<Rightarrow> string list" where
  "nonceErrors H now svc clientRequest =
     (if clientNonce clientRequest = [] \<or> length (clientNonce clientRequest) \<noteq> 32
      then [''Invalid client nonce format'']
      else if clientNonce clientRequest \<in> usedNonces svc
      then [''Nonce has already been used'']
      else (case validateNonceWithChallenge H now svc (clientNonce clientRequest)
                   (playerAddress clientRequest) of
              Valid \<Rightarrow> []
            | Invalid e \<Rightarrow> [''Nonce challenge validation failed: '' @ e]))"

definition requestKeyOf :: "ClientValidationRequest \<Rightarrow> string" where
  "requestKeyOf clientRequest = playerAddress clientRequest @ ''-'' @ clientNonce clientRequest"

definition windowKeyOf :: "ClientValidationRequest \<Rightarrow> string" where
  "windowKeyOf clientRequest =
     playerAddress clientRequest @ ''-'' @ numToString 10 (timestamp clientRequest div (30 * 1000))"

definition clientRequestErrors ::
  "hmac \<Rightarrow> int \<Rightarrow> CryptoValidationService \<Rightarrow> ClientValidationRequest \<Rightarrow> string list" where
  "clientRequestErrors H now svc clientRequest =
     (if playerAddress clientRequest = [] \<or> \<not> startsWith (playerAddress clientRequest) ''0x''
      then [''Invalid player address''] else [])
     @ (if scoreAmount clientRequest < 0 \<or> 1000000 < scoreAmount clientRequest
        then [''Invalid score amount''] else [])
     @ (if transactionAmount clientRequest < 0 \<or> 1000 < transactionAmount clientRequest
        then [''Invalid transaction amount''] else [])
     @ (if 5 * 60 * 1000 < \<bar>now - timestamp clientRequest\<bar>
        then [''Request timestamp too old or invalid''] else [])
     @ nonceErrors H now svc clientRequest
     @ (if requestKeyOf clientRequest \<in> usedTemporalKeys svc
        then [''Duplicate request nonce detected''] else [])
     @ (if windowKeyOf clientRequest \<in> usedPayloadKeys svc
        then [''Too many requests in timestamp window''] else [])"

definition validateClientRequest ::
  "hmac \<Rightarrow> int \<Rightarrow> RandomHex \<Rightarrow> CryptoValidationService \<Rightarrow> ClientValidationRequest
     \<Rightarrow> ClientResult \<times> CryptoValidationService" where
  "validateClientRequest H now rnd svc clientRequest =
     (let errs = clientRequestErrors H now svc clientRequest
      in if errs = []
         then (\<lparr>valid = True, errors = [], securityLevel = HIGH,
                 generatedKeys = Some (generateSecureValidationKeys H rnd svc clientRequest)\<rparr>,
               svc\<lparr>usedTemporalKeys := insert (requestKeyOf clientRequest) (usedTemporalKeys svc),
                   usedPayloadKeys := insert (windowKeyOf clientRequest) (usedPayloadKeys svc),
                   usedNonces := insert (clientNonce clientRequest) (usedNonces svc)\<rparr>)
         else (\<lparr>valid = False, errors = errs, securityLevel = FAILED, generatedKeys = None\<rparr>, svc))"

text \<open>\<open>signClientKeys\<close> (lines 480-504): the server signs whatever strings the client sent.\<close>

definition signClientKeys :: "hmac \<Rightarrow> CryptoValidationService \<Rightarrow> ValidationKeys \<Rightarrow> ValidationKeys" where
  "signClientKeys H svc clientKeys =
     \<lparr>temporalKey = temporalKey clientKeys @ '':''
        @ hmacHex H (SERVER_TEMPORAL_SECRET svc) (temporalKey clientKeys),
      payloadKey = payloadKey clientKeys @ '':''
        @ hmacHex H (SERVER_PAYLOAD_SECRET svc) (payloadKey clientKeys),
      identityKey = identityKey clientKeys @ '':''
        @ hmacHex H (SERVER_IDENTITY_SECRET svc) (identityKey clientKeys)\<rparr>"

text \<open>
  The three validators (lines 506-657). \<open>const [data, signature] = key.split(':')\<close> takes the
  first two fields; a missing or empty one is a format error.
\<close>

definition validateTemporalKey ::
  "hmac \<Rightarrow> CryptoValidationService \<Rightarrow> string \<Rightarrow> int \<Rightarrow> Validation" where
  "validateTemporalKey H svc key requestTimestamp =
     (case splitOn CHR '':'' key of
        dat # signature # rest \<Rightarrow>
          if dat = [] \<or> signature = [] then Invalid ''Invalid temporal key format''
          else if key \<in> usedTemporalKeys svc then Invalid ''Temporal key already used''
          else if signature \<noteq> hmacHex H (SERVER_TEMPORAL_SECRET svc) dat
          then Invalid ''Invalid temporal key signature''
          else
            (case splitOn CHR ''-'' dat of
               timestampStr # others \<Rightarrow>
                 (case parseInt timestampStr 10 of
                    None \<Rightarrow> Invalid ''Invalid timestamp in temporal key''
                  | Some keyTimestamp \<Rightarrow>
                      if 2 * 60 * 1000 < \<bar>requestTimestamp - keyTimestamp\<bar>
                      then Invalid ''Temporal key expired or invalid timestamp''
                      else Valid)
             | [] \<Rightarrow> Invalid ''Invalid timestamp in temporal key'')
      | _ \<Rightarrow> Invalid ''Invalid temporal key format'')"

definition validatePayloadKey ::
  "hmac \<Rightarrow> CryptoValidationService \<Rightarrow> string \<Rightarrow> string \<Rightarrow> int \<Rightarrow> int \<Rightarrow> Validation" where
  "validatePayloadKey H svc key player score txs =
     (case splitOn CHR '':'' key of
        dat # signature # rest \<Rightarrow>
          if dat = [] \<or> signature = [] then Invalid ''Invalid payload key format''
          else if key \<in> usedPayloadKeys svc then Invalid ''Payload key already used''
          else if signature \<noteq> hmacHex H (SERVER_PAYLOAD_SECRET svc) dat
          then Invalid ''Invalid payload key signature''
          else
            (case splitOn CHR ''-'' dat of
               [keyPlayerAddress, keyScoreAmount, keyTransactionAmount, salt] \<Rightarrow>
                 if keyPlayerAddress \<noteq> player
                 then Invalid ''Player address mismatch in payload key''
                 else if parseInt keyScoreAmount 10 \<noteq> Some score
                 then Invalid ''Score amount mismatch in payload key''
                 else if parseInt keyTransactionAmount 10 \<noteq> Some txs
                 then Invalid ''Transaction amount mismatch in payload key''
                 else Valid
             | _ \<Rightarrow> Invalid ''Invalid payload key data format'')
      | _ \<Rightarrow> Invalid ''Invalid payload key format'')"

definition validateIdentityKey ::
  "hmac \<Rightarrow> CryptoValidationService \<Rightarrow> string \<Rightarrow> string \<Rightarrow> int \<Rightarrow> Validation" where
  "validateIdentityKey H svc key player requestTimestamp =
     (case splitOn CHR '':'' key of
        dat # signature # rest \<Rightarrow>
          if dat = [] \<or> signature = [] then Invalid ''Invalid identity key format''
          else if key \<in> usedIdentityKeys svc then Invalid ''Identity key already used''
          else if signature \<noteq> hmacHex H (SERVER_IDENTITY_SECRET svc) dat
          then Invalid ''Invalid identity key signature''
          else
            (case splitOn CHR ''-'' dat of
               [keyPlayerAddress, keyTimestamp, session] \<Rightarrow>
                 if keyPlayerAddress \<noteq> player
                 then Invalid ''Player address mismatch in identity key''
                 else
                   (case parseInt keyTimestamp 10 of
                      None \<Rightarrow> Invalid ''Invalid timestamp in identity key''
                    | Some identityTimestamp \<Rightarrow>
                        if 2 * 60 * 1000 < \<bar>requestTimestamp - identityTimestamp\<bar>
                        then Invalid ''Identity key timestamp too old''
                        else Valid)
             | _ \<Rightarrow> Invalid ''Invalid identity key data format'')
      | _ \<Rightarrow> Invalid ''Invalid identity key format'')"

definition markKeysAsUsed :: "CryptoValidationService \<Rightarrow> ValidationKeys \<Rightarrow> CryptoValidationService" where
  "markKeysAsUsed svc keys =
     svc\<lparr>usedTemporalKeys := insert (temporalKey keys) (usedTemporalKeys svc),
         usedPayloadKeys := insert (payloadKey keys) (usedPayloadKeys svc),
         usedIdentityKeys := insert (identityKey keys) (usedIdentityKeys svc)\<rparr>"

text \<open>\<open>validateKeys\<close> (lines 405-477).\<close>

definition keyError :: "string \<Rightarrow> Validation \<Rightarrow> string list" where
  "keyError prefix v = (case v of Valid \<Rightarrow> [] | Invalid e \<Rightarrow> [prefix @ e])"

definition keyCount :: "Validation \<Rightarrow> nat" where
  "keyCount v = (case v of Valid \<Rightarrow> 1 | Invalid e \<Rightarrow> 0)"

definition securityLevelOf :: "nat \<Rightarrow> SecurityLevel" where
  "securityLevelOf validKeyCount =
     (if validKeyCount = 3 then HIGH
      else if validKeyCount = 2 then MEDIUM
      else if validKeyCount = 1 then LOW
      else FAILED)"

definition validateKeys ::
  "hmac \<Rightarrow> CryptoValidationService \<Rightarrow> ValidationKeys \<Rightarrow> ValidationRequest
     \<Rightarrow> KeysResult \<times> CryptoValidationService" where
  "validateKeys H svc clientValidationKeys request =
     (let serverSignedKeys = signClientKeys H svc clientValidationKeys;
          temporalValid = validateTemporalKey H svc (temporalKey serverSignedKeys) (timestamp request);
          payloadValid = validatePayloadKey H svc (payloadKey serverSignedKeys)
            (playerAddress request) (scoreAmount request) (transactionAmount request);
          identityValid = validateIdentityKey H svc (identityKey serverSignedKeys)
            (playerAddress request) (timestamp request);
          errs = keyError ''Temporal key validation failed: '' temporalValid
            @ keyError ''Payload key validation failed: '' payloadValid
            @ keyError ''Identity key validation failed: '' identityValid;
          validKeyCount = keyCount temporalValid + keyCount payloadValid + keyCount identityValid;
          allValid = (validKeyCount = 3)
      in (\<lparr>valid = allValid, errors = errs, securityLevel = securityLevelOf validKeyCount\<rparr>,
          if allValid then markKeysAsUsed svc serverSignedKeys else svc))"

text \<open>
  \<open>cleanupOldKeys\<close> (lines 665-677), which the constructor schedules every 30 minutes: when
  the four used-sets hold more than 10000 entries together, all four are cleared, whatever
  the age of the entries. (The sets of the code are finite.)
\<close>

definition oldSize :: "CryptoValidationService \<Rightarrow> nat" where
  "oldSize svc =
     card (usedTemporalKeys svc) + card (usedPayloadKeys svc) + card (usedIdentityKeys svc)
       + card (usedNonces svc)"

definition cleanupOldKeys :: "CryptoValidationService \<Rightarrow> CryptoValidationService" where
  "cleanupOldKeys svc =
     (if 10000 < oldSize svc
      then svc\<lparr>usedTemporalKeys := {}, usedPayloadKeys := {}, usedIdentityKeys := {},
               usedNonces := {}\<rparr>
      else svc)"

text \<open>
  The timestamp a key carries, as the validators read it from the string the client sent
  (lines 532-533 and 636-642): the first \<open>-\<close>-field of the temporal key's data, the second of
  the identity key's three.
\<close>

definition temporalKeyTimestamp :: "string \<Rightarrow> int option" where
  "temporalKeyTimestamp key =
     (case splitOn CHR '':'' key of
        dat # rest \<Rightarrow>
          (case splitOn CHR ''-'' dat of
             timestampStr # others \<Rightarrow> parseInt timestampStr 10
           | [] \<Rightarrow> None)
      | [] \<Rightarrow> None)"

definition identityKeyTimestamp :: "string \<Rightarrow> int option" where
  "identityKeyTimestamp key =
     (case splitOn CHR '':'' key of
        dat # rest \<Rightarrow>
          (case splitOn CHR ''-'' dat of
             [keyPlayerAddress, keyTimestamp, session] \<Rightarrow> parseInt keyTimestamp 10
           | _ \<Rightarrow> None)
      | [] \<Rightarrow> None)"

section \<open>The signing service (signMessage.ts)\<close>

record SignatureResult =
  signature :: string
  message :: string
  signer :: string
  nonce :: string
  signedAt :: int

text \<open>
  What the platform supplies to \<open>signScoreSubmission\<close>: the 32 random bytes of
  \<open>generateNonce\<close> in hexadecimal, and what \<open>walletClient.signMessage\<close> does (\<open>Inl\<close> is the message
  of the error it throws, \<open>Inr\<close> the signature).
\<close>

record SigningEnv =
  generatedNonce :: string
  walletSignature :: "string + string"
  signerAddress :: string

definition createMessage :: "string \<Rightarrow> int \<Rightarrow> int \<Rightarrow> string \<Rightarrow> int \<Rightarrow> string" where
  "createMessage player score txs n t =
     ''ScoreSubmission:'' @ player @ '':'' @ numToString 10 score @ '':'' @ numToString 10 txs
       @ '':'' @ n @ '':'' @ numToString 10 t"

text \<open>
  \<open>signScoreSubmission\<close> (lines 72-121): \<open>Inl\<close> is the message of the error thrown. The set of
  used signing nonces is only read.
\<close>

definition signScoreSubmission ::
  "int \<Rightarrow> SigningEnv \<Rightarrow> string set \<Rightarrow> string \<Rightarrow> int \<Rightarrow> int \<Rightarrow> string + SignatureResult" where
  "signScoreSubmission now senv used player score txs =
     (case (if player = [] then Inl ''Invalid player address''
            else if score < 0 then Inl ''Invalid score amount''
            else if txs < 0 then Inl ''Invalid transaction amount''
            else if generatedNonce senv \<in> used then Inl ''Nonce collision detected''
            else (case walletSignature senv of
                    Inl m \<Rightarrow> Inl m
                  | Inr sg \<Rightarrow>
                      Inr \<lparr>signature = sg,
                           message = createMessage player score txs (generatedNonce senv) now,
                           signer = signerAddress senv,
                           nonce = generatedNonce senv,
                           signedAt = now\<rparr>)) of
        Inl m \<Rightarrow> Inl (''Failed to sign message: '' @ m)
      | Inr r \<Rightarrow> Inr r)"

text \<open>
  \<open>verifySignature\<close> (lines 126-174), the only function that adds to the set of used signing
  nonces; \<open>now\<close> is \<open>Date.now()\<close>. No file of the repository calls it.
\<close>

definition verifySignature ::
  "int \<Rightarrow> string set \<Rightarrow> string \<Rightarrow> string \<Rightarrow> string \<Rightarrow> int \<Rightarrow> int \<Rightarrow> Validation \<times> string set" where
  "verifySignature now used sg msg n signed maxAge =
     (if maxAge < now - signed then (Invalid ''Signature expired'', used)
      else if n \<in> used then (Invalid ''Nonce already used'', used)
      else (case splitOn CHR '':'' msg of
              [tag, player, sc, txs, n', ts] \<Rightarrow>
                if tag = ''ScoreSubmission'' then (Valid, insert n used)
                else (Invalid ''Invalid message format'', used)
            | _ \<Rightarrow> (Invalid ''Invalid message format'', used)))"

text \<open>
  \<open>cleanupOldNonces\<close> (lines 207-212), scheduled every 10 minutes, clears the set of used
  signing nonces.
\<close>

definition cleanupOldNonces :: "string set \<Rightarrow> string set" where
  "cleanupOldNonces used = {}"

section \<open>The route update-player-data\<close>

record ScoreTrackingEntry =
  totalScore :: int
  requests :: int
  firstRequest :: int

record HourlyEntry =
  score :: int
  transactions :: int
  since :: int

record AntiAbuse =
  hourlyScore :: int
  hourlyTransactions :: int
  sessionRequests :: int

record SuccessResult =
  transactionHash :: string
  cryptoValidationLevel :: SecurityLevel
  resultNonce :: string
  resultTimestamp :: int
  antiAbuse :: AntiAbuse

text \<open>What a dedup entry stores: \<open>{ processing: true }\<close> or the successful result.\<close>

datatype DedupResult = Processing | Processed SuccessResult

record DedupEntry =
  reservedAt :: int
  result :: DedupResult

text \<open>
  The module's state: the two services, the three maps of the route, and the successful calls
  of \<open>writeContract\<close> in order (the ledger, which lives outside the process).
\<close>

record ServerState =
  cryptoService :: CryptoValidationService
  signingUsedNonces :: "string set"
  scoreTracking :: "string \<rightharpoonup> ScoreTrackingEntry"
  hourlyLimits :: "string \<rightharpoonup> HourlyEntry"
  processedRequests :: "string \<rightharpoonup> DedupEntry"
  contractWrites :: "PlayerData list"

record RequestBody = PlayerData +
  bodyValidationKeys :: "ValidationKeys option"

text \<open>
  The request: the headers the route reads and what \<open>await request.json()\<close> gives (\<open>Inl\<close> is
  the message of the error it throws). The fields of the body have the types the client
  sends: a string and two integers.
\<close>

record HttpRequest =
  origin :: "string option"
  referer :: "string option"
  userAgent :: "string option"
  csrfToken :: "string option"
  body :: "string + RequestBody"

record RateLimitResult =
  allowed :: bool
  resetTime :: int

text \<open>
  What the route takes from outside the repository's files during one request: the clock
  (one reading of \<open>Date.now()\<close> stands for all of a request), the environment variables, the
  two answers of \<open>rateLimit\<close>, \<open>isValidAddress\<close>, the signing platform, and what the
  blockchain calls of lines 445-477 do, \<open>walletClient.writeContract\<close> last (\<open>Inl\<close> is the
  message of the error thrown there, \<open>Inr\<close> the transaction hash). The validation service is
  the instance its constructor has built, which cannot fail; the signing service is built on
  first use (\<open>getSigningService\<close> below). The index of the RPC endpoint, which picks the URL
  only, is left out.
\<close>

record Env =
  now :: int
  appUrl :: "string option"
  ipRateLimit :: RateLimitResult
  playerRateLimit :: RateLimitResult
  isValidAddress :: "string \<Rightarrow> bool"
  signingEnv :: SigningEnv
  walletPrivateKey :: "string option"
  writeContract :: "string + string"

datatype Payload =
    OriginForbidden
  | IpRateLimitExceeded int
  | PlayerRateLimitExceeded int
  | HourlyScoreLimitExceeded int int int
  | HourlyTransactionLimitExceeded int int
  | RequestTooFrequent int
  | SuspiciousScoringPattern
  | MissingValidationKeys
  | CryptoValidationFailed "string list" SecurityLevel
  | InvalidCsrfToken
  | MissingRequiredFields
  | InvalidAddressFormat
  | NegativeAmounts
  | ScoreTooHigh int
  | TooManyTransactions int
  | ScoreTooSmall
  | ScorePerTransactionTooHigh
  | ScorePerTransactionTooLow
  | AlreadyProcessed DedupResult
  | ServerConfigurationError
  | Updated SuccessResult
  | InsufficientFunds
  | ContractExecutionFailed
  | WalletUnauthorized
  | TransactionNonceError
  | UpdateFailed

record Response =
  status :: nat
  payload :: Payload

text \<open>
  \<open>createAuthenticatedResponse\<close> (auth.ts): the body sent is \<open>{ ...data, timestamp: Date.now(),
  serverSignature }\<close>, so a \<open>timestamp\<close> the data brings is overwritten with the time of the
  response. Of the data the route passes, only the result of a commit, fresh or stored in the
  dedup cache, has a \<open>timestamp\<close>. The signature and the headers are not part of \<open>Response\<close>.
\<close>

definition createAuthenticatedResponse :: "int \<Rightarrow> Payload \<Rightarrow> nat \<Rightarrow> Response" where
  "createAuthenticatedResponse t data st =
     \<lparr>status = st,
      payload =
        (case data of
           Updated r \<Rightarrow> Updated (r\<lparr>resultTimestamp := t\<rparr>)
         | AlreadyProcessed d \<Rightarrow>
             (case d of
                Processing \<Rightarrow> AlreadyProcessed Processing
              | Processed r \<Rightarrow> AlreadyProcessed (Processed (r\<lparr>resultTimestamp := t\<rparr>)))
         | _ \<Rightarrow> data)\<rparr>"

text \<open>\<open>validateOrigin\<close> (auth.ts).\<close>

definition allowedOrigins :: "string option \<Rightarrow> string list" where
  "allowedOrigins url =
     [''http://localhost:3000'', ''https://localhost:3000'', ''https://chopupnad.vercel.app'',
      ''https://www.chopupnad.fun/'', ''https://chopupnad.fun/'']
     @ (case url of None \<Rightarrow> [] | Some u \<Rightarrow> if u = [] then [] else [u])"

definition validateOrigin :: "string option \<Rightarrow> HttpRequest \<Rightarrow> bool" where
  "validateOrigin url request =
     (let originListed = (case origin request of
                            None \<Rightarrow> False
                          | Some og \<Rightarrow> og \<in> set (allowedOrigins url));
          refererListed = (case referer request of
                             None \<Rightarrow> False
                           | Some r \<Rightarrow> list_ex (\<lambda>a. startsWith r (a @ ''/'')) (allowedOrigins url))
      in if originListed \<or> refererListed
         then (case userAgent request of
                 None \<Rightarrow> False
               | Some ua \<Rightarrow>
                   if ua = [] \<or> includesStr ua ''curl'' \<or> includesStr ua ''wget''
                      \<or> includesStr ua ''Postman''
                   then False else True)
         else False)"

text \<open>\<open>isValidCSRFFormat\<close> (lines 113-142).\<close>

definition isValidCSRFFormat :: "int \<Rightarrow> string \<Rightarrow> bool" where
  "isValidCSRFFormat t token =
     (case splitOn CHR ''-'' token of
        [session, timestampStr, n, suffix] \<Rightarrow>
          if session = [] \<or> timestampStr = [] \<or> n = [] then False
          else if suffix = ''client''
          then (case parseInt timestampStr 10 of
                  None \<Rightarrow> False
                | Some ts \<Rightarrow> if 5 * 60 * 1000 < t - ts then False else True)
          else False
      | _ \<Rightarrow> False)"

text \<open>The \<open>catch\<close> block of the route (lines 515-552): the status follows the error's message.\<close>

definition errorResponse :: "int \<Rightarrow> string \<Rightarrow> Response" where
  "errorResponse t msg =
     (if includesStr msg ''insufficient funds''
      then createAuthenticatedResponse t InsufficientFunds 400
      else if includesStr msg ''execution reverted''
      then createAuthenticatedResponse t ContractExecutionFailed 400
      else if includesStr msg ''AccessControlUnauthorizedAccount''
      then createAuthenticatedResponse t WalletUnauthorized 403
      else if includesStr msg ''nonce'' then createAuthenticatedResponse t TransactionNonceError 400
      else createAuthenticatedResponse t UpdateFailed 500)"

definition MAX_SCORE_PER_HOUR :: int where "MAX_SCORE_PER_HOUR = 30000"
definition MAX_TRANSACTIONS_PER_HOUR :: int where "MAX_TRANSACTIONS_PER_HOUR = 120"
definition MAX_SCORE_PER_MINUTE_AVG :: int where "MAX_SCORE_PER_MINUTE_AVG = 3000"
definition MAX_SCORE_PER_REQUEST :: int where "MAX_SCORE_PER_REQUEST = 1000"
definition MAX_TRANSACTIONS_PER_REQUEST :: int where "MAX_TRANSACTIONS_PER_REQUEST = 3"
definition MIN_SCORE_PER_REQUEST :: int where "MIN_SCORE_PER_REQUEST = 1"
definition MAX_SCORE_PER_TRANSACTION :: int where "MAX_SCORE_PER_TRANSACTION = 1000"
definition MIN_SCORE_PER_TRANSACTION :: int where "MIN_SCORE_PER_TRANSACTION = 5"

definition hourlyKeyOf :: "int \<Rightarrow> string \<Rightarrow> string" where
  "hourlyKeyOf t player = player @ '':'' @ numToString 10 (t div (60 * 60 * 1000))"

definition hourlyDataOf :: "int \<Rightarrow> ServerState \<Rightarrow> string \<Rightarrow> HourlyEntry" where
  "hourlyDataOf t s player =
     (case hourlyLimits s (hourlyKeyOf t player) of
        None \<Rightarrow> \<lparr>score = 0, transactions = 0, since = t\<rparr>
      | Some d \<Rightarrow> d)"

definition behaviorDataOf :: "int \<Rightarrow> ServerState \<Rightarrow> string \<Rightarrow> ScoreTrackingEntry" where
  "behaviorDataOf t s player =
     (case scoreTracking s player of
        None \<Rightarrow> \<lparr>totalScore = 0, requests = 0, firstRequest = t\<rparr>
      | Some d \<Rightarrow> d)"

text \<open>Tier 3 (lines 210-238): the prospective hourly totals against the ceilings.\<close>

definition hourlyLimitCheck :: "int \<Rightarrow> HourlyEntry \<Rightarrow> int \<Rightarrow> int \<Rightarrow> Response option" where
  "hourlyLimitCheck t hourlyData sc txs =
     (if MAX_SCORE_PER_HOUR < score hourlyData + sc
      then Some (createAuthenticatedResponse t
                   (HourlyScoreLimitExceeded (score hourlyData) sc
                      (MAX_SCORE_PER_HOUR - score hourlyData)) 429)
      else if MAX_TRANSACTIONS_PER_HOUR < transactions hourlyData + txs
      then Some (createAuthenticatedResponse t
                   (HourlyTransactionLimitExceeded (transactions hourlyData) txs) 429)
      else None)"

text \<open>
  Tier 4 (lines 240-270). The average \<open>totalScore * 60000 / sessionDuration\<close> is compared
  with the ceiling without the division.
\<close>

definition behaviorCheck :: "int \<Rightarrow> ScoreTrackingEntry \<Rightarrow> Response option" where
  "behaviorCheck t behaviorData =
     (let timeSinceLastRequest = t - (firstRequest behaviorData + requests behaviorData * 1000);
          sessionDuration = t - firstRequest behaviorData
      in if 0 < requests behaviorData \<and> timeSinceLastRequest < 5000
         then Some (createAuthenticatedResponse t
                      (RequestTooFrequent (5000 - timeSinceLastRequest)) 429)
         else if 0 < sessionDuration
                 \<and> MAX_SCORE_PER_MINUTE_AVG * sessionDuration < totalScore behaviorData * 60000
                 \<and> 5 < requests behaviorData
         then Some (createAuthenticatedResponse t SuspiciousScoringPattern 429)
         else None)"

text \<open>Tiers 2 to 4, after the body is parsed: no state is written.\<close>

definition admission :: "Env \<Rightarrow> ServerState \<Rightarrow> RequestBody \<Rightarrow> Response option" where
  "admission env s b =
     (if \<not> allowed (playerRateLimit env)
      then Some (createAuthenticatedResponse (now env)
                   (PlayerRateLimitExceeded (resetTime (playerRateLimit env))) 429)
      else (case hourlyLimitCheck (now env) (hourlyDataOf (now env) s (playerAddress b))
                   (scoreAmount b) (transactionAmount b) of
              Some r \<Rightarrow> Some r
            | None \<Rightarrow> behaviorCheck (now env) (behaviorDataOf (now env) s (playerAddress b))))"

text \<open>Layers 4 to 6 (lines 308-408): CSRF token, required fields, address, amounts.\<close>

definition requestChecks :: "Env \<Rightarrow> HttpRequest \<Rightarrow> RequestBody \<Rightarrow> Response option" where
  "requestChecks env request b =
     (if (case csrfToken request of
            None \<Rightarrow> True
          | Some token \<Rightarrow> token = [] \<or> \<not> isValidCSRFFormat (now env) token)
      then Some (createAuthenticatedResponse (now env) InvalidCsrfToken 401)
      else if playerAddress b = []
      then Some (createAuthenticatedResponse (now env) MissingRequiredFields 400)
      else if \<not> isValidAddress env (playerAddress b)
      then Some (createAuthenticatedResponse (now env) InvalidAddressFormat 400)
      else if scoreAmount b < 0 \<or> transactionAmount b < 0
      then Some (createAuthenticatedResponse (now env) NegativeAmounts 400)
      else if MAX_SCORE_PER_REQUEST < scoreAmount b
      then Some (createAuthenticatedResponse (now env) (ScoreTooHigh (scoreAmount b)) 400)
      else if MAX_TRANSACTIONS_PER_REQUEST < transactionAmount b
      then Some (createAuthenticatedResponse (now env)
                   (TooManyTransactions (transactionAmount b)) 400)
      else if scoreAmount b < MIN_SCORE_PER_REQUEST \<and> scoreAmount b \<noteq> 0
      then Some (createAuthenticatedResponse (now env) ScoreTooSmall 400)
      else if 0 < transactionAmount b
              \<and> MAX_SCORE_PER_TRANSACTION * transactionAmount b < scoreAmount b
      then Some (createAuthenticatedResponse (now env) ScorePerTransactionTooHigh 400)
      else if 0 < transactionAmount b
              \<and> scoreAmount b < MIN_SCORE_PER_TRANSACTION * transactionAmount b
      then Some (createAuthenticatedResponse (now env) ScorePerTransactionTooLow 400)
      else None)"

text \<open>
  The blockchain section (lines 435-513), entered with the dedup entry reserved: the counters
  and the stored result are written after \<open>writeContract\<close> has returned. The answer to an
  unset private key (lines 436-443) is built by \<open>NextResponse.json\<close>; the route cannot get
  there, because \<open>getSigningService\<close> has thrown before.
\<close>

definition commitSubmission ::
  "Env \<Rightarrow> ServerState \<Rightarrow> RequestBody \<Rightarrow> SecurityLevel \<Rightarrow> SignatureResult \<Rightarrow> string
     \<Rightarrow> HourlyEntry \<Rightarrow> ScoreTrackingEntry \<Rightarrow> Response \<times> ServerState" where
  "commitSubmission env s b level signedData dedupKey hourlyData behaviorData =
     (if (case walletPrivateKey env of None \<Rightarrow> True | Some k \<Rightarrow> k = [])
      then (\<lparr>status = 500, payload = ServerConfigurationError\<rparr>, s)
      else
        (case writeContract env of
           Inl msg \<Rightarrow> (errorResponse (now env) msg, s)
         | Inr hash \<Rightarrow>
             (let successResult =
                    \<lparr>transactionHash = hash,
                     cryptoValidationLevel = level,
                     resultNonce = nonce signedData,
                     resultTimestamp = now env,
                     antiAbuse =
                       \<lparr>hourlyScore = score hourlyData + scoreAmount b,
                        hourlyTransactions = transactions hourlyData + transactionAmount b,
                        sessionRequests = requests behaviorData + 1\<rparr>\<rparr>
              in (createAuthenticatedResponse (now env) (Updated successResult) 200,
                  s\<lparr>hourlyLimits := (hourlyLimits s)
                       (hourlyKeyOf (now env) (playerAddress b) \<mapsto>
                          \<lparr>score = score hourlyData + scoreAmount b,
                           transactions = transactions hourlyData + transactionAmount b,
                           since = since hourlyData\<rparr>),
                    scoreTracking := (scoreTracking s)
                       (playerAddress b \<mapsto>
                          \<lparr>totalScore = totalScore behaviorData + scoreAmount b,
                           requests = requests behaviorData + 1,
                           firstRequest = firstRequest behaviorData\<rparr>),
                    processedRequests := (processedRequests s)
                       (dedupKey \<mapsto> \<lparr>reservedAt = now env, result = Processed successResult\<rparr>),
                    contractWrites := contractWrites s
                       @ [\<lparr>playerAddress = playerAddress b, scoreAmount = scoreAmount b,
                            transactionAmount = transactionAmount b\<rparr>]\<rparr>))))"

text \<open>
  \<open>getSigningService\<close> (signMessage.ts, lines 231-238) builds the signing service when there is
  none; its constructor (lines 24-53) throws when \<open>WALLET_PRIVATE_KEY\<close> is unset or empty, and
  then there is still none at the next call. \<open>Inl\<close> is the message of that error, \<open>Inr\<close> the
  service, which is what the platform does when it signs. (A key that is set is taken to be
  one \<open>privateKeyToAccount\<close> accepts.)
\<close>

definition getSigningService :: "Env \<Rightarrow> string + SigningEnv" where
  "getSigningService env =
     (case walletPrivateKey env of
        None \<Rightarrow> Inl ''WALLET_PRIVATE_KEY environment variable not set''
      | Some k \<Rightarrow>
          if k = [] then Inl ''WALLET_PRIVATE_KEY environment variable not set''
          else Inr (signingEnv env))"

text \<open>
  Layers 8 and 9 (lines 410-433): the signing service, the signing, then the dedup lookup and
  reservation. An error thrown by either of the first two is answered by the \<open>catch\<close> block
  before anything is reserved.
\<close>

definition processSubmission ::
  "Env \<Rightarrow> ServerState \<Rightarrow> RequestBody \<Rightarrow> SecurityLevel \<Rightarrow> HourlyEntry \<Rightarrow> ScoreTrackingEntry
     \<Rightarrow> Response \<times> ServerState" where
  "processSubmission env s b level hourlyData behaviorData =
     (case getSigningService env of
        Inl msg \<Rightarrow> (errorResponse (now env) msg, s)
      | Inr signingService \<Rightarrow>
          (case signScoreSubmission (now env) signingService (signingUsedNonces s)
                  (playerAddress b) (scoreAmount b) (transactionAmount b) of
             Inl msg \<Rightarrow> (errorResponse (now env) msg, s)
           | Inr signedData \<Rightarrow>
               (let dedupKey = playerAddress b @ ''-'' @ nonce signedData
                in (case processedRequests s dedupKey of
                      Some existingResult \<Rightarrow>
                        (createAuthenticatedResponse (now env)
                           (AlreadyProcessed (result existingResult)) 200, s)
                    | None \<Rightarrow>
                        commitSubmission env
                          (s\<lparr>processedRequests := (processedRequests s)
                               (dedupKey \<mapsto> \<lparr>reservedAt = now env, result = Processing\<rparr>)\<rparr>)
                          b level signedData dedupKey hourlyData behaviorData))))"

text \<open>Layer 3 (lines 272-306): the three keys are required, then validated.\<close>

definition keysPresent :: "RequestBody \<Rightarrow> ValidationKeys option" where
  "keysPresent b =
     (case bodyValidationKeys b of
        None \<Rightarrow> None
      | Some keys \<Rightarrow>
          if temporalKey keys = [] \<or> payloadKey keys = [] \<or> identityKey keys = [] then None
          else Some keys)"

definition validationRequestOf :: "Env \<Rightarrow> RequestBody \<Rightarrow> ValidationKeys \<Rightarrow> ValidationRequest" where
  "validationRequestOf env b keys =
     \<lparr>playerAddress = playerAddress b, scoreAmount = scoreAmount b,
      transactionAmount = transactionAmount b, timestamp = now env, validationKeys = keys\<rparr>"

text \<open>\<open>POST\<close> (lines 158-553): the response and the state after the request.\<close>

definition POST :: "hmac \<Rightarrow> Env \<Rightarrow> ServerState \<Rightarrow> HttpRequest \<Rightarrow> Response \<times> ServerState" where
  "POST H env s request =
     (if \<not> validateOrigin (appUrl env) request
      then (createAuthenticatedResponse (now env) OriginForbidden 403, s)
      else if \<not> allowed (ipRateLimit env)
      then (createAuthenticatedResponse (now env)
              (IpRateLimitExceeded (resetTime (ipRateLimit env))) 429, s)
      else
        (case body request of
           Inl msg \<Rightarrow> (errorResponse (now env) msg, s)
         | Inr b \<Rightarrow>
             (case admission env s b of
                Some r \<Rightarrow> (r, s)
              | None \<Rightarrow>
                  (case keysPresent b of
                     None \<Rightarrow> (createAuthenticatedResponse (now env) MissingValidationKeys 400, s)
                   | Some keys \<Rightarrow>
                       (let cv = validateKeys H (cryptoService s) keys (validationRequestOf env b keys);
                            s1 = s\<lparr>cryptoService := snd cv\<rparr>
                        in if \<not> valid (fst cv)
                           then (createAuthenticatedResponse (now env)
                                   (CryptoValidationFailed (errors (fst cv))
                                      (securityLevel (fst cv))) 401, s1)
                           else (case requestChecks env request b of
                                   Some r \<Rightarrow> (r, s1)
                                 | None \<Rightarrow>
                                     processSubmission env s1 b (securityLevel (fst cv))
                                       (hourlyDataOf (now env) s (playerAddress b))
                                       (behaviorDataOf (now env) s (playerAddress b))))))))"

text \<open>
  The two timers of the route's module; \<open>t\<close> is \<open>Date.now()\<close> when the timer runs. Every 10
  minutes (lines 95-110) the entries of the hourly map and of the behaviour map that are
  older than an hour are deleted; every 2 minutes (lines 149-156) the dedup entries older
  than \<open>REQUEST_DEDUP_WINDOW\<close>.
\<close>

definition REQUEST_DEDUP_WINDOW :: int where "REQUEST_DEDUP_WINDOW = 5 * 60 * 1000"

definition cleanupTracking :: "int \<Rightarrow> ServerState \<Rightarrow> ServerState" where
  "cleanupTracking t s =
     s\<lparr>hourlyLimits :=
         (\<lambda>key. case hourlyLimits s key of
                  None \<Rightarrow> None
                | Some d \<Rightarrow> if 60 * 60 * 1000 < t - since d then None else Some d),
       scoreTracking :=
         (\<lambda>key. case scoreTracking s key of
                  None \<Rightarrow> None
                | Some d \<Rightarrow> if 60 * 60 * 1000 < t - firstRequest d then None else Some d)\<rparr>"

definition cleanupProcessedRequests :: "int \<Rightarrow> ServerState \<Rightarrow> ServerState" where
  "cleanupProcessedRequests t s =
     s\<lparr>processedRequests :=
         (\<lambda>key. case processedRequests s key of
                  None \<Rightarrow> None
                | Some d \<Rightarrow> if REQUEST_DEDUP_WINDOW < t - reservedAt d then None else Some d)\<rparr>"

text \<open>
  \<open>generateClientValidationKeys\<close> (lines 836-868): what the client sends as keys. It holds no
  secret; the three random values and the client's clock are inputs.
\<close>

definition generateClientValidationKeys ::
  "int \<Rightarrow> RandomHex \<Rightarrow> string \<Rightarrow> int \<Rightarrow> int \<Rightarrow> ValidationKeys" where
  "generateClientValidationKeys t rnd player sc txs =
     \<lparr>temporalKey = numToString 10 t @ ''-'' @ temporalNonce rnd,
      payloadKey = player @ ''-'' @ numToString 10 sc @ ''-'' @ numToString 10 txs
        @ ''-'' @ payloadSalt rnd,
      identityKey = player @ ''-'' @ numToString 10 t @ ''-'' @ sessionId rnd\<rparr>"

section \<open>The server over time\<close>

text \<open>
  Everything that changes the module's state: a request to the route, a call of
  \<open>validateClientRequest\<close> or of \<open>verifySignature\<close> (by code that is not among the files), and
  the four timers. A run is a sequence of such events, one after the other.
\<close>

datatype Event =
    Submission Env HttpRequest
  | KeyRequest int RandomHex ClientValidationRequest
  | SignatureCheck int string string string int int
  | KeysCleanup
  | NoncesCleanup
  | TrackingCleanup int
  | DedupCleanup int

fun step :: "hmac \<Rightarrow> ServerState \<Rightarrow> Event \<Rightarrow> ServerState" where
  "step H s (Submission env request) = snd (POST H env s request)"
| "step H s (KeyRequest t rnd clientRequest) =
     s\<lparr>cryptoService := snd (validateClientRequest H t rnd (cryptoService s) clientRequest)\<rparr>"
| "step H s (SignatureCheck t sg msg n signed maxAge) =
     s\<lparr>signingUsedNonces :=
         snd (verifySignature t (signingUsedNonces s) sg msg n signed maxAge)\<rparr>"
| "step H s KeysCleanup = s\<lparr>cryptoService := cleanupOldKeys (cryptoService s)\<rparr>"
| "step H s NoncesCleanup = s\<lparr>signingUsedNonces := cleanupOldNonces (signingUsedNonces s)\<rparr>"
| "step H s (TrackingCleanup t) = cleanupTracking t s"
| "step H s (DedupCleanup t) = cleanupProcessedRequests t s"

fun run :: "hmac \<Rightarrow> ServerState \<Rightarrow> Event list \<Rightarrow> ServerState" where
  "run H s [] = s"
| "run H s (e # es) = run H (step H s e) es"

text \<open>Whether one of the key cleanups of a run finds more than 10000 entries and clears the sets.\<close>

fun keysCleared :: "hmac \<Rightarrow> ServerState \<Rightarrow> Event list \<Rightarrow> bool" where
  "keysCleared H s [] = False"
| "keysCleared H s (e # es) =
     ((case e of KeysCleanup \<Rightarrow> 10000 < oldSize (cryptoService s) | _ \<Rightarrow> False)
      \<or> keysCleared H (step H s e) es)"

text \<open>Whether one of the dedup sweeps of a run comes more than the window after \<open>t\<close>.\<close>

fun sweptAfter :: "int \<Rightarrow> Event list \<Rightarrow> bool" where
  "sweptAfter t [] = False"
| "sweptAfter t (e # es) =
     ((case e of DedupCleanup t' \<Rightarrow> REQUEST_DEDUP_WINDOW < t' - t | _ \<Rightarrow> False)
      \<or> sweptAfter t es)"

section \<open>Observations on a request\<close>

text \<open>
  A response is accepted when it carries the successful result (the only response built after
  \<open>writeContract\<close> has returned), a duplicate when it answers from the dedup entry with
  \<open>duplicate: true\<close>, and an hourly score rejection when it is the answer of the hourly score
  ceiling.
\<close>

definition accepted :: "Response \<Rightarrow> bool" where
  "accepted r = (case payload r of Updated res \<Rightarrow> True | _ \<Rightarrow> False)"

definition duplicate :: "Response \<Rightarrow> bool" where
  "duplicate r = (case payload r of AlreadyProcessed d \<Rightarrow> True | _ \<Rightarrow> False)"

definition hourlyScoreRejection :: "Response \<Rightarrow> bool" where
  "hourlyScoreRejection r = (case payload r of HourlyScoreLimitExceeded c q m \<Rightarrow> True | _ \<Rightarrow> False)"

text \<open>The key of the dedup entry (line 419): the player and the nonce of the signing service.\<close>

definition dedupKeyOf :: "Env \<Rightarrow> RequestBody \<Rightarrow> string" where
  "dedupKeyOf env b = playerAddress b @ ''-'' @ generatedNonce (signingEnv env)"

text \<open>
  A request reaches the call of \<open>writeContract\<close> when every layer before it lets it pass: the
  origin, both rate limiters, the body, tiers 3 and 4, the keys, layers 4 to 6, the signing,
  the dedup lookup and the private key. The two states are the ones the route leaves from
  there: the counters, the stored result and the ledger written after a successful call, or
  only the used keys and the reserved dedup entry after a failed one.
\<close>

definition reachesCommit ::
  "hmac \<Rightarrow> Env \<Rightarrow> ServerState \<Rightarrow> HttpRequest \<Rightarrow> RequestBody \<Rightarrow> ValidationKeys \<Rightarrow> bool" where
  "reachesCommit H env s request b keys =
     (validateOrigin (appUrl env) request \<and> allowed (ipRateLimit env) \<and> body request = Inr b
      \<and> admission env s b = None \<and> keysPresent b = Some keys
      \<and> valid (fst (validateKeys H (cryptoService s) keys (validationRequestOf env b keys)))
      \<and> requestChecks env request b = None
      \<and> playerAddress b \<noteq> [] \<and> 0 \<le> scoreAmount b \<and> 0 \<le> transactionAmount b
      \<and> generatedNonce (signingEnv env) \<notin> signingUsedNonces s
      \<and> (case walletSignature (signingEnv env) of Inl m \<Rightarrow> False | Inr sg \<Rightarrow> True)
      \<and> processedRequests s (dedupKeyOf env b) = None
      \<and> (case walletPrivateKey env of None \<Rightarrow> False | Some k \<Rightarrow> k \<noteq> []))"

text \<open>
  A request passes every layer other than the hourly score ceiling: the conditions of
  \<open>reachesCommit\<close> with the score comparison of tier 3 left out.
\<close>

definition passesOtherLayers ::
  "hmac \<Rightarrow> Env \<Rightarrow> ServerState \<Rightarrow> HttpRequest \<Rightarrow> RequestBody \<Rightarrow> ValidationKeys \<Rightarrow> bool" where
  "passesOtherLayers H env s request b keys =
     (validateOrigin (appUrl env) request \<and> allowed (ipRateLimit env) \<and> body request = Inr b
      \<and> allowed (playerRateLimit env)
      \<and> transactions (hourlyDataOf (now env) s (playerAddress b)) + transactionAmount b
            \<le> MAX_TRANSACTIONS_PER_HOUR
      \<and> behaviorCheck (now env) (behaviorDataOf (now env) s (playerAddress b)) = None
      \<and> keysPresent b = Some keys
      \<and> valid (fst (validateKeys H (cryptoService s) keys (validationRequestOf env b keys)))
      \<and> requestChecks env request b = None
      \<and> playerAddress b \<noteq> [] \<and> 0 \<le> scoreAmount b \<and> 0 \<le> transactionAmount b
      \<and> generatedNonce (signingEnv env) \<notin> signingUsedNonces s
      \<and> (case walletSignature (signingEnv env) of Inl m \<Rightarrow> False | Inr sg \<Rightarrow> True)
      \<and> processedRequests s (dedupKeyOf env b) = None
      \<and> (case walletPrivateKey env of None \<Rightarrow> False | Some k \<Rightarrow> k \<noteq> []))"

definition stateAfterCommit ::
  "hmac \<Rightarrow> Env \<Rightarrow> ServerState \<Rightarrow> RequestBody \<Rightarrow> ValidationKeys \<Rightarrow> string \<Rightarrow> ServerState" where
  "stateAfterCommit H env s b keys hash =
     s\<lparr>cryptoService := markKeysAsUsed (cryptoService s) (signClientKeys H (cryptoService s) keys),
       hourlyLimits := (hourlyLimits s)
         (hourlyKeyOf (now env) (playerAddress b) \<mapsto>
            \<lparr>score = score (hourlyDataOf (now env) s (playerAddress b)) + scoreAmount b,
             transactions = transactions (hourlyDataOf (now env) s (playerAddress b))
               + transactionAmount b,
             since = since (hourlyDataOf (now env) s (playerAddress b))\<rparr>),
       scoreTracking := (scoreTracking s)
         (playerAddress b \<mapsto>
            \<lparr>totalScore = totalScore (behaviorDataOf (now env) s (playerAddress b)) + scoreAmount b,
             requests = requests (behaviorDataOf (now env) s (playerAddress b)) + 1,
             firstRequest = firstRequest (behaviorDataOf (now env) s (playerAddress b))\<rparr>),
       processedRequests := (processedRequests s)
         (dedupKeyOf env b \<mapsto>
            \<lparr>reservedAt = now env,
             result = Processed
               \<lparr>transactionHash = hash, cryptoValidationLevel = HIGH,
                resultNonce = generatedNonce (signingEnv env), resultTimestamp = now env,
                antiAbuse =
                  \<lparr>hourlyScore = score (hourlyDataOf (now env) s (playerAddress b)) + scoreAmount b,
                   hourlyTransactions = transactions (hourlyDataOf (now env) s (playerAddress b))
                     + transactionAmount b,
                   sessionRequests = requests (behaviorDataOf (now env) s (playerAddress b)) + 1\<rparr>\<rparr>\<rparr>),
       contractWrites := contractWrites s
         @ [\<lparr>playerAddress = playerAddress b, scoreAmount = scoreAmount b,
              transactionAmount = transactionAmount b\<rparr>]\<rparr>"

definition stateAfterFailure ::
  "hmac \<Rightarrow> Env \<Rightarrow> ServerState \<Rightarrow> RequestBody \<Rightarrow> ValidationKeys \<Rightarrow> ServerState" where
  "stateAfterFailure H env s b keys =
     s\<lparr>cryptoService := markKeysAsUsed (cryptoService s) (signClientKeys H (cryptoService s) keys),
       processedRequests := (processedRequests s)
         (dedupKeyOf env b \<mapsto> \<lparr>reservedAt = now env, result = Processing\<rparr>)\<rparr>"

section \<open>Concrete inputs\<close>

text \<open>
  A service with three secrets and empty used-sets, an empty module state, and the requests
  of one player, used to run the model.
\<close>

definition sampleService :: CryptoValidationService where
  "sampleService =
     \<lparr>SERVER_TEMPORAL_SECRET = ''temporal-secret'', SERVER_PAYLOAD_SECRET = ''payload-secret'',
      SERVER_IDENTITY_SECRET = ''identity-secret'', usedTemporalKeys = {}, usedPayloadKeys = {},
      usedIdentityKeys = {}, usedNonces = {}\<rparr>"

definition sampleState :: ServerState where
  "sampleState =
     \<lparr>cryptoService = sampleService, signingUsedNonces = {}, scoreTracking = Map.empty,
      hourlyLimits = Map.empty, processedRequests = Map.empty, contractWrites = []\<rparr>"

definition samplePlayer :: string where
  "samplePlayer = ''0x1234567890123456789012345678901234567890''"

definition sampleIsValidAddress :: "string \<Rightarrow> bool" where
  "sampleIsValidAddress a =
     (length a = 42 \<and> startsWith a ''0x'' \<and> list_all (isRadixDigit 16) (drop 2 a))"

text \<open>
  The outside world at time \<open>t\<close>: both rate limiters allow the request, the signing service
  draws the nonce \<open>n\<close>, and \<open>writeContract\<close> does \<open>w\<close>.
\<close>

definition sampleEnv :: "int \<Rightarrow> string \<Rightarrow> string + string \<Rightarrow> Env" where
  "sampleEnv t n w =
     \<lparr>now = t, appUrl = None,
      ipRateLimit = \<lparr>allowed = True, resetTime = t + 60000\<rparr>,
      playerRateLimit = \<lparr>allowed = True, resetTime = t + 60000\<rparr>,
      isValidAddress = sampleIsValidAddress,
      signingEnv = \<lparr>generatedNonce = n, walletSignature = Inr ''0xsignature'',
                    signerAddress = ''0xserver''\<rparr>,
      walletPrivateKey = Some ''0xprivatekey'',
      writeContract = w\<rparr>"

definition sampleRequest :: "string \<Rightarrow> ValidationKeys \<Rightarrow> int \<Rightarrow> int \<Rightarrow> HttpRequest" where
  "sampleRequest token keys sc txs =
     \<lparr>origin = Some ''http://localhost:3000'', referer = None, userAgent = Some ''Mozilla/5.0'',
      csrfToken = Some token,
      body = Inr \<lparr>playerAddress = samplePlayer, scoreAmount = sc, transactionAmount = txs,
                  bodyValidationKeys = Some keys\<rparr>\<rparr>"

text \<open>Three key triples as \<open>generateClientValidationKeys\<close> builds them, for 150 points and 2 transactions.\<close>

definition keys1 :: ValidationKeys where
  "keys1 = \<lparr>temporalKey = ''1700000000000-a1b2c3d4'',
            payloadKey = ''0x1234567890123456789012345678901234567890-150-2-e5f6a7b8'',
            identityKey = ''0x1234567890123456789012345678901234567890-1700000000000-c9d0e1f2''\<rparr>"

definition keys2 :: ValidationKeys where
  "keys2 = \<lparr>temporalKey = ''1700000006000-11223344'',
            payloadKey = ''0x1234567890123456789012345678901234567890-150-2-55667788'',
            identityKey = ''0x1234567890123456789012345678901234567890-1700000006000-99aabbcc''\<rparr>"

definition keys3 :: ValidationKeys where
  "keys3 = \<lparr>temporalKey = ''1700000008000-0a0b0c0d'',
            payloadKey = ''0x1234567890123456789012345678901234567890-150-2-1a1b1c1d'',
            identityKey = ''0x1234567890123456789012345678901234567890-1700000008000-2a2b2c2d''\<rparr>"

definition request1 :: HttpRequest where
  "request1 = sampleRequest ''sess1-1700000000000-n1-client'' keys1 150 2"

definition request2 :: HttpRequest where
  "request2 = sampleRequest ''sess2-1700000006000-n2-client'' keys2 150 2"

definition request3 :: HttpRequest where
  "request3 = sampleRequest ''sess3-1700000008000-n3-client'' keys3 150 2"

text \<open>
  A request for keys: the nonce is the challenge issued to the player at 1700000000000
  followed by a 16-digit suffix.
\<close>

definition sampleNonce :: string where
  "sampleNonce = ''6553f1005375cba39f3c2a7b5d1e4f60''"

definition sampleRandom :: RandomHex where
  "sampleRandom = \<lparr>temporalNonce = ''aa'', payloadSalt = ''bb'', sessionId = ''cc''\<rparr>"

definition sampleClientRequest :: ClientValidationRequest where
  "sampleClientRequest =
     \<lparr>playerAddress = samplePlayer, scoreAmount = 150, transactionAmount = 2,
      timestamp = 1700000000000, clientNonce = sampleNonce\<rparr>"

definition sampleValidationRequest :: "int \<Rightarrow> int \<Rightarrow> ValidationRequest" where
  "sampleValidationRequest sc t =
     \<lparr>playerAddress = samplePlayer, scoreAmount = sc, transactionAmount = 2,
      timestamp = t, validationKeys = keys1\<rparr>"

text \<open>
  The same player's three requests at 1700000000000, six seconds later and two seconds after
  that, each with its own keys, its own signing nonce and a successful \<open>writeContract\<close>; the
  first request sent again three and seven seconds after it was accepted; and the first
  request when \<open>writeContract\<close> times out.
\<close>

definition sampleBody :: "ValidationKeys \<Rightarrow> int \<Rightarrow> int \<Rightarrow> RequestBody" where
  "sampleBody keys sc txs =
     \<lparr>playerAddress = samplePlayer, scoreAmount = sc, transactionAmount = txs,
      bodyValidationKeys = Some keys\<rparr>"

definition nonce1 :: string where
  "nonce1 = ''aa01aa01aa01aa01aa01aa01aa01aa01aa01aa01aa01aa01aa01aa01aa01aa01''"

definition nonce2 :: string where
  "nonce2 = ''bb02bb02bb02bb02bb02bb02bb02bb02bb02bb02bb02bb02bb02bb02bb02bb02''"

definition nonce3 :: string where
  "nonce3 = ''cc03cc03cc03cc03cc03cc03cc03cc03cc03cc03cc03cc03cc03cc03cc03cc03''"

definition env1 :: Env where "env1 = sampleEnv 1700000000000 nonce1 (Inr ''0xhash1'')"

definition env2 :: Env where "env2 = sampleEnv 1700000006000 nonce2 (Inr ''0xhash2'')"

definition env3 :: Env where "env3 = sampleEnv 1700000008000 nonce3 (Inr ''0xhash3'')"

definition envRetry :: Env where "envRetry = sampleEnv 1700000003000 nonce2 (Inr ''0xhash2'')"

definition envLate :: Env where "envLate = sampleEnv 1700000007000 nonce3 (Inr ''0xhash3'')"

definition envFail :: Env where
  "envFail = sampleEnv 1700000000000 nonce1 (Inl ''The request took too long to respond.'')"

definition stateAfter1 :: ServerState where
  "stateAfter1 = snd (POST sampleHmac env1 sampleState request1)"

definition stateAfter2 :: ServerState where
  "stateAfter2 = snd (POST sampleHmac env2 stateAfter1 request2)"

text \<open>
  A state in which the player's accepted requests of the current hour sum to 29900 points
  (30 requests since 1699999300000), and two requests at 1700000000000 for 100 and for 200
  points.
\<close>

definition sampleHourKey :: string where
  "sampleHourKey = ''0x1234567890123456789012345678901234567890:472222''"

definition keys4 :: ValidationKeys where
  "keys4 = \<lparr>temporalKey = ''1700000000000-3a3b3c3d'',
            payloadKey = ''0x1234567890123456789012345678901234567890-100-1-4a4b4c4d'',
            identityKey = ''0x1234567890123456789012345678901234567890-1700000000000-5a5b5c5d''\<rparr>"

definition request100 :: HttpRequest where
  "request100 = sampleRequest ''sess4-1700000000000-n4-client'' keys4 100 1"

definition request200 :: HttpRequest where
  "request200 = sampleRequest ''sess4-1700000000000-n4-client'' keys4 200 1"

definition busyState :: ServerState where
  "busyState =
     sampleState
       \<lparr>scoreTracking :=
          [samplePlayer \<mapsto> \<lparr>totalScore = 29900, requests = 30, firstRequest = 1699999300000\<rparr>],
        hourlyLimits :=
          [sampleHourKey \<mapsto>
             \<lparr>score = 29900, transactions = 60, since = 1699999300000\<rparr>]\<rparr>"

text \<open>
  A service that has marked the keys of 3334 accepted submissions, 10002 entries in all. The
  strings stand for the server-signed keys: the cleanup looks at their number only.
\<close>

definition usedKeysOf :: "string \<Rightarrow> nat \<Rightarrow> string set" where
  "usedKeysOf prefix n = (\<lambda>i. prefix @ replicate i CHR ''1'') ` {..<n}"

definition fullService :: CryptoValidationService where
  "fullService =
     sampleService
       \<lparr>usedTemporalKeys := usedKeysOf ''temporal-'' 3334,
        usedPayloadKeys := usedKeysOf ''payload-'' 3334,
        usedIdentityKeys := usedKeysOf ''identity-'' 3334\<rparr>"

definition fullState :: ServerState where
  "fullState = sampleState\<lparr>cryptoService := fullService\<rparr>"

text \<open>The sample request for keys, at the time it carries, as an event.\<close>

definition sampleKeyRequest :: Event where
  "sampleKeyRequest = KeyRequest 1700000000000 sampleRandom sampleClientRequest"

section \<open>Strings: splitting and digests\<close>

declare natToString.simps [simp del] hexPad.simps [simp del] bitLength.simps [simp del]

declare createAuthenticatedResponse_def [simp]

lemmas string_defs = startsWith_def digitChar_def numToString_def padStart_def digitValue_def
  isRadixDigit_def isWhiteSpace_def toDouble_def mathInt_def parseInt_def isHex32_def

lemmas sample_defs = sampleService_def sampleState_def samplePlayer_def sampleIsValidAddress_def
  sampleEnv_def sampleRequest_def keys1_def keys2_def keys3_def request1_def request2_def
  request3_def sampleNonce_def sampleRandom_def sampleClientRequest_def
  sampleValidationRequest_def

lemma splitOn_nonempty: "splitOn c s \<noteq> []"
  by (induction s) (auto split: list.splits)

lemma splitOn_no_sep: "c \<notin> set s \<Longrightarrow> splitOn c s = [s]"
  by (induction s) auto

lemma splitOn_append_sep: "splitOn c (a @ c # b) = splitOn c a @ splitOn c b"
  by (induction a) (auto split: list.splits simp: splitOn_nonempty)

lemma hexPad_0: "hexPad 0 v = []"
  by (simp add: hexPad.simps)

lemma hexPad_Suc: "hexPad (Suc k) v = hexPad k (v div 16) @ [digitChar (v mod 16)]"
  by (subst hexPad.simps) simp

lemma length_hexPad: "length (hexPad k v) = k"
  by (induction k arbitrary: v) (simp_all add: hexPad_0 hexPad_Suc)

lemma digitChar_alnum: "digitChar d \<in> set ''0123456789abcdefghijklmnopqrstuvwxyz''"
  unfolding digitChar_def by (rule nth_mem) simp

lemma set_hexPad: "set (hexPad k v) \<subseteq> set ''0123456789abcdefghijklmnopqrstuvwxyz''"
proof (induction k arbitrary: v)
  case 0
  then show ?case by (simp add: hexPad_0)
next
  case (Suc k)
  from Suc [of "v div 16"] digitChar_alnum [of "v mod 16"] show ?case
    unfolding hexPad_Suc by simp
qed

lemma hmacHex_length: "length (hmacHex H secret dat) = 64"
  by (simp add: hmacHex_def length_hexPad)

lemma hmacHex_nonempty: "hmacHex H secret dat \<noteq> []"
  using hmacHex_length [of H secret dat] by auto

lemma hmacHex_no_colon: "CHR '':'' \<notin> set (hmacHex H secret dat)"
proof
  assume "CHR '':'' \<in> set (hmacHex H secret dat)"
  with set_hexPad [of 64 "H secret dat mod 2 ^ 256"]
  have "CHR '':'' \<in> set ''0123456789abcdefghijklmnopqrstuvwxyz''"
    unfolding hmacHex_def by blast
  then show False by simp
qed

lemma splitOn_hmacHex: "splitOn CHR '':'' (hmacHex H secret dat) = [hmacHex H secret dat]"
  by (rule splitOn_no_sep [OF hmacHex_no_colon])

text \<open>The fields of a server-signed key: those of the client's string, then the digest.\<close>

lemma splitOn_signed_parts:
  "splitOn CHR '':'' (k @ CHR '':'' # hmacHex H secret k')
     = splitOn CHR '':'' k @ [hmacHex H secret k']"
  by (simp add: splitOn_append_sep splitOn_hmacHex)

lemma splitOn_signed:
  "CHR '':'' \<notin> set k \<Longrightarrow>
   splitOn CHR '':'' (k @ CHR '':'' # hmacHex H secret k) = [k, hmacHex H secret k]"
  by (simp add: splitOn_signed_parts splitOn_no_sep)

lemma signed_temporal:
  "temporalKey (signClientKeys H svc keys)
     = temporalKey keys @ '':'' @ hmacHex H (SERVER_TEMPORAL_SECRET svc) (temporalKey keys)"
  by (simp add: signClientKeys_def)

lemma signed_payload:
  "payloadKey (signClientKeys H svc keys)
     = payloadKey keys @ '':'' @ hmacHex H (SERVER_PAYLOAD_SECRET svc) (payloadKey keys)"
  by (simp add: signClientKeys_def)

lemma signed_identity:
  "identityKey (signClientKeys H svc keys)
     = identityKey keys @ '':'' @ hmacHex H (SERVER_IDENTITY_SECRET svc) (identityKey keys)"
  by (simp add: signClientKeys_def)

section \<open>The three keys together\<close>

lemma valid_iff_all:
  "valid (fst (validateKeys H svc keys request))
     \<longleftrightarrow> validateTemporalKey H svc (temporalKey (signClientKeys H svc keys)) (timestamp request) = Valid
       \<and> validatePayloadKey H svc (payloadKey (signClientKeys H svc keys)) (playerAddress request)
            (scoreAmount request) (transactionAmount request) = Valid
       \<and> validateIdentityKey H svc (identityKey (signClientKeys H svc keys)) (playerAddress request)
            (timestamp request) = Valid"
  by (cases "validateTemporalKey H svc (temporalKey (signClientKeys H svc keys)) (timestamp request)";
      cases "validatePayloadKey H svc (payloadKey (signClientKeys H svc keys)) (playerAddress request)
               (scoreAmount request) (transactionAmount request)";
      cases "validateIdentityKey H svc (identityKey (signClientKeys H svc keys)) (playerAddress request)
               (timestamp request)")
     (simp_all add: validateKeys_def Let_def keyCount_def)

lemma usedNonces_validateKeys:
  "usedNonces (snd (validateKeys H svc keys request)) = usedNonces svc"
  by (simp add: validateKeys_def Let_def markKeysAsUsed_def)

text \<open>The keys of the first sample request, validated at the time they carry.\<close>

lemma sample_temporal_valid:
  "validateTemporalKey sampleHmac sampleService
     (temporalKey (signClientKeys sampleHmac sampleService keys1)) 1700000000000 = Valid"
  by (simp add: signClientKeys_def validateTemporalKey_def sampleService_def keys1_def
      splitOn_hmacHex hmacHex_nonempty string_defs Let_def)

lemma sample_payload_valid:
  "validatePayloadKey sampleHmac sampleService
     (payloadKey (signClientKeys sampleHmac sampleService keys1)) samplePlayer 150 2 = Valid"
  by (simp add: signClientKeys_def validatePayloadKey_def sampleService_def keys1_def
      samplePlayer_def splitOn_hmacHex hmacHex_nonempty string_defs Let_def)

lemma sample_payload_mismatch:
  "validatePayloadKey sampleHmac sampleService
     (payloadKey (signClientKeys sampleHmac sampleService keys1)) samplePlayer 151 2
     = Invalid ''Score amount mismatch in payload key''"
  by (simp add: signClientKeys_def validatePayloadKey_def sampleService_def keys1_def
      samplePlayer_def splitOn_hmacHex hmacHex_nonempty string_defs Let_def)

lemma sample_identity_valid:
  "validateIdentityKey sampleHmac sampleService
     (identityKey (signClientKeys sampleHmac sampleService keys1)) samplePlayer 1700000000000 = Valid"
  by (simp add: signClientKeys_def validateIdentityKey_def sampleService_def keys1_def
      samplePlayer_def splitOn_hmacHex hmacHex_nonempty string_defs Let_def)

lemma sample_keys_valid:
  "valid (fst (validateKeys sampleHmac sampleService keys1
      (sampleValidationRequest 150 1700000000000)))"
  by (simp add: valid_iff_all sampleValidationRequest_def sample_temporal_valid
      sample_payload_valid sample_identity_valid)

lemma sample_keys_errors:
  "errors (fst (validateKeys sampleHmac sampleService keys1
      (sampleValidationRequest 150 1700000000000))) = []"
  by (simp add: validateKeys_def Let_def keyError_def sampleValidationRequest_def
      sample_temporal_valid sample_payload_valid sample_identity_valid)

lemma keys1_generated:
  "keys1 = generateClientValidationKeys 1700000000000
      \<lparr>temporalNonce = ''a1b2c3d4'', payloadSalt = ''e5f6a7b8'', sessionId = ''c9d0e1f2''\<rparr>
      samplePlayer 150 2"
  by (simp add: keys1_def generateClientValidationKeys_def samplePlayer_def numToString_def
      natToString.simps digitChar_def)

section \<open>Claim C1: the signature check\<close>

lemma temporal_accept_signature:
  "validateTemporalKey H svc k ts = Valid \<Longrightarrow>
   \<exists>dat sg rest. splitOn CHR '':'' k = dat # sg # rest
      \<and> sg = hmacHex H (SERVER_TEMPORAL_SECRET svc) dat"
  by (auto simp: validateTemporalKey_def split: list.splits if_splits option.splits)

lemma payload_accept_signature:
  "validatePayloadKey H svc k p sc txs = Valid \<Longrightarrow>
   \<exists>dat sg rest. splitOn CHR '':'' k = dat # sg # rest
      \<and> sg = hmacHex H (SERVER_PAYLOAD_SECRET svc) dat"
  by (auto simp: validatePayloadKey_def split: list.splits if_splits option.splits)

lemma identity_accept_signature:
  "validateIdentityKey H svc k p ts = Valid \<Longrightarrow>
   \<exists>dat sg rest. splitOn CHR '':'' k = dat # sg # rest
      \<and> sg = hmacHex H (SERVER_IDENTITY_SECRET svc) dat"
  by (auto simp: validateIdentityKey_def split: list.splits if_splits option.splits)

lemma temporal_signed_no_mismatch:
  "CHR '':'' \<notin> set k \<Longrightarrow>
   validateTemporalKey H svc (k @ '':'' @ hmacHex H (SERVER_TEMPORAL_SECRET svc) k) ts
     \<noteq> Invalid ''Invalid temporal key signature''"
  using splitOn_signed [of k H "SERVER_TEMPORAL_SECRET svc"]
  by (simp add: validateTemporalKey_def split: list.splits option.splits)

lemma payload_signed_no_mismatch:
  "CHR '':'' \<notin> set k \<Longrightarrow>
   validatePayloadKey H svc (k @ '':'' @ hmacHex H (SERVER_PAYLOAD_SECRET svc) k) p sc txs
     \<noteq> Invalid ''Invalid payload key signature''"
  using splitOn_signed [of k H "SERVER_PAYLOAD_SECRET svc"]
  by (simp add: validatePayloadKey_def split: list.splits option.splits)

lemma identity_signed_no_mismatch:
  "CHR '':'' \<notin> set k \<Longrightarrow>
   validateIdentityKey H svc (k @ '':'' @ hmacHex H (SERVER_IDENTITY_SECRET svc) k) p ts
     \<noteq> Invalid ''Invalid identity key signature''"
  using splitOn_signed [of k H "SERVER_IDENTITY_SECRET svc"]
  by (simp add: validateIdentityKey_def split: list.splits option.splits)

text \<open>
  Claim C1, as stated, fails: the three keys below are what the client-side
  \<open>generateClientValidationKeys\<close> builds, with no secret, and \<open>validateKeys\<close> accepts them with
  no error.
\<close>

theorem fabricated_keys_accepted:
  "keys1 = generateClientValidationKeys 1700000000000
      \<lparr>temporalNonce = ''a1b2c3d4'', payloadSalt = ''e5f6a7b8'', sessionId = ''c9d0e1f2''\<rparr>
      samplePlayer 150 2
   \<and> valid (fst (validateKeys sampleHmac sampleService keys1
        (sampleValidationRequest 150 1700000000000)))
   \<and> errors (fst (validateKeys sampleHmac sampleService keys1
        (sampleValidationRequest 150 1700000000000))) = []"
  using keys1_generated sample_keys_valid sample_keys_errors by simp

text \<open>
  Claim C1, amended: \<open>validateKeys\<close> first appends to each string the client sent the HMAC of
  that string under the corresponding server secret (\<open>signClientKeys\<close>). A validator accepts a
  key only if its second \<open>:\<close>-field equals the HMAC of its first \<open>:\<close>-field under the server
  secret; for a client string without \<open>:\<close> the two fields are the client's string and the
  digest the server has just computed, so the comparison never fails, whatever the client
  wrote and whether or not it holds a secret.
\<close>

theorem server_signs_client_keys:
  fixes H :: hmac and svc keys ts p sc txs kt kp ki
  defines "signed \<equiv> signClientKeys H svc keys"
  assumes "CHR '':'' \<notin> set (temporalKey keys)"
      and "CHR '':'' \<notin> set (payloadKey keys)"
      and "CHR '':'' \<notin> set (identityKey keys)"
  shows "validateTemporalKey H svc (temporalKey signed) ts
           \<noteq> Invalid ''Invalid temporal key signature''
       \<and> validatePayloadKey H svc (payloadKey signed) p sc txs
           \<noteq> Invalid ''Invalid payload key signature''
       \<and> validateIdentityKey H svc (identityKey signed) p ts
           \<noteq> Invalid ''Invalid identity key signature''
       \<and> (validateTemporalKey H svc kt ts = Valid \<longrightarrow>
            (\<exists>dat sg rest. splitOn CHR '':'' kt = dat # sg # rest
               \<and> sg = hmacHex H (SERVER_TEMPORAL_SECRET svc) dat))
       \<and> (validatePayloadKey H svc kp p sc txs = Valid \<longrightarrow>
            (\<exists>dat sg rest. splitOn CHR '':'' kp = dat # sg # rest
               \<and> sg = hmacHex H (SERVER_PAYLOAD_SECRET svc) dat))
       \<and> (validateIdentityKey H svc ki p ts = Valid \<longrightarrow>
            (\<exists>dat sg rest. splitOn CHR '':'' ki = dat # sg # rest
               \<and> sg = hmacHex H (SERVER_IDENTITY_SECRET svc) dat))"
  using assms temporal_signed_no_mismatch [of "temporalKey keys" H svc ts]
    payload_signed_no_mismatch [of "payloadKey keys" H svc p sc txs]
    identity_signed_no_mismatch [of "identityKey keys" H svc p ts]
    temporal_accept_signature [of H svc kt ts]
    payload_accept_signature [of H svc kp p sc txs]
    identity_accept_signature [of H svc ki p ts]
  unfolding signed_def signed_temporal signed_payload signed_identity
  by blast

text \<open>
  The sample keys contain no colon; signed by the server, each of them is accepted, and its
  two fields are the client's string and the server's digest of it.
\<close>

theorem server_signs_client_keys_witness:
  "CHR '':'' \<notin> set (temporalKey keys1)
   \<and> CHR '':'' \<notin> set (payloadKey keys1)
   \<and> CHR '':'' \<notin> set (identityKey keys1)
   \<and> validateTemporalKey sampleHmac sampleService
        (temporalKey (signClientKeys sampleHmac sampleService keys1)) 1700000000000 = Valid
   \<and> validatePayloadKey sampleHmac sampleService
        (payloadKey (signClientKeys sampleHmac sampleService keys1)) samplePlayer 150 2 = Valid
   \<and> validateIdentityKey sampleHmac sampleService
        (identityKey (signClientKeys sampleHmac sampleService keys1)) samplePlayer 1700000000000
        = Valid
   \<and> (\<exists>dat sg rest.
         splitOn CHR '':'' (temporalKey (signClientKeys sampleHmac sampleService keys1))
           = dat # sg # rest
         \<and> sg = hmacHex sampleHmac (SERVER_TEMPORAL_SECRET sampleService) dat)
   \<and> (\<exists>dat sg rest.
         splitOn CHR '':'' (payloadKey (signClientKeys sampleHmac sampleService keys1))
           = dat # sg # rest
         \<and> sg = hmacHex sampleHmac (SERVER_PAYLOAD_SECRET sampleService) dat)
   \<and> (\<exists>dat sg rest.
         splitOn CHR '':'' (identityKey (signClientKeys sampleHmac sampleService keys1))
           = dat # sg # rest
         \<and> sg = hmacHex sampleHmac (SERVER_IDENTITY_SECRET sampleService) dat)"
proof -
  have c: "CHR '':'' \<notin> set (temporalKey keys1)" "CHR '':'' \<notin> set (payloadKey keys1)"
    "CHR '':'' \<notin> set (identityKey keys1)"
    by (simp_all add: keys1_def)
  from server_signs_client_keys [OF c, of sampleHmac sampleService 1700000000000 samplePlayer 150 2
      "temporalKey (signClientKeys sampleHmac sampleService keys1)"
      "payloadKey (signClientKeys sampleHmac sampleService keys1)"
      "identityKey (signClientKeys sampleHmac sampleService keys1)"]
    c sample_temporal_valid sample_payload_valid sample_identity_valid
  show ?thesis by blast
qed

section \<open>Claim C4: the security level and the used-sets\<close>

text \<open>
  Claim C4: the security level \<open>validateKeys\<close> returns is HIGH, MEDIUM, LOW or FAILED as three,
  two, one or none of the three checks pass; the result is valid exactly at HIGH; and the
  three server-signed key strings enter their used-sets, all three at once, exactly when the
  result is valid: otherwise the service is unchanged.
\<close>

theorem validateKeys_level_and_marking:
  fixes H :: hmac and svc keys request
  defines "signed \<equiv> signClientKeys H svc keys"
  defines "checks \<equiv>
     [validateTemporalKey H svc (temporalKey signed) (timestamp request),
      validatePayloadKey H svc (payloadKey signed) (playerAddress request) (scoreAmount request)
        (transactionAmount request),
      validateIdentityKey H svc (identityKey signed) (playerAddress request) (timestamp request)]"
  defines "passed \<equiv> length (filter (\<lambda>v. v = Valid) checks)"
  defines "res \<equiv> fst (validateKeys H svc keys request)"
  defines "svc' \<equiv> snd (validateKeys H svc keys request)"
  shows "securityLevel res
           = (if passed = 3 then HIGH else if passed = 2 then MEDIUM
              else if passed = 1 then LOW else FAILED)
         \<and> (valid res \<longleftrightarrow> securityLevel res = HIGH)
         \<and> (valid res \<longleftrightarrow> passed = 3)
         \<and> svc' = (if valid res
                    then svc\<lparr>usedTemporalKeys := insert (temporalKey signed) (usedTemporalKeys svc),
                             usedPayloadKeys := insert (payloadKey signed) (usedPayloadKeys svc),
                             usedIdentityKeys := insert (identityKey signed) (usedIdentityKeys svc)\<rparr>
                    else svc)"
  unfolding signed_def checks_def passed_def res_def svc'_def
  by (cases "validateTemporalKey H svc (temporalKey (signClientKeys H svc keys)) (timestamp request)";
      cases "validatePayloadKey H svc (payloadKey (signClientKeys H svc keys)) (playerAddress request)
               (scoreAmount request) (transactionAmount request)";
      cases "validateIdentityKey H svc (identityKey (signClientKeys H svc keys)) (playerAddress request)
               (timestamp request)")
     (simp_all add: validateKeys_def Let_def keyCount_def securityLevelOf_def markKeysAsUsed_def)

text \<open>
  With the sample keys: all three pass for 150 points (HIGH, valid, the three signed keys
  marked); for 151 points the payload key fails (MEDIUM, not valid, nothing marked).
\<close>

theorem validateKeys_level_and_marking_witness:
  "securityLevel (fst (validateKeys sampleHmac sampleService keys1
      (sampleValidationRequest 150 1700000000000))) = HIGH
   \<and> valid (fst (validateKeys sampleHmac sampleService keys1
        (sampleValidationRequest 150 1700000000000)))
   \<and> usedTemporalKeys (snd (validateKeys sampleHmac sampleService keys1
        (sampleValidationRequest 150 1700000000000)))
        = {temporalKey (signClientKeys sampleHmac sampleService keys1)}
   \<and> usedPayloadKeys (snd (validateKeys sampleHmac sampleService keys1
        (sampleValidationRequest 150 1700000000000)))
        = {payloadKey (signClientKeys sampleHmac sampleService keys1)}
   \<and> usedIdentityKeys (snd (validateKeys sampleHmac sampleService keys1
        (sampleValidationRequest 150 1700000000000)))
        = {identityKey (signClientKeys sampleHmac sampleService keys1)}
   \<and> securityLevel (fst (validateKeys sampleHmac sampleService keys1
        (sampleValidationRequest 151 1700000000000))) = MEDIUM
   \<and> \<not> valid (fst (validateKeys sampleHmac sampleService keys1
        (sampleValidationRequest 151 1700000000000)))
   \<and> snd (validateKeys sampleHmac sampleService keys1
        (sampleValidationRequest 151 1700000000000)) = sampleService"
proof -
  have e: "usedTemporalKeys sampleService = {}" "usedPayloadKeys sampleService = {}"
    "usedIdentityKeys sampleService = {}"
    by (simp_all add: sampleService_def)
  show ?thesis
    using validateKeys_level_and_marking
        [of sampleHmac sampleService keys1 "sampleValidationRequest 150 1700000000000"]
      validateKeys_level_and_marking
        [of sampleHmac sampleService keys1 "sampleValidationRequest 151 1700000000000"]
    by (simp add: sampleValidationRequest_def sample_temporal_valid sample_payload_valid
        sample_payload_mismatch sample_identity_valid e)
qed

section \<open>Claim C6: the freshness window\<close>

lemma temporal_time_window:
  assumes "validateTemporalKey H svc (temporalKey (signClientKeys H svc keys)) t0 = Valid"
      and "temporalKeyTimestamp (temporalKey keys) = Some kt"
  shows "validateTemporalKey H svc (temporalKey (signClientKeys H svc keys)) t = Valid
           \<longleftrightarrow> \<bar>t - kt\<bar> \<le> 2 * 60 * 1000"
proof -
  obtain d r where dr: "splitOn CHR '':'' (temporalKey keys) = d # r"
    using splitOn_nonempty [of "CHR '':''" "temporalKey keys"]
    by (cases "splitOn CHR '':'' (temporalKey keys)") auto
  show ?thesis
    using assms dr
    by (auto simp: validateTemporalKey_def signed_temporal splitOn_signed_parts
        temporalKeyTimestamp_def split: list.splits if_splits option.splits)
qed

lemma identity_time_window:
  assumes "validateIdentityKey H svc (identityKey (signClientKeys H svc keys)) p t0 = Valid"
      and "identityKeyTimestamp (identityKey keys) = Some kt"
  shows "validateIdentityKey H svc (identityKey (signClientKeys H svc keys)) p t = Valid
           \<longleftrightarrow> \<bar>t - kt\<bar> \<le> 2 * 60 * 1000"
proof -
  obtain d r where dr: "splitOn CHR '':'' (identityKey keys) = d # r"
    using splitOn_nonempty [of "CHR '':''" "identityKey keys"]
    by (cases "splitOn CHR '':'' (identityKey keys)") auto
  show ?thesis
    using assms dr
    by (auto simp: validateIdentityKey_def signed_identity splitOn_signed_parts
        identityKeyTimestamp_def split: list.splits if_splits option.splits)
qed

text \<open>
  Claim C6: take a key triple whose temporal and identity keys carry the timestamp \<open>kt\<close> and
  which is valid for the request at some request time (the triple is otherwise valid). Then it
  is rejected when the request's timestamp is 121 seconds after \<open>kt\<close>, accepted when it is 119
  seconds after, and in general accepted exactly when the two are at most 120 seconds apart.
\<close>

theorem freshness_boundary:
  assumes tk: "temporalKeyTimestamp (temporalKey keys) = Some kt"
      and ik: "identityKeyTimestamp (identityKey keys) = Some kt"
      and ok: "valid (fst (validateKeys H svc keys (request\<lparr>timestamp := t0\<rparr>)))"
  shows "\<not> valid (fst (validateKeys H svc keys (request\<lparr>timestamp := kt + 121000\<rparr>)))
       \<and> valid (fst (validateKeys H svc keys (request\<lparr>timestamp := kt + 119000\<rparr>)))
       \<and> (valid (fst (validateKeys H svc keys (request\<lparr>timestamp := t\<rparr>)))
            \<longleftrightarrow> \<bar>t - kt\<bar> \<le> 2 * 60 * 1000)"
proof -
  from ok have t0: "validateTemporalKey H svc (temporalKey (signClientKeys H svc keys)) t0 = Valid"
    and p0: "validatePayloadKey H svc (payloadKey (signClientKeys H svc keys))
               (playerAddress request) (scoreAmount request) (transactionAmount request) = Valid"
    and i0: "validateIdentityKey H svc (identityKey (signClientKeys H svc keys))
               (playerAddress request) t0 = Valid"
    by (simp_all add: valid_iff_all)
  have window: "valid (fst (validateKeys H svc keys (request\<lparr>timestamp := u\<rparr>)))
            \<longleftrightarrow> \<bar>u - kt\<bar> \<le> 2 * 60 * 1000" for u
    using temporal_time_window [OF t0 tk, of u] identity_time_window [OF i0 ik, of u] p0
    by (simp add: valid_iff_all)
  show ?thesis
    using window [of "kt + 121000"] window [of "kt + 119000"] window [of t] by simp
qed

theorem freshness_boundary_witness:
  "temporalKeyTimestamp (temporalKey keys1) = Some 1700000000000
   \<and> identityKeyTimestamp (identityKey keys1) = Some 1700000000000
   \<and> valid (fst (validateKeys sampleHmac sampleService keys1
        (sampleValidationRequest 150 1700000000000)))
   \<and> \<not> valid (fst (validateKeys sampleHmac sampleService keys1
        (sampleValidationRequest 150 1700000121000)))
   \<and> valid (fst (validateKeys sampleHmac sampleService keys1
        (sampleValidationRequest 150 1700000119000)))
   \<and> valid (fst (validateKeys sampleHmac sampleService keys1
        (sampleValidationRequest 150 1700000120000)))"
proof -
  have tk: "temporalKeyTimestamp (temporalKey keys1) = Some 1700000000000"
    by (simp add: temporalKeyTimestamp_def keys1_def string_defs)
  have ik: "identityKeyTimestamp (identityKey keys1) = Some 1700000000000"
    by (simp add: identityKeyTimestamp_def keys1_def string_defs)
  have ok: "valid (fst (validateKeys sampleHmac sampleService keys1
      ((sampleValidationRequest 150 0)\<lparr>timestamp := 1700000000000\<rparr>)))"
    using sample_keys_valid by (simp add: sampleValidationRequest_def)
  from freshness_boundary [OF tk ik ok, of 1700000120000] tk ik sample_keys_valid
  show ?thesis by (simp add: sampleValidationRequest_def)
qed

section \<open>The nonce of a key request\<close>

lemma valid_client_iff:
  "valid (fst (validateClientRequest H t rnd svc cr)) \<longleftrightarrow> clientRequestErrors H t svc cr = []"
  by (simp add: validateClientRequest_def Let_def)

lemma errors_client:
  "errors (fst (validateClientRequest H t rnd svc cr)) = clientRequestErrors H t svc cr"
  by (simp add: validateClientRequest_def Let_def)

lemma no_errors_nonce:
  "clientRequestErrors H t svc cr = [] \<Longrightarrow> nonceErrors H t svc cr = []"
  by (simp add: clientRequestErrors_def)

lemma nonceErrors_used:
  "clientNonce cr \<in> usedNonces svc \<Longrightarrow> nonceErrors H t svc cr \<noteq> []"
  by (simp add: nonceErrors_def)

lemma nonceErrors_replay:
  "clientNonce cr \<in> usedNonces svc \<Longrightarrow> length (clientNonce cr) = 32 \<Longrightarrow>
   nonceErrors H t svc cr = [''Nonce has already been used'']"
  by (auto simp: nonceErrors_def)

lemma nonceErrors_accept:
  "nonceErrors H t svc cr = [] \<Longrightarrow> length (clientNonce cr) = 32 \<and> clientNonce cr \<notin> usedNonces svc"
  by (auto simp: nonceErrors_def split: if_splits)

lemma nonceErrors_in_errors:
  "set (nonceErrors H t svc cr) \<subseteq> set (clientRequestErrors H t svc cr)"
  by (auto simp: clientRequestErrors_def)

lemma usedNonces_validateClientRequest:
  "usedNonces svc \<subseteq> usedNonces (snd (validateClientRequest H t rnd svc cr))"
  by (auto simp: validateClientRequest_def Let_def)

lemma cleanupOldKeys_small: "\<not> 10000 < oldSize svc \<Longrightarrow> cleanupOldKeys svc = svc"
  by (simp add: cleanupOldKeys_def)

lemma cleanupOldKeys_usedNonces: "usedNonces (cleanupOldKeys svc) \<subseteq> usedNonces svc"
  by (simp add: cleanupOldKeys_def)

section \<open>The route: what a response tells about the state\<close>

lemma errorResponse_not_accepted: "\<not> accepted (errorResponse t msg)"
  by (simp add: errorResponse_def accepted_def)

lemma errorResponse_not_duplicate: "\<not> duplicate (errorResponse t msg)"
  by (simp add: errorResponse_def duplicate_def)

lemma errorResponse_status: "status (errorResponse t msg) \<noteq> 200"
  by (simp add: errorResponse_def)

lemma hourlyLimitCheck_Some:
  "hourlyLimitCheck t d sc txs = Some r \<Longrightarrow> status r = 429 \<and> \<not> accepted r \<and> \<not> duplicate r"
  by (auto simp: hourlyLimitCheck_def accepted_def duplicate_def split: if_splits)

lemma behaviorCheck_Some:
  "behaviorCheck t d = Some r \<Longrightarrow> status r = 429 \<and> \<not> accepted r \<and> \<not> duplicate r"
  by (auto simp: behaviorCheck_def Let_def accepted_def duplicate_def split: if_splits)

lemma admission_Some:
  "admission env s b = Some r \<Longrightarrow> status r = 429 \<and> \<not> accepted r \<and> \<not> duplicate r"
  using hourlyLimitCheck_Some behaviorCheck_Some
  by (auto simp: admission_def accepted_def duplicate_def split: if_splits option.splits)

lemma requestChecks_Some:
  "requestChecks env request b = Some r \<Longrightarrow>
     (status r = 401 \<or> status r = 400) \<and> \<not> accepted r \<and> \<not> duplicate r"
  by (auto simp: requestChecks_def accepted_def duplicate_def split: if_splits)

text \<open>The blockchain section: what it returns and writes.\<close>

lemma commitSubmission_rejected:
  "\<not> accepted (fst (commitSubmission env s b level sd k hdat bdat)) \<Longrightarrow>
   snd (commitSubmission env s b level sd k hdat bdat) = s"
  by (auto simp: commitSubmission_def accepted_def Let_def split: if_splits sum.splits option.splits)

lemma getSigningService_Inl:
  "getSigningService env = Inl msg \<Longrightarrow>
   processSubmission env s b level hdat bdat = (errorResponse (now env) msg, s)"
  by (simp add: processSubmission_def)

lemma getSigningService_Inr:
  assumes "getSigningService env = Inr se"
  shows "se = signingEnv env" and "case walletPrivateKey env of None \<Rightarrow> False | Some k \<Rightarrow> k \<noteq> []"
  using assms by (auto simp: getSigningService_def split: option.splits if_splits)

lemma getSigningService_set:
  "walletPrivateKey env = Some k \<Longrightarrow> k \<noteq> [] \<Longrightarrow> getSigningService env = Inr (signingEnv env)"
  by (simp add: getSigningService_def)

text \<open>With the private key unset the route answers 500 and reserves nothing.\<close>

lemma unset_private_key:
  "walletPrivateKey env = None \<Longrightarrow>
   processSubmission env s b level hdat bdat = (\<lparr>status = 500, payload = UpdateFailed\<rparr>, s)"
  by (simp add: processSubmission_def getSigningService_def errorResponse_def startsWith_def)

lemma processSubmission_counters:
  "\<not> accepted (fst (processSubmission env s b level hdat bdat)) \<Longrightarrow>
   hourlyLimits (snd (processSubmission env s b level hdat bdat)) = hourlyLimits s
   \<and> scoreTracking (snd (processSubmission env s b level hdat bdat)) = scoreTracking s
   \<and> contractWrites (snd (processSubmission env s b level hdat bdat)) = contractWrites s
   \<and> cryptoService (snd (processSubmission env s b level hdat bdat)) = cryptoService s"
  by (auto simp: processSubmission_def Let_def split: sum.splits option.splits
      dest!: commitSubmission_rejected)

lemma POST_rejected_counters:
  "\<not> accepted (fst (POST H env s request)) \<Longrightarrow>
   hourlyLimits (snd (POST H env s request)) = hourlyLimits s
   \<and> scoreTracking (snd (POST H env s request)) = scoreTracking s
   \<and> contractWrites (snd (POST H env s request)) = contractWrites s"
  by (auto simp: POST_def Let_def split: if_splits sum.splits option.splits
      dest!: processSubmission_counters)

lemma signScoreSubmission_nonce:
  "signScoreSubmission t senv used p sc txs = Inr sd \<Longrightarrow> nonce sd = generatedNonce senv"
  by (auto simp: signScoreSubmission_def split: if_splits sum.splits)

text \<open>What an accepted request has passed, and the state it leaves.\<close>

lemma commitSubmission_accepted:
  assumes "accepted (fst (commitSubmission env s b level sd k hdat bdat))"
  shows "\<exists>hash. writeContract env = Inr hash
     \<and> snd (commitSubmission env s b level sd k hdat bdat)
         = s\<lparr>hourlyLimits := (hourlyLimits s)
               (hourlyKeyOf (now env) (playerAddress b) \<mapsto>
                  \<lparr>score = score hdat + scoreAmount b,
                   transactions = transactions hdat + transactionAmount b,
                   since = since hdat\<rparr>),
             scoreTracking := (scoreTracking s)
               (playerAddress b \<mapsto>
                  \<lparr>totalScore = totalScore bdat + scoreAmount b,
                   requests = requests bdat + 1,
                   firstRequest = firstRequest bdat\<rparr>),
             processedRequests := (processedRequests s)
               (k \<mapsto> \<lparr>reservedAt = now env,
                       result = Processed
                         \<lparr>transactionHash = hash, cryptoValidationLevel = level,
                          resultNonce = nonce sd, resultTimestamp = now env,
                          antiAbuse =
                            \<lparr>hourlyScore = score hdat + scoreAmount b,
                             hourlyTransactions = transactions hdat + transactionAmount b,
                             sessionRequests = requests bdat + 1\<rparr>\<rparr>\<rparr>),
             contractWrites := contractWrites s
               @ [\<lparr>playerAddress = playerAddress b, scoreAmount = scoreAmount b,
                    transactionAmount = transactionAmount b\<rparr>]\<rparr>"
  using assms
  by (auto simp: commitSubmission_def accepted_def Let_def errorResponse_def
      split: if_splits sum.splits option.splits)

lemma processSubmission_accepted:
  assumes "accepted (fst (processSubmission env s b level hdat bdat))"
  shows "\<exists>hash. writeContract env = Inr hash
     \<and> cryptoService (snd (processSubmission env s b level hdat bdat)) = cryptoService s
     \<and> hourlyLimits (snd (processSubmission env s b level hdat bdat))
         = (hourlyLimits s)
               (hourlyKeyOf (now env) (playerAddress b) \<mapsto>
                  \<lparr>score = score hdat + scoreAmount b,
                   transactions = transactions hdat + transactionAmount b,
                   since = since hdat\<rparr>)
     \<and> scoreTracking (snd (processSubmission env s b level hdat bdat))
         = (scoreTracking s)
               (playerAddress b \<mapsto>
                  \<lparr>totalScore = totalScore bdat + scoreAmount b,
                   requests = requests bdat + 1,
                   firstRequest = firstRequest bdat\<rparr>)
     \<and> contractWrites (snd (processSubmission env s b level hdat bdat))
         = contractWrites s
               @ [\<lparr>playerAddress = playerAddress b, scoreAmount = scoreAmount b,
                    transactionAmount = transactionAmount b\<rparr>]"
proof -
  from assms obtain se where "getSigningService env = Inr se"
    by (cases "getSigningService env")
       (auto simp: getSigningService_Inl errorResponse_not_accepted)
  with getSigningService_Inr(1) [OF this]
  have svc: "getSigningService env = Inr (signingEnv env)" by simp
  show ?thesis
  proof (cases "signScoreSubmission (now env) (signingEnv env) (signingUsedNonces s)
               (playerAddress b) (scoreAmount b) (transactionAmount b)")
    case (Inl msg)
    with assms svc show ?thesis
      by (simp add: processSubmission_def errorResponse_not_accepted)
  next
    case (Inr sd)
    show ?thesis
    proof (cases "processedRequests s (playerAddress b @ ''-'' @ nonce sd)")
      case (Some e)
      with Inr assms svc show ?thesis
        by (simp add: processSubmission_def accepted_def Let_def split: DedupResult.splits)
    next
      case None
      with Inr assms svc have
        acc: "accepted (fst (commitSubmission env
                       (s\<lparr>processedRequests := (processedRequests s)
                            (playerAddress b @ ''-'' @ nonce sd \<mapsto>
                               \<lparr>reservedAt = now env, result = Processing\<rparr>)\<rparr>)
                       b level sd (playerAddress b @ ''-'' @ nonce sd) hdat bdat))"
        by (simp add: processSubmission_def Let_def)
      from commitSubmission_accepted [OF acc] Inr None svc show ?thesis
        by (auto simp: processSubmission_def Let_def)
    qed
  qed
qed

lemma POST_accepted:
  assumes "accepted (fst (POST H env s request))"
  shows "\<exists>b keys hash. body request = Inr b \<and> keysPresent b = Some keys
     \<and> valid (fst (validateKeys H (cryptoService s) keys (validationRequestOf env b keys)))
     \<and> writeContract env = Inr hash
     \<and> cryptoService (snd (POST H env s request))
         = snd (validateKeys H (cryptoService s) keys (validationRequestOf env b keys))
     \<and> hourlyLimits (snd (POST H env s request))
         = (hourlyLimits s)
               (hourlyKeyOf (now env) (playerAddress b) \<mapsto>
                  \<lparr>score = score (hourlyDataOf (now env) s (playerAddress b)) + scoreAmount b,
                   transactions = transactions (hourlyDataOf (now env) s (playerAddress b))
                     + transactionAmount b,
                   since = since (hourlyDataOf (now env) s (playerAddress b))\<rparr>)
     \<and> scoreTracking (snd (POST H env s request))
         = (scoreTracking s)
               (playerAddress b \<mapsto>
                  \<lparr>totalScore = totalScore (behaviorDataOf (now env) s (playerAddress b))
                     + scoreAmount b,
                   requests = requests (behaviorDataOf (now env) s (playerAddress b)) + 1,
                   firstRequest = firstRequest (behaviorDataOf (now env) s (playerAddress b))\<rparr>)
     \<and> contractWrites (snd (POST H env s request))
         = contractWrites s
               @ [\<lparr>playerAddress = playerAddress b, scoreAmount = scoreAmount b,
                    transactionAmount = transactionAmount b\<rparr>]"
proof -
  from assms have org: "validateOrigin (appUrl env) request" and ip: "allowed (ipRateLimit env)"
    by (auto simp: POST_def accepted_def split: if_splits)
  from assms org ip obtain b where b: "body request = Inr b"
    by (cases "body request") (auto simp: POST_def errorResponse_not_accepted)
  from assms org ip b have adm: "admission env s b = None"
    by (cases "admission env s b") (auto simp: POST_def dest: admission_Some)
  from assms org ip b adm obtain keys where k: "keysPresent b = Some keys"
    by (cases "keysPresent b") (auto simp: POST_def accepted_def)
  let ?cv = "validateKeys H (cryptoService s) keys (validationRequestOf env b keys)"
  from assms org ip b adm k have v: "valid (fst ?cv)"
    by (auto simp: POST_def Let_def accepted_def split: if_splits)
  from assms org ip b adm k v have rc: "requestChecks env request b = None"
    by (cases "requestChecks env request b") (auto simp: POST_def Let_def dest: requestChecks_Some)
  let ?ps = "processSubmission env (s\<lparr>cryptoService := snd ?cv\<rparr>) b (securityLevel (fst ?cv))
               (hourlyDataOf (now env) s (playerAddress b))
               (behaviorDataOf (now env) s (playerAddress b))"
  from org ip b adm k v rc have eq: "POST H env s request = ?ps"
    by (simp add: POST_def Let_def)
  from assms eq have "accepted (fst ?ps)" by simp
  from processSubmission_accepted [OF this] b k v show ?thesis
    unfolding eq by auto
qed

lemma accepted_status:
  "accepted (fst (POST H env s request)) \<Longrightarrow> status (fst (POST H env s request)) = 200"
  apply (simp add: POST_def Let_def split: if_splits sum.splits option.splits)
  apply (auto simp: accepted_def errorResponse_def processSubmission_def commitSubmission_def Let_def
      dest: admission_Some requestChecks_Some split: if_splits sum.splits option.splits)
  done

lemma valid_level_marking:
  assumes "valid (fst (validateKeys H svc keys request))"
  shows "securityLevel (fst (validateKeys H svc keys request)) = HIGH"
    and "snd (validateKeys H svc keys request) = markKeysAsUsed svc (signClientKeys H svc keys)"
  using assms by (auto simp: validateKeys_def Let_def securityLevelOf_def split: if_splits)

lemma POST_reachesCommit:
  assumes "reachesCommit H env s request b keys"
  shows "POST H env s request =
     (case writeContract env of
        Inl msg \<Rightarrow> (errorResponse (now env) msg, stateAfterFailure H env s b keys)
      | Inr hash \<Rightarrow>
          (\<lparr>status = 200,
            payload = Updated
              \<lparr>transactionHash = hash, cryptoValidationLevel = HIGH,
               resultNonce = generatedNonce (signingEnv env), resultTimestamp = now env,
               antiAbuse =
                 \<lparr>hourlyScore = score (hourlyDataOf (now env) s (playerAddress b)) + scoreAmount b,
                  hourlyTransactions = transactions (hourlyDataOf (now env) s (playerAddress b))
                    + transactionAmount b,
                  sessionRequests = requests (behaviorDataOf (now env) s (playerAddress b)) + 1\<rparr>\<rparr>\<rparr>,
           stateAfterCommit H env s b keys hash))"
proof -
  let ?cv = "validateKeys H (cryptoService s) keys (validationRequestOf env b keys)"
  from assms have v: "valid (fst ?cv)" by (simp add: reachesCommit_def)
  note lv = valid_level_marking [OF v]
  from assms obtain sg where sg: "walletSignature (signingEnv env) = Inr sg"
    by (auto simp: reachesCommit_def split: sum.splits)
  from assms obtain pk where pk: "walletPrivateKey env = Some pk" "pk \<noteq> []"
    by (auto simp: reachesCommit_def split: option.splits)
  from assms have sign: "signScoreSubmission (now env) (signingEnv env) (signingUsedNonces s)
      (playerAddress b) (scoreAmount b) (transactionAmount b)
      = Inr \<lparr>signature = sg,
             message = createMessage (playerAddress b) (scoreAmount b) (transactionAmount b)
               (generatedNonce (signingEnv env)) (now env),
             signer = signerAddress (signingEnv env),
             nonce = generatedNonce (signingEnv env),
             signedAt = now env\<rparr>"
    by (simp add: reachesCommit_def signScoreSubmission_def sg)
  from assms have fresh: "processedRequests s (playerAddress b @ CHR ''-'' # generatedNonce (signingEnv env)) = None"
    by (simp add: reachesCommit_def dedupKeyOf_def)
  note svc = getSigningService_set [OF pk]
  from assms v lv sign fresh pk svc show ?thesis
    by (cases "writeContract env")
       (simp_all add: reachesCommit_def POST_def Let_def processSubmission_def commitSubmission_def
         stateAfterCommit_def stateAfterFailure_def dedupKeyOf_def)
qed

lemma processSubmission_accepted_path:
  assumes "accepted (fst (processSubmission env s b level hdat bdat))"
  shows "playerAddress b \<noteq> [] \<and> 0 \<le> scoreAmount b \<and> 0 \<le> transactionAmount b
     \<and> generatedNonce (signingEnv env) \<notin> signingUsedNonces s
     \<and> (case walletSignature (signingEnv env) of Inl m \<Rightarrow> False | Inr sg \<Rightarrow> True)
     \<and> processedRequests s (dedupKeyOf env b) = None
     \<and> (case walletPrivateKey env of None \<Rightarrow> False | Some k \<Rightarrow> k \<noteq> [])"
proof -
  from assms obtain se where se: "getSigningService env = Inr se"
    by (cases "getSigningService env")
       (auto simp: getSigningService_Inl errorResponse_not_accepted)
  with getSigningService_Inr(1) [OF this]
  have svc: "getSigningService env = Inr (signingEnv env)" by simp
  note pk = getSigningService_Inr(2) [OF se]
  show ?thesis
  proof (cases "signScoreSubmission (now env) (signingEnv env) (signingUsedNonces s)
               (playerAddress b) (scoreAmount b) (transactionAmount b)")
    case (Inl msg)
    with assms svc show ?thesis
      by (simp add: processSubmission_def errorResponse_not_accepted)
  next
    case (Inr sd)
    then have sd: "nonce sd = generatedNonce (signingEnv env)"
      by (rule signScoreSubmission_nonce)
    from Inr have pre: "playerAddress b \<noteq> [] \<and> 0 \<le> scoreAmount b \<and> 0 \<le> transactionAmount b
       \<and> generatedNonce (signingEnv env) \<notin> signingUsedNonces s
       \<and> (case walletSignature (signingEnv env) of Inl m \<Rightarrow> False | Inr sg \<Rightarrow> True)"
      by (auto simp: signScoreSubmission_def split: if_splits sum.splits)
    show ?thesis
    proof (cases "processedRequests s (playerAddress b @ ''-'' @ nonce sd)")
      case (Some e)
      with Inr assms svc show ?thesis
        by (simp add: processSubmission_def accepted_def Let_def split: DedupResult.splits)
    next
      case None
      with pre pk sd show ?thesis
        by (simp add: dedupKeyOf_def)
    qed
  qed
qed

lemma POST_accepted_reaches:
  assumes "accepted (fst (POST H env s request))"
  shows "\<exists>b keys hash. reachesCommit H env s request b keys \<and> writeContract env = Inr hash"
proof -
  from assms have org: "validateOrigin (appUrl env) request" and ip: "allowed (ipRateLimit env)"
    by (auto simp: POST_def accepted_def split: if_splits)
  from assms org ip obtain b where b: "body request = Inr b"
    by (cases "body request") (auto simp: POST_def errorResponse_not_accepted)
  from assms org ip b have adm: "admission env s b = None"
    by (cases "admission env s b") (auto simp: POST_def dest: admission_Some)
  from assms org ip b adm obtain keys where k: "keysPresent b = Some keys"
    by (cases "keysPresent b") (auto simp: POST_def accepted_def)
  let ?cv = "validateKeys H (cryptoService s) keys (validationRequestOf env b keys)"
  from assms org ip b adm k have v: "valid (fst ?cv)"
    by (auto simp: POST_def Let_def accepted_def split: if_splits)
  from assms org ip b adm k v have rc: "requestChecks env request b = None"
    by (cases "requestChecks env request b") (auto simp: POST_def Let_def dest: requestChecks_Some)
  let ?ps = "processSubmission env (s\<lparr>cryptoService := snd ?cv\<rparr>) b (securityLevel (fst ?cv))
               (hourlyDataOf (now env) s (playerAddress b))
               (behaviorDataOf (now env) s (playerAddress b))"
  from org ip b adm k v rc have eq: "POST H env s request = ?ps"
    by (simp add: POST_def Let_def)
  from assms eq have acc: "accepted (fst ?ps)" by simp
  from processSubmission_accepted_path [OF acc] org ip b adm k v rc
  have r: "reachesCommit H env s request b keys"
    by (simp add: reachesCommit_def)
  from processSubmission_accepted [OF acc] obtain hash where "writeContract env = Inr hash"
    by blast
  with r show ?thesis by blast
qed

lemma admission_writeContract:
  "admission (env\<lparr>writeContract := w\<rparr>) s b = admission env s b"
  by (simp add: admission_def cong: option.case_cong)

lemma requestChecks_writeContract:
  "requestChecks (env\<lparr>writeContract := w\<rparr>) request b = requestChecks env request b"
  by (simp add: requestChecks_def cong: option.case_cong)

lemma reachesCommit_writeContract:
  "reachesCommit H (env\<lparr>writeContract := w\<rparr>) s request b keys
     = reachesCommit H env s request b keys"
  by (simp add: reachesCommit_def admission_writeContract requestChecks_writeContract
      validationRequestOf_def dedupKeyOf_def)

lemma reachesCommit_iff_would_accept:
  "(\<exists>keys. reachesCommit H env s request b keys)
     \<longleftrightarrow> body request = Inr b
          \<and> accepted (fst (POST H (env\<lparr>writeContract := Inr hash\<rparr>) s request))"
proof
  assume "\<exists>keys. reachesCommit H env s request b keys"
  then obtain keys where r: "reachesCommit H env s request b keys" by blast
  then have "reachesCommit H (env\<lparr>writeContract := Inr hash\<rparr>) s request b keys"
    by (simp add: reachesCommit_writeContract)
  from POST_reachesCommit [OF this] r
  show "body request = Inr b
          \<and> accepted (fst (POST H (env\<lparr>writeContract := Inr hash\<rparr>) s request))"
    by (simp add: accepted_def reachesCommit_def)
next
  assume a: "body request = Inr b
          \<and> accepted (fst (POST H (env\<lparr>writeContract := Inr hash\<rparr>) s request))"
  with POST_accepted_reaches [of H "env\<lparr>writeContract := Inr hash\<rparr>" s request]
  obtain b' keys where r: "reachesCommit H (env\<lparr>writeContract := Inr hash\<rparr>) s request b' keys"
    by blast
  with a have "b' = b" by (simp add: reachesCommit_def)
  with r show "\<exists>keys. reachesCommit H env s request b keys"
    by (auto simp: reachesCommit_writeContract)
qed

lemma used_key_invalid:
  "temporalKey (signClientKeys H svc keys) \<in> usedTemporalKeys svc \<Longrightarrow>
   \<not> valid (fst (validateKeys H svc keys req))"
  by (auto simp: valid_iff_all validateTemporalKey_def split: list.splits if_splits)

lemma signClientKeys_marked:
  "signClientKeys H (markKeysAsUsed svc k) keys = signClientKeys H svc keys"
  by (simp add: signClientKeys_def markKeysAsUsed_def)

lemma POST_invalid_keys:
  assumes "body request = Inr b" and "keysPresent b = Some keys"
      and "\<not> valid (fst (validateKeys H (cryptoService s) keys (validationRequestOf env b keys)))"
  shows "(status (fst (POST H env s request)) = 403 \<or> status (fst (POST H env s request)) = 429
          \<or> status (fst (POST H env s request)) = 401)
       \<and> \<not> duplicate (fst (POST H env s request))
       \<and> \<not> accepted (fst (POST H env s request))"
  using assms
  by (auto simp: POST_def Let_def duplicate_def accepted_def dest: admission_Some
      split: option.splits)

lemma errorResponse_not_hourly: "\<not> hourlyScoreRejection (errorResponse t msg)"
  by (simp add: errorResponse_def hourlyScoreRejection_def)

lemma requestChecks_not_hourly:
  "requestChecks env request b = Some r \<Longrightarrow> \<not> hourlyScoreRejection r"
  by (auto simp: requestChecks_def hourlyScoreRejection_def split: if_splits)

lemma behaviorCheck_not_hourly:
  "behaviorCheck t d = Some r \<Longrightarrow> \<not> hourlyScoreRejection r"
  by (auto simp: behaviorCheck_def Let_def hourlyScoreRejection_def split: if_splits)

lemma processSubmission_not_hourly:
  "\<not> hourlyScoreRejection (fst (processSubmission env s b level hdat bdat))"
  by (auto simp: processSubmission_def commitSubmission_def Let_def hourlyScoreRejection_def
      errorResponse_def split: sum.splits option.splits DedupResult.splits)

lemma hourlyLimitCheck_within:
  "score d + sc \<le> MAX_SCORE_PER_HOUR \<Longrightarrow> hourlyLimitCheck t d sc txs = Some r \<Longrightarrow>
   \<not> hourlyScoreRejection r"
  by (auto simp: hourlyLimitCheck_def hourlyScoreRejection_def split: if_splits)

lemma POST_within_ceiling:
  assumes "body request = Inr b"
      and "score (hourlyDataOf (now env) s (playerAddress b)) + scoreAmount b \<le> MAX_SCORE_PER_HOUR"
  shows "\<not> hourlyScoreRejection (fst (POST H env s request))"
proof -
  have adm: "\<not> hourlyScoreRejection r" if "admission env s b = Some r" for r
    using that assms(2) hourlyLimitCheck_within behaviorCheck_not_hourly
    by (auto simp: admission_def hourlyScoreRejection_def split: if_splits option.splits)
  show ?thesis
    using assms(1) adm requestChecks_not_hourly processSubmission_not_hourly
    by (auto simp: POST_def Let_def hourlyScoreRejection_def split: option.splits)
qed

lemma POST_over_ceiling:
  assumes "validateOrigin (appUrl env) request" and "body request = Inr b"
      and "MAX_SCORE_PER_HOUR < score (hourlyDataOf (now env) s (playerAddress b)) + scoreAmount b"
  shows "status (fst (POST H env s request)) = 429 \<and> snd (POST H env s request) = s
       \<and> (allowed (ipRateLimit env) \<and> allowed (playerRateLimit env) \<longrightarrow>
            payload (fst (POST H env s request))
              = HourlyScoreLimitExceeded (score (hourlyDataOf (now env) s (playerAddress b)))
                  (scoreAmount b)
                  (MAX_SCORE_PER_HOUR - score (hourlyDataOf (now env) s (playerAddress b))))"
  using assms
  by (auto simp: POST_def admission_def hourlyLimitCheck_def)

lemma reachesCommit_iff_layers:
  "reachesCommit H env s request b keys
     \<longleftrightarrow> passesOtherLayers H env s request b keys
          \<and> score (hourlyDataOf (now env) s (playerAddress b)) + scoreAmount b
                \<le> MAX_SCORE_PER_HOUR"
proof -
  have "admission env s b = None
     \<longleftrightarrow> allowed (playerRateLimit env)
          \<and> score (hourlyDataOf (now env) s (playerAddress b)) + scoreAmount b
                \<le> MAX_SCORE_PER_HOUR
          \<and> transactions (hourlyDataOf (now env) s (playerAddress b)) + transactionAmount b
                \<le> MAX_TRANSACTIONS_PER_HOUR
          \<and> behaviorCheck (now env) (behaviorDataOf (now env) s (playerAddress b)) = None"
    by (auto simp: admission_def hourlyLimitCheck_def split: option.splits if_splits)
  then show ?thesis
    by (auto simp: reachesCommit_def passesOtherLayers_def)
qed

section \<open>Runs: what the events keep\<close>

lemma processSubmission_cryptoService:
  "cryptoService (snd (processSubmission env s b level hdat bdat)) = cryptoService s"
proof (cases "accepted (fst (processSubmission env s b level hdat bdat))")
  case True
  from processSubmission_accepted [OF True] show ?thesis by blast
next
  case False
  from processSubmission_counters [OF False] show ?thesis by blast
qed

lemma POST_usedNonces:
  "usedNonces (cryptoService (snd (POST H env s request))) = usedNonces (cryptoService s)"
  by (auto simp: POST_def Let_def processSubmission_cryptoService usedNonces_validateKeys
      split: sum.splits option.splits)

lemma step_usedNonces:
  "(case e of
      KeyRequest t rnd cr \<Rightarrow> True
    | _ \<Rightarrow> usedNonces (cryptoService (step H s e)) \<subseteq> usedNonces (cryptoService s))"
  by (cases e)
     (simp_all add: POST_usedNonces cleanupOldKeys_usedNonces cleanupTracking_def
       cleanupProcessedRequests_def)

lemma step_keeps_nonces:
  assumes "\<not> (case e of KeysCleanup \<Rightarrow> 10000 < oldSize (cryptoService s) | _ \<Rightarrow> False)"
  shows "usedNonces (cryptoService s) \<subseteq> usedNonces (cryptoService (step H s e))"
  using assms
  by (cases e)
     (simp_all add: POST_usedNonces usedNonces_validateClientRequest cleanupOldKeys_small
       cleanupTracking_def cleanupProcessedRequests_def)

lemma run_keeps_nonces:
  "\<not> keysCleared H s evs \<Longrightarrow>
   usedNonces (cryptoService s) \<subseteq> usedNonces (cryptoService (run H s evs))"
proof (induction evs arbitrary: s)
  case Nil
  show ?case by simp
next
  case (Cons e es)
  from Cons.prems
  have a: "\<not> (case e of KeysCleanup \<Rightarrow> 10000 < oldSize (cryptoService s) | _ \<Rightarrow> False)"
    and b: "\<not> keysCleared H (step H s e) es"
    by simp_all
  from step_keeps_nonces [OF a, of H] Cons.IH [OF b] show ?case by auto
qed

lemma commitSubmission_keeps_entry:
  "k \<noteq> dk \<Longrightarrow>
   processedRequests (snd (commitSubmission env s b level sd dk hdat bdat)) k
     = processedRequests s k"
  by (simp add: commitSubmission_def Let_def split: sum.splits option.splits)

lemma processSubmission_keeps_entry:
  assumes "processedRequests s k = Some e"
  shows "processedRequests (snd (processSubmission env s b level hdat bdat)) k = Some e"
proof (cases "getSigningService env")
  case (Inl msg)
  with assms show ?thesis by (simp add: getSigningService_Inl)
next
  case svc: (Inr se)
  show ?thesis
  proof (cases "signScoreSubmission (now env) se (signingUsedNonces s)
               (playerAddress b) (scoreAmount b) (transactionAmount b)")
    case (Inl msg)
    with assms svc show ?thesis by (simp add: processSubmission_def)
  next
    case (Inr sd)
    show ?thesis
    proof (cases "processedRequests s (playerAddress b @ ''-'' @ nonce sd)")
      case (Some e')
      with assms svc Inr show ?thesis by (simp add: processSubmission_def Let_def)
    next
      case None
      with assms have "k \<noteq> playerAddress b @ ''-'' @ nonce sd" by auto
      from commitSubmission_keeps_entry [OF this] assms svc Inr None this show ?thesis
        by (simp add: processSubmission_def Let_def)
    qed
  qed
qed

lemma POST_keeps_entry:
  "processedRequests s k = Some e \<Longrightarrow>
   processedRequests (snd (POST H env s request)) k = Some e"
  by (auto simp: POST_def Let_def processSubmission_keeps_entry split: sum.splits option.splits)

lemma step_keeps_entry:
  assumes "processedRequests s k = Some e"
      and "\<not> (case ev of DedupCleanup t \<Rightarrow> REQUEST_DEDUP_WINDOW < t - reservedAt e | _ \<Rightarrow> False)"
  shows "processedRequests (step H s ev) k = Some e"
  using assms
  by (cases ev)
     (simp_all add: POST_keeps_entry cleanupTracking_def cleanupProcessedRequests_def)

lemma run_keeps_entry:
  "processedRequests s k = Some e \<Longrightarrow> \<not> sweptAfter (reservedAt e) evs \<Longrightarrow>
   processedRequests (run H s evs) k = Some e"
proof (induction evs arbitrary: s)
  case Nil
  then show ?case by simp
next
  case (Cons ev evs)
  from Cons.prems(2)
  have a: "\<not> (case ev of DedupCleanup t \<Rightarrow> REQUEST_DEDUP_WINDOW < t - reservedAt e
                | _ \<Rightarrow> False)"
    and b: "\<not> sweptAfter (reservedAt e) evs"
    by simp_all
  from Cons.IH [OF step_keeps_entry [OF Cons.prems(1) a] b] show ?case by simp
qed

lemma run_append: "run H s (xs @ ys) = run H (run H s xs) ys"
  by (induction xs arbitrary: s) simp_all

lemma late_sweep_removes:
  "processedRequests s k = Some e \<Longrightarrow> REQUEST_DEDUP_WINDOW < t - reservedAt e \<Longrightarrow>
   processedRequests (cleanupProcessedRequests t s) k = None"
  by (simp add: cleanupProcessedRequests_def)

section \<open>Running the model\<close>

lemmas env_defs = env1_def env2_def env3_def envRetry_def envFail_def nonce1_def nonce2_def
  nonce3_def sampleBody_def

text \<open>The validators on a server-signed key whose client string has no colon.\<close>

lemma temporal_signed_valid:
  assumes "CHR '':'' \<notin> set k" and "k \<noteq> []"
      and "k @ CHR '':'' # hmacHex H (SERVER_TEMPORAL_SECRET svc) k \<notin> usedTemporalKeys svc"
      and "temporalKeyTimestamp k = Some kt" and "\<bar>t - kt\<bar> \<le> 120000"
  shows "validateTemporalKey H svc (k @ CHR '':'' # hmacHex H (SERVER_TEMPORAL_SECRET svc) k) t = Valid"
  using assms splitOn_signed [of k H "SERVER_TEMPORAL_SECRET svc"]
  by (auto simp: validateTemporalKey_def temporalKeyTimestamp_def splitOn_no_sep hmacHex_nonempty
      split: list.splits option.splits)

lemma payload_signed_valid:
  assumes "CHR '':'' \<notin> set k" and "k \<noteq> []"
      and "k @ CHR '':'' # hmacHex H (SERVER_PAYLOAD_SECRET svc) k \<notin> usedPayloadKeys svc"
      and "splitOn CHR ''-'' k = [p, a, b, c]"
      and "parseInt a 10 = Some sc" and "parseInt b 10 = Some txs"
  shows "validatePayloadKey H svc (k @ CHR '':'' # hmacHex H (SERVER_PAYLOAD_SECRET svc) k) p sc txs = Valid"
  using assms splitOn_signed [of k H "SERVER_PAYLOAD_SECRET svc"]
  by (auto simp: validatePayloadKey_def hmacHex_nonempty)

lemma identity_signed_valid:
  assumes "CHR '':'' \<notin> set k" and "k \<noteq> []"
      and "k @ CHR '':'' # hmacHex H (SERVER_IDENTITY_SECRET svc) k \<notin> usedIdentityKeys svc"
      and "splitOn CHR ''-'' k = [p, a, c]"
      and "parseInt a 10 = Some kt" and "\<bar>t - kt\<bar> \<le> 120000"
  shows "validateIdentityKey H svc (k @ CHR '':'' # hmacHex H (SERVER_IDENTITY_SECRET svc) k) p t = Valid"
  using assms splitOn_signed [of k H "SERVER_IDENTITY_SECRET svc"]
  by (auto simp: validateIdentityKey_def hmacHex_nonempty)

lemma keys_signed_valid:
  assumes "validateTemporalKey H svc
             (temporalKey keys @ CHR '':'' # hmacHex H (SERVER_TEMPORAL_SECRET svc) (temporalKey keys))
             (timestamp request) = Valid"
      and "validatePayloadKey H svc
             (payloadKey keys @ CHR '':'' # hmacHex H (SERVER_PAYLOAD_SECRET svc) (payloadKey keys))
             (playerAddress request) (scoreAmount request) (transactionAmount request) = Valid"
      and "validateIdentityKey H svc
             (identityKey keys @ CHR '':'' # hmacHex H (SERVER_IDENTITY_SECRET svc) (identityKey keys))
             (playerAddress request) (timestamp request) = Valid"
  shows "valid (fst (validateKeys H svc keys request))"
  using assms by (simp add: valid_iff_all signClientKeys_def)

lemmas limit_defs = MAX_SCORE_PER_HOUR_def MAX_TRANSACTIONS_PER_HOUR_def
  MAX_SCORE_PER_MINUTE_AVG_def MAX_SCORE_PER_REQUEST_def MAX_TRANSACTIONS_PER_REQUEST_def
  MIN_SCORE_PER_REQUEST_def MAX_SCORE_PER_TRANSACTION_def MIN_SCORE_PER_TRANSACTION_def

lemma sampleEnv_simps:
  "now (sampleEnv t n w) = t" "appUrl (sampleEnv t n w) = None"
  "allowed (ipRateLimit (sampleEnv t n w))" "allowed (playerRateLimit (sampleEnv t n w))"
  "isValidAddress (sampleEnv t n w) = sampleIsValidAddress"
  "generatedNonce (signingEnv (sampleEnv t n w)) = n"
  "walletSignature (signingEnv (sampleEnv t n w)) = Inr ''0xsignature''"
  "walletPrivateKey (sampleEnv t n w) = Some ''0xprivatekey''"
  "writeContract (sampleEnv t n w) = w"
  by (simp_all add: sampleEnv_def)

lemma sampleState_simps:
  "cryptoService sampleState = sampleService" "signingUsedNonces sampleState = {}"
  "scoreTracking sampleState = Map.empty" "hourlyLimits sampleState = Map.empty"
  "processedRequests sampleState = Map.empty" "contractWrites sampleState = []"
  by (simp_all add: sampleState_def)

lemma sampleBody_simps:
  "playerAddress (sampleBody keys sc txs) = samplePlayer" "scoreAmount (sampleBody keys sc txs) = sc"
  "transactionAmount (sampleBody keys sc txs) = txs"
  "bodyValidationKeys (sampleBody keys sc txs) = Some keys"
  by (simp_all add: sampleBody_def)

lemma samplePlayer_nonempty: "samplePlayer \<noteq> []"
  by (simp add: samplePlayer_def)

lemma sample_origin: "validateOrigin None (sampleRequest token keys sc txs)"
  by (simp add: validateOrigin_def allowedOrigins_def sampleRequest_def startsWith_def)

lemma sample_body: "body (sampleRequest token keys sc txs) = Inr (sampleBody keys sc txs)"
  by (simp add: sampleRequest_def sampleBody_def)

lemma sample_address: "sampleIsValidAddress samplePlayer"
  by (simp add: sampleIsValidAddress_def samplePlayer_def startsWith_def isRadixDigit_def
      digitValue_def)

lemma hourlyKey_sample:
  "hourlyKeyOf 1700000000000 samplePlayer = sampleHourKey"
  "hourlyKeyOf 1700000003000 samplePlayer = sampleHourKey"
  "hourlyKeyOf 1700000006000 samplePlayer = sampleHourKey"
  "hourlyKeyOf 1700000007000 samplePlayer = sampleHourKey"
  "hourlyKeyOf 1700000008000 samplePlayer = sampleHourKey"
  by (simp_all add: hourlyKeyOf_def samplePlayer_def sampleHourKey_def numToString_def
      natToString.simps digitChar_def)

lemma sample_requestChecks:
  assumes "isValidCSRFFormat t token" and "token \<noteq> []"
  shows "requestChecks (sampleEnv t n w) (sampleRequest token keys 150 2) (sampleBody keys 150 2) = None"
  using assms sample_address
  by (simp add: requestChecks_def sampleEnv_simps sampleBody_simps samplePlayer_nonempty
      sampleRequest_def limit_defs)

lemma csrf1: "isValidCSRFFormat 1700000000000 ''sess1-1700000000000-n1-client''"
  by (simp add: isValidCSRFFormat_def string_defs)

lemma csrf2: "isValidCSRFFormat 1700000006000 ''sess2-1700000006000-n2-client''"
  by (simp add: isValidCSRFFormat_def string_defs)

lemma csrf3: "isValidCSRFFormat 1700000008000 ''sess3-1700000008000-n3-client''"
  by (simp add: isValidCSRFFormat_def string_defs)

lemma keys1_timestamps:
  "temporalKeyTimestamp (temporalKey keys1) = Some 1700000000000"
  "splitOn CHR ''-'' (payloadKey keys1) = [samplePlayer, ''150'', ''2'', ''e5f6a7b8'']"
  "splitOn CHR ''-'' (identityKey keys1) = [samplePlayer, ''1700000000000'', ''c9d0e1f2'']"
  by (simp_all add: temporalKeyTimestamp_def keys1_def samplePlayer_def string_defs)

lemma keys2_timestamps:
  "temporalKeyTimestamp (temporalKey keys2) = Some 1700000006000"
  "splitOn CHR ''-'' (payloadKey keys2) = [samplePlayer, ''150'', ''2'', ''55667788'']"
  "splitOn CHR ''-'' (identityKey keys2) = [samplePlayer, ''1700000006000'', ''99aabbcc'']"
  by (simp_all add: temporalKeyTimestamp_def keys2_def samplePlayer_def string_defs)

lemma keys3_timestamps:
  "temporalKeyTimestamp (temporalKey keys3) = Some 1700000008000"
  "splitOn CHR ''-'' (payloadKey keys3) = [samplePlayer, ''150'', ''2'', ''1a1b1c1d'']"
  "splitOn CHR ''-'' (identityKey keys3) = [samplePlayer, ''1700000008000'', ''2a2b2c2d'']"
  by (simp_all add: temporalKeyTimestamp_def keys3_def samplePlayer_def string_defs)

lemma parse_samples:
  "parseInt ''150'' 10 = Some 150" "parseInt ''2'' 10 = Some 2"
  "parseInt ''1700000000000'' 10 = Some 1700000000000"
  "parseInt ''1700000006000'' 10 = Some 1700000006000"
  "parseInt ''1700000008000'' 10 = Some 1700000008000"
  by (simp_all add: string_defs)

lemma keys_colon_free:
  "CHR '':'' \<notin> set (temporalKey keys1)" "CHR '':'' \<notin> set (payloadKey keys1)"
  "CHR '':'' \<notin> set (identityKey keys1)"
  "CHR '':'' \<notin> set (temporalKey keys2)" "CHR '':'' \<notin> set (payloadKey keys2)"
  "CHR '':'' \<notin> set (identityKey keys2)"
  "CHR '':'' \<notin> set (temporalKey keys3)" "CHR '':'' \<notin> set (payloadKey keys3)"
  "CHR '':'' \<notin> set (identityKey keys3)"
  by (simp_all add: keys1_def keys2_def keys3_def)

lemma keys_nonempty:
  "temporalKey keys1 \<noteq> []" "payloadKey keys1 \<noteq> []" "identityKey keys1 \<noteq> []"
  "temporalKey keys2 \<noteq> []" "payloadKey keys2 \<noteq> []" "identityKey keys2 \<noteq> []"
  "temporalKey keys3 \<noteq> []" "payloadKey keys3 \<noteq> []" "identityKey keys3 \<noteq> []"
  by (simp_all add: keys1_def keys2_def keys3_def)

lemma keysPresent_sample:
  "keysPresent (sampleBody keys1 sc txs) = Some keys1"
  "keysPresent (sampleBody keys2 sc txs) = Some keys2"
  "keysPresent (sampleBody keys3 sc txs) = Some keys3"
  by (simp_all add: keysPresent_def sampleBody_def keys_nonempty)

text \<open>The first request on the empty state.\<close>

lemma reaches1:
  "reachesCommit sampleHmac (sampleEnv 1700000000000 nonce1 w) sampleState request1
     (sampleBody keys1 150 2) keys1"
proof -
  have adm: "admission (sampleEnv 1700000000000 nonce1 w) sampleState (sampleBody keys1 150 2) = None"
    by (simp add: admission_def hourlyLimitCheck_def behaviorCheck_def hourlyDataOf_def
        behaviorDataOf_def sampleEnv_simps sampleState_simps sampleBody_simps limit_defs Let_def)
  have v: "valid (fst (validateKeys sampleHmac (cryptoService sampleState) keys1
             (validationRequestOf (sampleEnv 1700000000000 nonce1 w) (sampleBody keys1 150 2) keys1)))"
    using sample_keys_valid
    by (simp add: sampleState_simps validationRequestOf_def sampleEnv_simps sampleBody_simps
        sampleValidationRequest_def)
  have rc: "requestChecks (sampleEnv 1700000000000 nonce1 w) request1 (sampleBody keys1 150 2) = None"
    unfolding request1_def by (rule sample_requestChecks [OF csrf1]) simp
  show ?thesis
    unfolding reachesCommit_def
    using adm v rc
    by (simp add: request1_def sample_origin sample_body keysPresent_sample sampleEnv_simps
        sampleState_simps sampleBody_simps samplePlayer_nonempty)
qed

lemma post1:
  "POST sampleHmac env1 sampleState request1
     = (\<lparr>status = 200,
         payload = Updated
           \<lparr>transactionHash = ''0xhash1'', cryptoValidationLevel = HIGH,
            resultNonce = nonce1, resultTimestamp = 1700000000000,
            antiAbuse = \<lparr>hourlyScore = 150, hourlyTransactions = 2, sessionRequests = 1\<rparr>\<rparr>\<rparr>,
        stateAfter1)"
proof -
  have "POST sampleHmac env1 sampleState request1
     = (\<lparr>status = 200,
         payload = Updated
           \<lparr>transactionHash = ''0xhash1'', cryptoValidationLevel = HIGH,
            resultNonce = nonce1, resultTimestamp = 1700000000000,
            antiAbuse = \<lparr>hourlyScore = 150, hourlyTransactions = 2, sessionRequests = 1\<rparr>\<rparr>\<rparr>,
        snd (POST sampleHmac env1 sampleState request1))"
    unfolding env1_def
    by (subst (1 2) POST_reachesCommit [OF reaches1])
       (simp add: sampleEnv_simps sampleState_simps sampleBody_simps hourlyDataOf_def
         behaviorDataOf_def)
  then show ?thesis by (simp add: stateAfter1_def)
qed

lemma stateAfter1_eq:
  "stateAfter1 = stateAfterCommit sampleHmac env1 sampleState (sampleBody keys1 150 2) keys1 ''0xhash1''"
  unfolding stateAfter1_def env1_def
  by (subst POST_reachesCommit [OF reaches1]) (simp add: sampleEnv_simps)

lemma markKeysAsUsed_simps:
  "SERVER_TEMPORAL_SECRET (markKeysAsUsed svc k) = SERVER_TEMPORAL_SECRET svc"
  "SERVER_PAYLOAD_SECRET (markKeysAsUsed svc k) = SERVER_PAYLOAD_SECRET svc"
  "SERVER_IDENTITY_SECRET (markKeysAsUsed svc k) = SERVER_IDENTITY_SECRET svc"
  "usedTemporalKeys (markKeysAsUsed svc k) = insert (temporalKey k) (usedTemporalKeys svc)"
  "usedPayloadKeys (markKeysAsUsed svc k) = insert (payloadKey k) (usedPayloadKeys svc)"
  "usedIdentityKeys (markKeysAsUsed svc k) = insert (identityKey k) (usedIdentityKeys svc)"
  "usedNonces (markKeysAsUsed svc k) = usedNonces svc"
  by (simp_all add: markKeysAsUsed_def)

lemma sampleService_simps:
  "SERVER_TEMPORAL_SECRET sampleService = ''temporal-secret''"
  "SERVER_PAYLOAD_SECRET sampleService = ''payload-secret''"
  "SERVER_IDENTITY_SECRET sampleService = ''identity-secret''"
  "usedTemporalKeys sampleService = {}" "usedPayloadKeys sampleService = {}"
  "usedIdentityKeys sampleService = {}" "usedNonces sampleService = {}"
  by (simp_all add: sampleService_def)

lemma stateAfterCommit_simps:
  "cryptoService (stateAfterCommit H env s b keys hash)
     = markKeysAsUsed (cryptoService s) (signClientKeys H (cryptoService s) keys)"
  "signingUsedNonces (stateAfterCommit H env s b keys hash) = signingUsedNonces s"
  "hourlyLimits (stateAfterCommit H env s b keys hash)
     = (hourlyLimits s)
         (hourlyKeyOf (now env) (playerAddress b) \<mapsto>
            \<lparr>score = score (hourlyDataOf (now env) s (playerAddress b)) + scoreAmount b,
             transactions = transactions (hourlyDataOf (now env) s (playerAddress b))
               + transactionAmount b,
             since = since (hourlyDataOf (now env) s (playerAddress b))\<rparr>)"
  "scoreTracking (stateAfterCommit H env s b keys hash)
     = (scoreTracking s)
         (playerAddress b \<mapsto>
            \<lparr>totalScore = totalScore (behaviorDataOf (now env) s (playerAddress b)) + scoreAmount b,
             requests = requests (behaviorDataOf (now env) s (playerAddress b)) + 1,
             firstRequest = firstRequest (behaviorDataOf (now env) s (playerAddress b))\<rparr>)"
  "contractWrites (stateAfterCommit H env s b keys hash)
     = contractWrites s
         @ [\<lparr>playerAddress = playerAddress b, scoreAmount = scoreAmount b,
              transactionAmount = transactionAmount b\<rparr>]"
  by (simp_all add: stateAfterCommit_def)

lemma stateAfterCommit_processed:
  "k \<noteq> dedupKeyOf env b \<Longrightarrow>
   processedRequests (stateAfterCommit H env s b keys hash) k = processedRequests s k"
  by (simp add: stateAfterCommit_def)

text \<open>The state after the first request.\<close>

lemma stateAfter1_simps:
  "cryptoService stateAfter1
     = markKeysAsUsed sampleService (signClientKeys sampleHmac sampleService keys1)"
  "signingUsedNonces stateAfter1 = {}"
  "hourlyLimits stateAfter1 sampleHourKey
     = Some \<lparr>score = 150, transactions = 2, since = 1700000000000\<rparr>"
  "scoreTracking stateAfter1 samplePlayer
     = Some \<lparr>totalScore = 150, requests = 1, firstRequest = 1700000000000\<rparr>"
  "contractWrites stateAfter1
     = [\<lparr>playerAddress = samplePlayer, scoreAmount = 150, transactionAmount = 2\<rparr>]"
  by (simp_all add: stateAfter1_eq stateAfterCommit_simps env1_def sampleEnv_simps
      sampleState_simps sampleBody_simps hourlyDataOf_def behaviorDataOf_def hourlyKey_sample)

lemma dedup_keys_differ:
  "dedupKeyOf (sampleEnv t nonce2 w) (sampleBody keys sc txs) \<noteq> dedupKeyOf env1 (sampleBody keys' sc' txs')"
  "dedupKeyOf (sampleEnv t nonce3 w) (sampleBody keys sc txs) \<noteq> dedupKeyOf env1 (sampleBody keys' sc' txs')"
  "dedupKeyOf (sampleEnv t nonce3 w) (sampleBody keys sc txs) \<noteq> dedupKeyOf env2 (sampleBody keys' sc' txs')"
  by (simp_all add: dedupKeyOf_def env1_def env2_def sampleEnv_simps sampleBody_simps nonce1_def
      nonce2_def nonce3_def)

lemma keys2_valid_after1:
  "valid (fst (validateKeys sampleHmac (cryptoService stateAfter1) keys2
     (validationRequestOf (sampleEnv 1700000006000 n w) (sampleBody keys2 150 2) keys2)))"
proof (rule keys_signed_valid)
  let ?svc = "cryptoService stateAfter1"
  let ?req = "validationRequestOf (sampleEnv 1700000006000 n w) (sampleBody keys2 150 2) keys2"
  have fresh:
    "temporalKey keys2 @ CHR '':'' # hmacHex sampleHmac (SERVER_TEMPORAL_SECRET ?svc) (temporalKey keys2)
       \<notin> usedTemporalKeys ?svc"
    "payloadKey keys2 @ CHR '':'' # hmacHex sampleHmac (SERVER_PAYLOAD_SECRET ?svc) (payloadKey keys2)
       \<notin> usedPayloadKeys ?svc"
    "identityKey keys2 @ CHR '':'' # hmacHex sampleHmac (SERVER_IDENTITY_SECRET ?svc) (identityKey keys2)
       \<notin> usedIdentityKeys ?svc"
    by (simp_all add: stateAfter1_simps markKeysAsUsed_simps sampleService_simps signClientKeys_def
        keys1_def keys2_def)
  show "validateTemporalKey sampleHmac ?svc
          (temporalKey keys2 @ CHR '':'' # hmacHex sampleHmac (SERVER_TEMPORAL_SECRET ?svc) (temporalKey keys2))
          (timestamp ?req) = Valid"
    by (rule temporal_signed_valid [OF keys_colon_free(4) keys_nonempty(4) fresh(1) keys2_timestamps(1)])
       (simp add: validationRequestOf_def sampleEnv_simps)
  show "validatePayloadKey sampleHmac ?svc
          (payloadKey keys2 @ CHR '':'' # hmacHex sampleHmac (SERVER_PAYLOAD_SECRET ?svc) (payloadKey keys2))
          (playerAddress ?req) (scoreAmount ?req) (transactionAmount ?req) = Valid"
    unfolding validationRequestOf_def
    by (simp add: sampleBody_simps)
       (rule payload_signed_valid [OF keys_colon_free(5) keys_nonempty(5) fresh(2) keys2_timestamps(2)
          parse_samples(1) parse_samples(2)])
  show "validateIdentityKey sampleHmac ?svc
          (identityKey keys2 @ CHR '':'' # hmacHex sampleHmac (SERVER_IDENTITY_SECRET ?svc) (identityKey keys2))
          (playerAddress ?req) (timestamp ?req) = Valid"
    unfolding validationRequestOf_def
    by (simp add: sampleBody_simps sampleEnv_simps)
       (rule identity_signed_valid [OF keys_colon_free(6) keys_nonempty(6) fresh(3) keys2_timestamps(3)
          parse_samples(4)], simp)
qed

lemma reaches2:
  "reachesCommit sampleHmac (sampleEnv 1700000006000 nonce2 w) stateAfter1 request2
     (sampleBody keys2 150 2) keys2"
proof -
  have adm: "admission (sampleEnv 1700000006000 nonce2 w) stateAfter1 (sampleBody keys2 150 2) = None"
    by (simp add: admission_def hourlyLimitCheck_def behaviorCheck_def hourlyDataOf_def
        behaviorDataOf_def sampleEnv_simps stateAfter1_simps sampleBody_simps limit_defs Let_def
        hourlyKey_sample)
  have rc: "requestChecks (sampleEnv 1700000006000 nonce2 w) request2 (sampleBody keys2 150 2) = None"
    unfolding request2_def by (rule sample_requestChecks [OF csrf2]) simp
  have fresh: "processedRequests stateAfter1
      (dedupKeyOf (sampleEnv 1700000006000 nonce2 w) (sampleBody keys2 150 2)) = None"
    unfolding stateAfter1_eq
    by (simp add: stateAfterCommit_processed [OF dedup_keys_differ(1)] sampleState_simps)
  show ?thesis
    unfolding reachesCommit_def
    using adm keys2_valid_after1 rc fresh
    by (simp add: request2_def sample_origin sample_body keysPresent_sample sampleEnv_simps
        stateAfter1_simps sampleBody_simps samplePlayer_nonempty)
qed

lemma post2:
  "POST sampleHmac env2 stateAfter1 request2
     = (\<lparr>status = 200,
         payload = Updated
           \<lparr>transactionHash = ''0xhash2'', cryptoValidationLevel = HIGH,
            resultNonce = nonce2, resultTimestamp = 1700000006000,
            antiAbuse = \<lparr>hourlyScore = 300, hourlyTransactions = 4, sessionRequests = 2\<rparr>\<rparr>\<rparr>,
        stateAfter2)"
proof -
  have "POST sampleHmac env2 stateAfter1 request2
     = (\<lparr>status = 200,
         payload = Updated
           \<lparr>transactionHash = ''0xhash2'', cryptoValidationLevel = HIGH,
            resultNonce = nonce2, resultTimestamp = 1700000006000,
            antiAbuse = \<lparr>hourlyScore = 300, hourlyTransactions = 4, sessionRequests = 2\<rparr>\<rparr>\<rparr>,
        snd (POST sampleHmac env2 stateAfter1 request2))"
    unfolding env2_def
    by (subst (1 2) POST_reachesCommit [OF reaches2])
       (simp add: sampleEnv_simps stateAfter1_simps sampleBody_simps hourlyDataOf_def
         behaviorDataOf_def hourlyKey_sample)
  then show ?thesis by (simp add: stateAfter2_def)
qed

lemma stateAfter2_eq:
  "stateAfter2 = stateAfterCommit sampleHmac env2 stateAfter1 (sampleBody keys2 150 2) keys2 ''0xhash2''"
  unfolding stateAfter2_def env2_def
  by (subst POST_reachesCommit [OF reaches2]) (simp add: sampleEnv_simps)

lemma stateAfter2_simps:
  "cryptoService stateAfter2
     = markKeysAsUsed (cryptoService stateAfter1)
         (signClientKeys sampleHmac (cryptoService stateAfter1) keys2)"
  "signingUsedNonces stateAfter2 = {}"
  "hourlyLimits stateAfter2 sampleHourKey
     = Some \<lparr>score = 300, transactions = 4, since = 1700000000000\<rparr>"
  "scoreTracking stateAfter2 samplePlayer
     = Some \<lparr>totalScore = 300, requests = 2, firstRequest = 1700000000000\<rparr>"
  "contractWrites stateAfter2
     = [\<lparr>playerAddress = samplePlayer, scoreAmount = 150, transactionAmount = 2\<rparr>,
        \<lparr>playerAddress = samplePlayer, scoreAmount = 150, transactionAmount = 2\<rparr>]"
  by (simp_all add: stateAfter2_eq stateAfterCommit_simps env2_def sampleEnv_simps
      stateAfter1_simps sampleBody_simps hourlyDataOf_def behaviorDataOf_def hourlyKey_sample)

lemma keys3_valid_after2:
  "valid (fst (validateKeys sampleHmac (cryptoService stateAfter2) keys3
     (validationRequestOf (sampleEnv 1700000008000 n w) (sampleBody keys3 150 2) keys3)))"
proof (rule keys_signed_valid)
  let ?svc = "cryptoService stateAfter2"
  let ?req = "validationRequestOf (sampleEnv 1700000008000 n w) (sampleBody keys3 150 2) keys3"
  have fresh:
    "temporalKey keys3 @ CHR '':'' # hmacHex sampleHmac (SERVER_TEMPORAL_SECRET ?svc) (temporalKey keys3)
       \<notin> usedTemporalKeys ?svc"
    "payloadKey keys3 @ CHR '':'' # hmacHex sampleHmac (SERVER_PAYLOAD_SECRET ?svc) (payloadKey keys3)
       \<notin> usedPayloadKeys ?svc"
    "identityKey keys3 @ CHR '':'' # hmacHex sampleHmac (SERVER_IDENTITY_SECRET ?svc) (identityKey keys3)
       \<notin> usedIdentityKeys ?svc"
    by (simp_all add: stateAfter2_simps stateAfter1_simps markKeysAsUsed_simps sampleService_simps
        signClientKeys_def keys1_def keys2_def keys3_def)
  show "validateTemporalKey sampleHmac ?svc
          (temporalKey keys3 @ CHR '':'' # hmacHex sampleHmac (SERVER_TEMPORAL_SECRET ?svc) (temporalKey keys3))
          (timestamp ?req) = Valid"
    by (rule temporal_signed_valid [OF keys_colon_free(7) keys_nonempty(7) fresh(1) keys3_timestamps(1)])
       (simp add: validationRequestOf_def sampleEnv_simps)
  show "validatePayloadKey sampleHmac ?svc
          (payloadKey keys3 @ CHR '':'' # hmacHex sampleHmac (SERVER_PAYLOAD_SECRET ?svc) (payloadKey keys3))
          (playerAddress ?req) (scoreAmount ?req) (transactionAmount ?req) = Valid"
    unfolding validationRequestOf_def
    by (simp add: sampleBody_simps)
       (rule payload_signed_valid [OF keys_colon_free(8) keys_nonempty(8) fresh(2) keys3_timestamps(2)
          parse_samples(1) parse_samples(2)])
  show "validateIdentityKey sampleHmac ?svc
          (identityKey keys3 @ CHR '':'' # hmacHex sampleHmac (SERVER_IDENTITY_SECRET ?svc) (identityKey keys3))
          (playerAddress ?req) (timestamp ?req) = Valid"
    unfolding validationRequestOf_def
    by (simp add: sampleBody_simps sampleEnv_simps)
       (rule identity_signed_valid [OF keys_colon_free(9) keys_nonempty(9) fresh(3) keys3_timestamps(3)
          parse_samples(5)], simp)
qed

lemma reaches3:
  "reachesCommit sampleHmac (sampleEnv 1700000008000 nonce3 w) stateAfter2 request3
     (sampleBody keys3 150 2) keys3"
proof -
  have adm: "admission (sampleEnv 1700000008000 nonce3 w) stateAfter2 (sampleBody keys3 150 2) = None"
    by (simp add: admission_def hourlyLimitCheck_def behaviorCheck_def hourlyDataOf_def
        behaviorDataOf_def sampleEnv_simps stateAfter2_simps sampleBody_simps limit_defs Let_def
        hourlyKey_sample)
  have rc: "requestChecks (sampleEnv 1700000008000 nonce3 w) request3 (sampleBody keys3 150 2) = None"
    unfolding request3_def by (rule sample_requestChecks [OF csrf3]) simp
  have fresh: "processedRequests stateAfter2
      (dedupKeyOf (sampleEnv 1700000008000 nonce3 w) (sampleBody keys3 150 2)) = None"
    unfolding stateAfter2_eq stateAfter1_eq
    by (simp add: stateAfterCommit_processed [OF dedup_keys_differ(2)]
        stateAfterCommit_processed [OF dedup_keys_differ(3)] sampleState_simps)
  show ?thesis
    unfolding reachesCommit_def
    using adm keys3_valid_after2 rc fresh
    by (simp add: request3_def sample_origin sample_body keysPresent_sample sampleEnv_simps
        stateAfter2_simps sampleBody_simps samplePlayer_nonempty)
qed

lemma post3:
  "POST sampleHmac env3 stateAfter2 request3
     = (\<lparr>status = 200,
         payload = Updated
           \<lparr>transactionHash = ''0xhash3'', cryptoValidationLevel = HIGH,
            resultNonce = nonce3, resultTimestamp = 1700000008000,
            antiAbuse = \<lparr>hourlyScore = 450, hourlyTransactions = 6, sessionRequests = 3\<rparr>\<rparr>\<rparr>,
        stateAfterCommit sampleHmac env3 stateAfter2 (sampleBody keys3 150 2) keys3 ''0xhash3'')"
  unfolding env3_def
  by (subst POST_reachesCommit [OF reaches3])
     (simp add: sampleEnv_simps stateAfter2_simps sampleBody_simps hourlyDataOf_def
       behaviorDataOf_def hourlyKey_sample)

text \<open>The first request again, three seconds after it was accepted.\<close>

lemma post_retry:
  "POST sampleHmac envRetry stateAfter1 request1
     = (\<lparr>status = 429, payload = RequestTooFrequent 3000\<rparr>, stateAfter1)"
proof -
  have adm: "admission envRetry stateAfter1 (sampleBody keys1 150 2)
               = Some \<lparr>status = 429, payload = RequestTooFrequent 3000\<rparr>"
    by (simp add: admission_def hourlyLimitCheck_def behaviorCheck_def hourlyDataOf_def
        behaviorDataOf_def envRetry_def sampleEnv_simps stateAfter1_simps sampleBody_simps
        limit_defs Let_def hourlyKey_sample)
  show ?thesis
    using adm
    by (simp add: POST_def request1_def sample_origin sample_body envRetry_def sampleEnv_simps)
qed

text \<open>The first request again, seven seconds after it was accepted.\<close>

lemma post_late:
  "status (fst (POST sampleHmac envLate stateAfter1 request1)) = 401
   \<and> snd (POST sampleHmac envLate stateAfter1 request1) = stateAfter1"
proof -
  have adm: "admission envLate stateAfter1 (sampleBody keys1 150 2) = None"
    by (simp add: admission_def hourlyLimitCheck_def behaviorCheck_def hourlyDataOf_def
        behaviorDataOf_def envLate_def sampleEnv_simps stateAfter1_simps sampleBody_simps
        limit_defs Let_def hourlyKey_sample)
  have used: "temporalKey (signClientKeys sampleHmac (cryptoService stateAfter1) keys1)
                \<in> usedTemporalKeys (cryptoService stateAfter1)"
    by (simp add: stateAfter1_simps signClientKeys_marked markKeysAsUsed_simps)
  note inv = used_key_invalid [OF used, of "validationRequestOf envLate (sampleBody keys1 150 2) keys1"]
  have same: "snd (validateKeys sampleHmac (cryptoService stateAfter1) keys1
      (validationRequestOf envLate (sampleBody keys1 150 2) keys1)) = cryptoService stateAfter1"
    using inv by (simp add: validateKeys_def Let_def valid_iff_all)
  show ?thesis
    using adm inv same
    by (simp add: POST_def Let_def request1_def sample_origin sample_body envLate_def
        sampleEnv_simps keysPresent_sample)
qed

text \<open>The first request when \<open>writeContract\<close> throws.\<close>

lemma post_fail:
  "POST sampleHmac envFail sampleState request1
     = (\<lparr>status = 500, payload = UpdateFailed\<rparr>,
        stateAfterFailure sampleHmac envFail sampleState (sampleBody keys1 150 2) keys1)"
  unfolding envFail_def
  by (subst POST_reachesCommit [OF reaches1])
     (simp add: sampleEnv_simps errorResponse_def startsWith_def)

lemma sample_digest:
  "hmacHex sampleHmac ''temporal-secret'' ''0x1234567890123456789012345678901234567890-6553f100''
     = ''5375cba30000000000000000000000000000000000000000000000005375cba3''"
  by (simp add: hmacHex_def sampleHmac_def digitChar_def hexPad.simps)

lemma sample_requestChecks_general:
  assumes "isValidCSRFFormat t token" and "token \<noteq> []"
      and "0 < txs" and "txs \<le> 3" and "5 * txs \<le> sc" and "sc \<le> 1000"
  shows "requestChecks (sampleEnv t n w) (sampleRequest token keys sc txs) (sampleBody keys sc txs) = None"
  using assms sample_address
  by (simp add: requestChecks_def sampleEnv_simps sampleBody_simps samplePlayer_nonempty
      sampleRequest_def limit_defs)

lemma csrf4: "isValidCSRFFormat 1700000000000 ''sess4-1700000000000-n4-client''"
  by (simp add: isValidCSRFFormat_def string_defs)

lemma keys4_facts:
  "temporalKeyTimestamp (temporalKey keys4) = Some 1700000000000"
  "splitOn CHR ''-'' (payloadKey keys4) = [samplePlayer, ''100'', ''1'', ''4a4b4c4d'']"
  "splitOn CHR ''-'' (identityKey keys4) = [samplePlayer, ''1700000000000'', ''5a5b5c5d'']"
  "CHR '':'' \<notin> set (temporalKey keys4)" "CHR '':'' \<notin> set (payloadKey keys4)"
  "CHR '':'' \<notin> set (identityKey keys4)"
  "temporalKey keys4 \<noteq> []" "payloadKey keys4 \<noteq> []" "identityKey keys4 \<noteq> []"
  "parseInt ''100'' 10 = Some 100" "parseInt ''1'' 10 = Some 1"
  by (simp_all add: temporalKeyTimestamp_def keys4_def samplePlayer_def string_defs)

lemma busyState_simps:
  "cryptoService busyState = sampleService" "signingUsedNonces busyState = {}"
  "hourlyLimits busyState sampleHourKey
     = Some \<lparr>score = 29900, transactions = 60, since = 1699999300000\<rparr>"
  "scoreTracking busyState samplePlayer
     = Some \<lparr>totalScore = 29900, requests = 30, firstRequest = 1699999300000\<rparr>"
  "processedRequests busyState = Map.empty" "contractWrites busyState = []"
  by (simp_all add: busyState_def sampleState_simps)

lemma keys4_valid:
  "valid (fst (validateKeys sampleHmac sampleService keys4
     (validationRequestOf (sampleEnv 1700000000000 n w) (sampleBody keys4 100 1) keys4)))"
proof (rule keys_signed_valid)
  let ?svc = "sampleService"
  let ?req = "validationRequestOf (sampleEnv 1700000000000 n w) (sampleBody keys4 100 1) keys4"
  have fresh:
    "temporalKey keys4 @ CHR '':'' # hmacHex sampleHmac (SERVER_TEMPORAL_SECRET ?svc) (temporalKey keys4)
       \<notin> usedTemporalKeys ?svc"
    "payloadKey keys4 @ CHR '':'' # hmacHex sampleHmac (SERVER_PAYLOAD_SECRET ?svc) (payloadKey keys4)
       \<notin> usedPayloadKeys ?svc"
    "identityKey keys4 @ CHR '':'' # hmacHex sampleHmac (SERVER_IDENTITY_SECRET ?svc) (identityKey keys4)
       \<notin> usedIdentityKeys ?svc"
    by (simp_all add: sampleService_simps)
  show "validateTemporalKey sampleHmac ?svc
          (temporalKey keys4 @ CHR '':'' # hmacHex sampleHmac (SERVER_TEMPORAL_SECRET ?svc) (temporalKey keys4))
          (timestamp ?req) = Valid"
    by (rule temporal_signed_valid [OF keys4_facts(4) keys4_facts(7) fresh(1) keys4_facts(1)])
       (simp add: validationRequestOf_def sampleEnv_simps)
  show "validatePayloadKey sampleHmac ?svc
          (payloadKey keys4 @ CHR '':'' # hmacHex sampleHmac (SERVER_PAYLOAD_SECRET ?svc) (payloadKey keys4))
          (playerAddress ?req) (scoreAmount ?req) (transactionAmount ?req) = Valid"
    unfolding validationRequestOf_def
    by (simp add: sampleBody_simps)
       (rule payload_signed_valid [OF keys4_facts(5) keys4_facts(8) fresh(2) keys4_facts(2)
          keys4_facts(10) keys4_facts(11)])
  show "validateIdentityKey sampleHmac ?svc
          (identityKey keys4 @ CHR '':'' # hmacHex sampleHmac (SERVER_IDENTITY_SECRET ?svc) (identityKey keys4))
          (playerAddress ?req) (timestamp ?req) = Valid"
    unfolding validationRequestOf_def
    by (simp add: sampleBody_simps sampleEnv_simps)
       (rule identity_signed_valid [OF keys4_facts(6) keys4_facts(9) fresh(3) keys4_facts(3)
          parse_samples(3)], simp)
qed

lemma reaches100:
  "reachesCommit sampleHmac (sampleEnv 1700000000000 nonce1 w) busyState request100
     (sampleBody keys4 100 1) keys4"
proof -
  have adm: "admission (sampleEnv 1700000000000 nonce1 w) busyState (sampleBody keys4 100 1) = None"
    by (simp add: admission_def hourlyLimitCheck_def behaviorCheck_def hourlyDataOf_def
        behaviorDataOf_def sampleEnv_simps busyState_simps sampleBody_simps limit_defs Let_def
        hourlyKey_sample)
  have rc: "requestChecks (sampleEnv 1700000000000 nonce1 w) request100 (sampleBody keys4 100 1) = None"
    unfolding request100_def by (rule sample_requestChecks_general [OF csrf4]) simp_all
  have kp: "keysPresent (sampleBody keys4 100 1) = Some keys4"
    by (simp add: keysPresent_def sampleBody_simps keys4_facts)
  show ?thesis
    unfolding reachesCommit_def
    using adm keys4_valid rc kp
    by (simp add: request100_def sample_origin sample_body sampleEnv_simps
        busyState_simps sampleBody_simps samplePlayer_nonempty)
qed

lemma post100:
  "accepted (fst (POST sampleHmac env1 busyState request100))
   \<and> hourlyLimits (snd (POST sampleHmac env1 busyState request100)) sampleHourKey
       = Some \<lparr>score = 30000, transactions = 61, since = 1699999300000\<rparr>"
  unfolding env1_def
  by (subst (1 2) POST_reachesCommit [OF reaches100])
     (simp add: sampleEnv_simps accepted_def stateAfterCommit_simps busyState_simps sampleBody_simps
       hourlyDataOf_def hourlyKey_sample)

lemma post200:
  "POST sampleHmac env1 busyState request200
     = (\<lparr>status = 429, payload = HourlyScoreLimitExceeded 29900 200 100\<rparr>, busyState)"
proof -
  have adm: "admission env1 busyState (sampleBody keys4 200 1)
               = Some \<lparr>status = 429, payload = HourlyScoreLimitExceeded 29900 200 100\<rparr>"
    by (simp add: admission_def hourlyLimitCheck_def hourlyDataOf_def
        env1_def sampleEnv_simps busyState_simps sampleBody_simps
        limit_defs Let_def hourlyKey_sample)
  show ?thesis
    using adm
    by (simp add: POST_def request200_def sample_origin sample_body env1_def sampleEnv_simps)
qed

text \<open>The nonce check on two suffixes beyond 2^53.\<close>

lemma suffix_values:
  "mathInt 16 ''0100000000000428'' = 72057594037929000"
  "parseInt ''0100000000000428'' 16 = Some 72057594037928992"
  "mathInt 16 ''0100000000000041'' = 72057594037928001"
  "parseInt ''0100000000000041'' 16 = Some 72057594037928000"
  by (simp_all add: string_defs bitLength.simps Let_def)

lemma nonce_multiple_accepted:
  "validateNonceWithChallenge sampleHmac 1700000000000 sampleService
     ''6553f1005375cba30100000000000428'' samplePlayer = Valid"
  by (simp add: validateNonceWithChallenge_def sampleService_def samplePlayer_def
      sample_digest challengeAgeError_def predictableSuffix_def string_defs Let_def bitLength.simps)

lemma nonce_nonmultiple_rejected:
  "validateNonceWithChallenge sampleHmac 1700000000000 sampleService
     ''6553f1005375cba30100000000000041'' samplePlayer = Invalid ''Predictable nonce suffix''"
  by (simp add: validateNonceWithChallenge_def sampleService_def samplePlayer_def
      sample_digest challengeAgeError_def predictableSuffix_def string_defs Let_def bitLength.simps)

lemma sample_challenge:
  "challenge (generateNonceChallenge sampleHmac 1700000000000 sampleService samplePlayer)
     = ''6553f1005375cba3''"
  using sample_digest
  by (simp add: generateNonceChallenge_def sampleService_def samplePlayer_def numToString_def
      natToString.simps padStart_def digitChar_def Let_def)

lemma sample_nonce_valid:
  "validateNonceWithChallenge sampleHmac 1700000000000 sampleService sampleNonce samplePlayer = Valid"
  by (simp add: validateNonceWithChallenge_def sampleNonce_def sampleService_def samplePlayer_def
      sample_digest challengeAgeError_def predictableSuffix_def string_defs Let_def bitLength.simps)

lemma sample_client_request_valid:
  "valid (fst (validateClientRequest sampleHmac 1700000000000 sampleRandom sampleService sampleClientRequest))"
  using sample_nonce_valid
  by (simp add: valid_client_iff clientRequestErrors_def nonceErrors_def requestKeyOf_def
      windowKeyOf_def sampleClientRequest_def sampleService_def samplePlayer_def sampleNonce_def
      startsWith_def)

text \<open>The same request for keys on any service with the sample secret, within five minutes.\<close>

lemma sample_nonce_valid_within:
  assumes "SERVER_TEMPORAL_SECRET svc = ''temporal-secret''"
      and "1700000000000 \<le> t" and "t \<le> 1700000300000"
  shows "validateNonceWithChallenge sampleHmac t svc sampleNonce samplePlayer = Valid"
  using assms
  by (simp add: validateNonceWithChallenge_def sampleNonce_def samplePlayer_def
      sample_digest challengeAgeError_def predictableSuffix_def string_defs Let_def bitLength.simps)

lemma sample_client_request_valid_within:
  assumes "SERVER_TEMPORAL_SECRET svc = ''temporal-secret''"
      and "1700000000000 \<le> t" and "t \<le> 1700000300000"
      and "sampleNonce \<notin> usedNonces svc"
      and "requestKeyOf sampleClientRequest \<notin> usedTemporalKeys svc"
      and "windowKeyOf sampleClientRequest \<notin> usedPayloadKeys svc"
  shows "valid (fst (validateClientRequest sampleHmac t rnd svc sampleClientRequest))"
proof -
  have f: "playerAddress sampleClientRequest = samplePlayer"
    "scoreAmount sampleClientRequest = 150" "transactionAmount sampleClientRequest = 2"
    "timestamp sampleClientRequest = 1700000000000" "clientNonce sampleClientRequest = sampleNonce"
    by (simp_all add: sampleClientRequest_def)
  have n: "nonceErrors sampleHmac t svc sampleClientRequest = []"
    using sample_nonce_valid_within [OF assms(1-3)] assms(4)
    by (simp add: nonceErrors_def f) (simp add: sampleNonce_def)
  from assms(2,3,5,6) n show ?thesis
    by (simp add: valid_client_iff clientRequestErrors_def f samplePlayer_def startsWith_def)
qed

lemma validateClientRequest_valid_state:
  "valid (fst (validateClientRequest H t rnd svc cr)) \<Longrightarrow>
   snd (validateClientRequest H t rnd svc cr)
     = svc\<lparr>usedTemporalKeys := insert (requestKeyOf cr) (usedTemporalKeys svc),
           usedPayloadKeys := insert (windowKeyOf cr) (usedPayloadKeys svc),
           usedNonces := insert (clientNonce cr) (usedNonces svc)\<rparr>"
  by (simp add: validateClientRequest_def Let_def split: if_splits)

lemma usedKeysOf_card: "card (usedKeysOf prefix n) = n"
  by (simp add: usedKeysOf_def card_image inj_on_def)

lemma usedKeysOf_finite: "finite (usedKeysOf prefix n)"
  by (simp add: usedKeysOf_def)

lemma usedKeysOf_other: "x # xs \<in> usedKeysOf (y # ys) n \<Longrightarrow> x = y"
  by (auto simp: usedKeysOf_def)

lemma sample_request_keys:
  "hd (requestKeyOf sampleClientRequest) = CHR ''0''" "requestKeyOf sampleClientRequest \<noteq> []"
  "hd (windowKeyOf sampleClientRequest) = CHR ''0''" "windowKeyOf sampleClientRequest \<noteq> []"
  by (simp_all add: requestKeyOf_def windowKeyOf_def sampleClientRequest_def samplePlayer_def)

lemma sample_request_keys_fresh:
  "requestKeyOf sampleClientRequest \<notin> usedKeysOf ''temporal-'' n"
  "windowKeyOf sampleClientRequest \<notin> usedKeysOf ''payload-'' n"
proof -
  obtain x xs where a: "requestKeyOf sampleClientRequest = x # xs" "x = CHR ''0''"
    using sample_request_keys(1,2) by (cases "requestKeyOf sampleClientRequest") auto
  obtain y ys where b: "windowKeyOf sampleClientRequest = y # ys" "y = CHR ''0''"
    using sample_request_keys(3,4) by (cases "windowKeyOf sampleClientRequest") auto
  show "requestKeyOf sampleClientRequest \<notin> usedKeysOf ''temporal-'' n"
    using usedKeysOf_other [of x xs "CHR ''t''" "''emporal-''" n] a by auto
  show "windowKeyOf sampleClientRequest \<notin> usedKeysOf ''payload-'' n"
    using usedKeysOf_other [of y ys "CHR ''p''" "''ayload-''" n] b by auto
qed

lemma fullService_simps:
  "SERVER_TEMPORAL_SECRET fullService = ''temporal-secret''"
  "SERVER_PAYLOAD_SECRET fullService = ''payload-secret''"
  "SERVER_IDENTITY_SECRET fullService = ''identity-secret''"
  "usedTemporalKeys fullService = usedKeysOf ''temporal-'' 3334"
  "usedPayloadKeys fullService = usedKeysOf ''payload-'' 3334"
  "usedIdentityKeys fullService = usedKeysOf ''identity-'' 3334"
  "usedNonces fullService = {}"
  by (simp_all add: fullService_def sampleService_def)

lemma fullService_first:
  "valid (fst (validateClientRequest sampleHmac 1700000000000 rnd fullService sampleClientRequest))"
  by (rule sample_client_request_valid_within)
     (simp_all add: fullService_simps sample_request_keys_fresh)

lemma fullService_after:
  "snd (validateClientRequest sampleHmac 1700000000000 rnd fullService sampleClientRequest)
     = fullService
         \<lparr>usedTemporalKeys := insert (requestKeyOf sampleClientRequest) (usedKeysOf ''temporal-'' 3334),
          usedPayloadKeys := insert (windowKeyOf sampleClientRequest) (usedKeysOf ''payload-'' 3334),
          usedNonces := {sampleNonce}\<rparr>"
  using validateClientRequest_valid_state [OF fullService_first, of rnd]
  by (simp add: fullService_simps sampleClientRequest_def)

lemma fullService_oldSize:
  "oldSize (snd (validateClientRequest sampleHmac 1700000000000 rnd fullService sampleClientRequest))
     = 10005"
  by (simp add: fullService_after oldSize_def fullService_simps usedKeysOf_card usedKeysOf_finite
      sample_request_keys_fresh)

lemma fullService_cleanup:
  "cleanupOldKeys
     (snd (validateClientRequest sampleHmac 1700000000000 rnd fullService sampleClientRequest))
     = sampleService"
  by (simp add: cleanupOldKeys_def fullService_oldSize, subst fullService_after)
     (simp add: fullService_def sampleService_def)

lemma sample_replay:
  "valid (fst (validateClientRequest sampleHmac 1700000001000 rnd sampleService sampleClientRequest))"
  by (rule sample_client_request_valid_within) (simp_all add: sampleService_simps)

section \<open>Claim C2: the same body twice\<close>

text \<open>
  Claim C2, as stated, fails: the first request is accepted with a receipt; the same request
  three seconds later is answered 429 (too frequent) and, seven seconds later, 401 (its keys
  are used), never with the first receipt and \<open>duplicate: true\<close>.
\<close>

theorem resubmission_not_deduplicated:
  "POST sampleHmac env1 sampleState request1
     = (\<lparr>status = 200,
         payload = Updated
           \<lparr>transactionHash = ''0xhash1'', cryptoValidationLevel = HIGH,
            resultNonce = nonce1, resultTimestamp = 1700000000000,
            antiAbuse = \<lparr>hourlyScore = 150, hourlyTransactions = 2, sessionRequests = 1\<rparr>\<rparr>\<rparr>,
        stateAfter1)
   \<and> POST sampleHmac envRetry stateAfter1 request1
     = (\<lparr>status = 429, payload = RequestTooFrequent 3000\<rparr>, stateAfter1)
   \<and> \<not> duplicate (fst (POST sampleHmac envRetry stateAfter1 request1))
   \<and> status (fst (POST sampleHmac envLate stateAfter1 request1)) = 401
   \<and> snd (POST sampleHmac envLate stateAfter1 request1) = stateAfter1"
  using post1 post_retry post_late by (simp add: duplicate_def)

text \<open>
  Claim C2, amended: when a request has been accepted (its commit executed and its receipt
  returned), the identical request submitted again to the state it left, at any later time
  and whatever the rate limiters and the signing service answer, is rejected with status 403,
  429 or 401: its three keys are marked used, so it can get no further than the key
  validation. It is never answered with \<open>duplicate: true\<close>, it commits nothing, and so the
  two submissions together add exactly one entry to the ledger.
\<close>

theorem resubmission_rejected:
  fixes H :: hmac and env1 env2 s request
  defines "first \<equiv> POST H env1 s request"
  defines "second \<equiv> POST H env2 (snd first) request"
  assumes acc: "accepted (fst first)"
  shows "(status (fst second) = 403 \<or> status (fst second) = 429 \<or> status (fst second) = 401)
       \<and> \<not> duplicate (fst second)
       \<and> \<not> accepted (fst second)
       \<and> (\<exists>b. body request = Inr b
            \<and> contractWrites (snd second)
                = contractWrites s
                    @ [\<lparr>playerAddress = playerAddress b, scoreAmount = scoreAmount b,
                         transactionAmount = transactionAmount b\<rparr>])"
proof -
  from acc POST_accepted_reaches [of H env1 s request]
  obtain b keys hash where rc: "reachesCommit H env1 s request b keys"
    and w: "writeContract env1 = Inr hash"
    by (auto simp: first_def)
  from POST_reachesCommit [OF rc] w
  have s1: "snd first = stateAfterCommit H env1 s b keys hash"
    by (simp add: first_def)
  from rc have b: "body request = Inr b" and k: "keysPresent b = Some keys"
    by (simp_all add: reachesCommit_def)
  have used: "temporalKey (signClientKeys H (cryptoService (snd first)) keys)
                \<in> usedTemporalKeys (cryptoService (snd first))"
    by (simp add: s1 stateAfterCommit_def signClientKeys_marked) (simp add: markKeysAsUsed_def)
  from used_key_invalid [OF used]
  have inv: "\<not> valid (fst (validateKeys H (cryptoService (snd first)) keys
                 (validationRequestOf env2 b keys)))" .
  from POST_invalid_keys [OF b k inv]
  have r: "(status (fst second) = 403 \<or> status (fst second) = 429 \<or> status (fst second) = 401)
       \<and> \<not> duplicate (fst second) \<and> \<not> accepted (fst second)"
    by (simp add: second_def)
  then have "\<not> accepted (fst (POST H env2 (snd first) request))"
    by (simp add: second_def)
  from POST_rejected_counters [OF this]
  have "contractWrites (snd second) = contractWrites (snd first)"
    by (simp add: second_def)
  with s1 have "contractWrites (snd second)
                = contractWrites s
                    @ [\<lparr>playerAddress = playerAddress b, scoreAmount = scoreAmount b,
                         transactionAmount = transactionAmount b\<rparr>]"
    by (simp add: stateAfterCommit_def)
  with r b show ?thesis by blast
qed

theorem resubmission_rejected_witness:
  "accepted (fst (POST sampleHmac env1 sampleState request1))
   \<and> status (fst (POST sampleHmac envLate (snd (POST sampleHmac env1 sampleState request1)) request1))
       = 401
   \<and> \<not> duplicate
        (fst (POST sampleHmac envLate (snd (POST sampleHmac env1 sampleState request1)) request1))
   \<and> \<not> accepted
        (fst (POST sampleHmac envLate (snd (POST sampleHmac env1 sampleState request1)) request1))
   \<and> contractWrites
        (snd (POST sampleHmac envLate (snd (POST sampleHmac env1 sampleState request1)) request1))
       = [\<lparr>playerAddress = samplePlayer, scoreAmount = 150, transactionAmount = 2\<rparr>]"
proof -
  have acc: "accepted (fst (POST sampleHmac env1 sampleState request1))"
    by (simp add: post1 accepted_def)
  from resubmission_rejected [OF acc, of envLate] acc post_late show ?thesis
    by (simp add: post1 stateAfter1_simps)
qed

section \<open>Claim C3: a nonce is used once\<close>

text \<open>
  Claim C3, as stated, fails: the used-sets are not kept for ever. The service of
  \<open>fullState\<close> has marked the keys of 3334 accepted submissions. The sample request for
  keys is accepted and its nonce recorded; the sets now hold 10005 entries, so the next run
  of \<open>cleanupOldKeys\<close> clears all four; one second after its first presentation the same
  nonce, whose challenge is still fresh, is accepted again.
\<close>

theorem replay_after_cleanup:
  "valid (fst (validateClientRequest sampleHmac 1700000000000 sampleRandom
      (cryptoService fullState) sampleClientRequest))
   \<and> clientNonce sampleClientRequest
        \<in> usedNonces (cryptoService (step sampleHmac fullState sampleKeyRequest))
   \<and> oldSize (cryptoService (step sampleHmac fullState sampleKeyRequest)) = 10005
   \<and> keysCleared sampleHmac (step sampleHmac fullState sampleKeyRequest) [KeysCleanup]
   \<and> usedNonces (cryptoService (run sampleHmac (step sampleHmac fullState sampleKeyRequest)
        [KeysCleanup])) = {}
   \<and> valid (fst (validateClientRequest sampleHmac 1700000001000 sampleRandom
        (cryptoService (run sampleHmac (step sampleHmac fullState sampleKeyRequest) [KeysCleanup]))
        sampleClientRequest))"
proof -
  have s: "cryptoService fullState = fullService"
    by (simp add: fullState_def)
  have st: "cryptoService (step sampleHmac fullState sampleKeyRequest)
      = snd (validateClientRequest sampleHmac 1700000000000 sampleRandom fullService
          sampleClientRequest)"
    by (simp add: sampleKeyRequest_def s)
  have r: "cryptoService (run sampleHmac (step sampleHmac fullState sampleKeyRequest) [KeysCleanup])
      = sampleService"
    by (simp add: st fullService_cleanup)
  have n: "clientNonce sampleClientRequest = sampleNonce"
    by (simp add: sampleClientRequest_def)
  show ?thesis
    unfolding r s
    by (simp add: st fullService_first fullService_oldSize sample_replay sampleService_simps)
       (simp add: fullService_after n)
qed

text \<open>
  Claim C3, amended. \<open>validateClientRequest\<close>, which wraps the challenge check of the nonce,
  rejects a nonce that is in the used-set (for a 32-character nonce, as every used one is,
  with the error \<open>Nonce has already been used\<close>) and leaves the service unchanged; when it
  accepts, the nonce was not in the set and is in it afterwards; a rejected request marks
  nothing. The check and the marking are one function of the state, and no other event (a
  request to the route with its key validation, a timer) adds a nonce to the set. After an
  accepted request, and whatever requests and timers follow, every later request with the
  same nonce is rejected as a replay, as long as no run of \<open>cleanupOldKeys\<close> in between has
  found more than 10000 entries and cleared the sets.
\<close>

theorem nonce_single_use:
  fixes H H' :: hmac and t t' :: int and rnd rnd' cr cr' s evs e keys request
  defines "first \<equiv> validateClientRequest H t rnd (cryptoService s) cr"
  defines "later \<equiv> run H (step H s (KeyRequest t rnd cr)) evs"
  defines "second \<equiv> validateClientRequest H' t' rnd' (cryptoService later) cr'"
  shows "(clientNonce cr \<in> usedNonces (cryptoService s) \<longrightarrow>
            \<not> valid (fst first) \<and> snd first = cryptoService s
            \<and> (length (clientNonce cr) = 32 \<longrightarrow>
                 ''Nonce has already been used'' \<in> set (errors (fst first))))
       \<and> (valid (fst first) \<longrightarrow>
            clientNonce cr \<notin> usedNonces (cryptoService s)
            \<and> usedNonces (snd first) = insert (clientNonce cr) (usedNonces (cryptoService s)))
       \<and> (\<not> valid (fst first) \<longrightarrow> snd first = cryptoService s)
       \<and> (valid (fst first) \<and> clientNonce cr' = clientNonce cr
            \<and> \<not> keysCleared H (step H s (KeyRequest t rnd cr)) evs \<longrightarrow>
            \<not> valid (fst second) \<and> snd second = cryptoService later
            \<and> ''Nonce has already been used'' \<in> set (errors (fst second)))
       \<and> usedNonces (snd (validateKeys H (cryptoService s) keys request))
            = usedNonces (cryptoService s)
       \<and> (case e of
             KeyRequest t'' rnd'' cr'' \<Rightarrow> True
           | _ \<Rightarrow> usedNonces (cryptoService (step H s e)) \<subseteq> usedNonces (cryptoService s))"
proof -
  let ?svc = "cryptoService s"
  have a: "\<not> valid (fst first) \<and> snd first = ?svc
            \<and> (length (clientNonce cr) = 32 \<longrightarrow>
                 ''Nonce has already been used'' \<in> set (errors (fst first)))"
    if used: "clientNonce cr \<in> usedNonces ?svc"
  proof -
    from nonceErrors_used [OF used, of H t] have ne: "clientRequestErrors H t ?svc cr \<noteq> []"
      using no_errors_nonce [of H t ?svc cr] by blast
    then have "\<not> valid (fst first)" "snd first = ?svc"
      by (simp_all add: first_def validateClientRequest_def Let_def)
    moreover have "''Nonce has already been used'' \<in> set (errors (fst first))"
      if "length (clientNonce cr) = 32"
      using nonceErrors_replay [OF used that, of H t] nonceErrors_in_errors [of H t ?svc cr]
      by (auto simp: first_def errors_client)
    ultimately show ?thesis by blast
  qed
  have b: "clientNonce cr \<notin> usedNonces ?svc
            \<and> usedNonces (snd first) = insert (clientNonce cr) (usedNonces ?svc)"
    if ok: "valid (fst first)"
  proof -
    from ok have e: "clientRequestErrors H t ?svc cr = []"
      by (simp add: first_def valid_client_iff)
    from nonceErrors_accept [OF no_errors_nonce [OF e]] e show ?thesis
      by (simp add: first_def validateClientRequest_def Let_def)
  qed
  have c: "snd first = ?svc" if "\<not> valid (fst first)"
    using that by (auto simp: first_def validateClientRequest_def Let_def split: if_splits)
  have d: "\<not> valid (fst second) \<and> snd second = cryptoService later
            \<and> ''Nonce has already been used'' \<in> set (errors (fst second))"
    if ok: "valid (fst first)" and same: "clientNonce cr' = clientNonce cr"
      and kept: "\<not> keysCleared H (step H s (KeyRequest t rnd cr)) evs"
  proof -
    from ok have e: "clientRequestErrors H t ?svc cr = []"
      by (simp add: first_def valid_client_iff)
    from nonceErrors_accept [OF no_errors_nonce [OF e]] have len: "length (clientNonce cr') = 32"
      by (simp add: same)
    from b [OF ok] have "clientNonce cr' \<in> usedNonces (cryptoService (step H s (KeyRequest t rnd cr)))"
      by (simp add: same first_def)
    with run_keeps_nonces [OF kept] have used: "clientNonce cr' \<in> usedNonces (cryptoService later)"
      by (auto simp: later_def)
    from nonceErrors_replay [OF used len, of H' t']
    have r: "nonceErrors H' t' (cryptoService later) cr' = [''Nonce has already been used'']" .
    with nonceErrors_in_errors [of H' t' "cryptoService later" cr']
    have m: "''Nonce has already been used''
               \<in> set (clientRequestErrors H' t' (cryptoService later) cr')"
      by auto
    then have "clientRequestErrors H' t' (cryptoService later) cr' \<noteq> []" by auto
    with m show ?thesis
      by (simp add: second_def validateClientRequest_def Let_def)
  qed
  from a b c d usedNonces_validateKeys [of H ?svc keys request] step_usedNonces [where e = e and H = H and s = s]
  show ?thesis by blast
qed

text \<open>
  The sample request for keys on the empty service: accepted at 1700000000000; a key cleanup
  (which finds 3 entries), a dedup sweep and a cleanup of the signing nonces follow; presented
  again one second after the first time, the nonce is rejected.
\<close>

theorem nonce_single_use_witness:
  "valid (fst (validateClientRequest sampleHmac 1700000000000 sampleRandom
      (cryptoService sampleState) sampleClientRequest))
   \<and> clientNonce sampleClientRequest \<notin> usedNonces (cryptoService sampleState)
   \<and> usedNonces (cryptoService (step sampleHmac sampleState sampleKeyRequest)) = {sampleNonce}
   \<and> oldSize (cryptoService (step sampleHmac sampleState sampleKeyRequest)) = 3
   \<and> \<not> keysCleared sampleHmac (step sampleHmac sampleState sampleKeyRequest)
          [KeysCleanup, DedupCleanup 1700000000500, NoncesCleanup]
   \<and> \<not> valid (fst (validateClientRequest sampleHmac 1700000001000 sampleRandom
        (cryptoService (run sampleHmac (step sampleHmac sampleState sampleKeyRequest)
           [KeysCleanup, DedupCleanup 1700000000500, NoncesCleanup]))
        sampleClientRequest))
   \<and> ''Nonce has already been used''
        \<in> set (errors (fst (validateClientRequest sampleHmac 1700000001000 sampleRandom
             (cryptoService (run sampleHmac (step sampleHmac sampleState sampleKeyRequest)
                [KeysCleanup, DedupCleanup 1700000000500, NoncesCleanup]))
             sampleClientRequest)))"
proof -
  have v: "valid (fst (validateClientRequest sampleHmac 1700000000000 sampleRandom
      (cryptoService sampleState) sampleClientRequest))"
    using sample_client_request_valid by (simp add: sampleState_simps)
  have n: "clientNonce sampleClientRequest = sampleNonce"
    by (simp add: sampleClientRequest_def)
  have c: "cryptoService (step sampleHmac sampleState sampleKeyRequest)
      = sampleService\<lparr>usedTemporalKeys := {requestKeyOf sampleClientRequest},
          usedPayloadKeys := {windowKeyOf sampleClientRequest},
          usedNonces := {sampleNonce}\<rparr>"
    using validateClientRequest_valid_state [OF v]
    by (simp add: sampleKeyRequest_def sampleState_simps sampleService_simps n)
  have sz: "oldSize (cryptoService (step sampleHmac sampleState sampleKeyRequest)) = 3"
    by (simp add: c oldSize_def sampleService_simps)
  have k: "\<not> keysCleared sampleHmac (step sampleHmac sampleState sampleKeyRequest)
          [KeysCleanup, DedupCleanup 1700000000500, NoncesCleanup]"
    by (simp add: sz)
  from nonce_single_use [where H = sampleHmac and t = 1700000000000 and rnd = sampleRandom
      and s = sampleState and cr = sampleClientRequest and H' = sampleHmac
      and t' = 1700000001000 and rnd' = sampleRandom and cr' = sampleClientRequest
      and evs = "[KeysCleanup, DedupCleanup 1700000000500, NoncesCleanup]"]
    v k sz
  show ?thesis
    unfolding sampleKeyRequest_def [symmetric]
    by (simp add: c sampleState_simps sampleService_simps n)
qed

section \<open>Claim C5: the hourly score ceiling\<close>

text \<open>
  Claim C5: the hourly score ceiling is 30000. For a request that passes the origin check and
  whose player has 29900 points counted in the current hour: a request for 200 points is
  answered 429 and changes nothing (when both rate limiters let it through, by the hourly
  score ceiling itself, before any key is checked or anything committed); a request for 100
  points is not rejected by the ceiling, and it is accepted, with status 200, whenever it
  passes the other layers and \<open>writeContract\<close> returns, and only then; when it is accepted
  the hour's count becomes exactly 30000 and the ledger has its entry.
\<close>

theorem hourly_score_ceiling:
  assumes org: "validateOrigin (appUrl env) request"
      and b: "body request = Inr b"
      and h: "hourlyLimits s (hourlyKeyOf (now env) (playerAddress b)) = Some d"
      and d: "score d = 29900"
  shows "MAX_SCORE_PER_HOUR = 30000
       \<and> (scoreAmount b = 200 \<longrightarrow>
            status (fst (POST H env s request)) = 429
            \<and> snd (POST H env s request) = s
            \<and> (allowed (ipRateLimit env) \<and> allowed (playerRateLimit env) \<longrightarrow>
                 payload (fst (POST H env s request)) = HourlyScoreLimitExceeded 29900 200 100))
       \<and> (scoreAmount b = 100 \<longrightarrow>
            \<not> hourlyScoreRejection (fst (POST H env s request))
            \<and> (passesOtherLayers H env s request b keys \<and> writeContract env = Inr hash \<longrightarrow>
                 accepted (fst (POST H env s request))
                 \<and> status (fst (POST H env s request)) = 200
                 \<and> contractWrites (snd (POST H env s request))
                     = contractWrites s
                         @ [\<lparr>playerAddress = playerAddress b, scoreAmount = 100,
                              transactionAmount = transactionAmount b\<rparr>])
            \<and> (accepted (fst (POST H env s request)) \<longrightarrow>
                 (\<exists>keys' hash'. passesOtherLayers H env s request b keys'
                    \<and> writeContract env = Inr hash')
                 \<and> hourlyLimits (snd (POST H env s request)) (hourlyKeyOf (now env) (playerAddress b))
                     = Some \<lparr>score = 30000,
                             transactions = transactions d + transactionAmount b,
                             since = since d\<rparr>))"
proof -
  from h d have hd: "hourlyDataOf (now env) s (playerAddress b) = d"
    by (simp add: hourlyDataOf_def)
  have over: "status (fst (POST H env s request)) = 429
            \<and> snd (POST H env s request) = s
            \<and> (allowed (ipRateLimit env) \<and> allowed (playerRateLimit env) \<longrightarrow>
                 payload (fst (POST H env s request)) = HourlyScoreLimitExceeded 29900 200 100)"
    if "scoreAmount b = 200"
    using POST_over_ceiling [OF org b, of s H] that hd d
    by (simp add: MAX_SCORE_PER_HOUR_def)
  have within: "\<not> hourlyScoreRejection (fst (POST H env s request))" if "scoreAmount b = 100"
    using POST_within_ceiling [OF b, of env s H] that hd d
    by (simp add: MAX_SCORE_PER_HOUR_def)
  have pass: "accepted (fst (POST H env s request))
                 \<and> status (fst (POST H env s request)) = 200
                 \<and> contractWrites (snd (POST H env s request))
                     = contractWrites s
                         @ [\<lparr>playerAddress = playerAddress b, scoreAmount = 100,
                              transactionAmount = transactionAmount b\<rparr>]"
    if sc: "scoreAmount b = 100" and p: "passesOtherLayers H env s request b keys"
      and w: "writeContract env = Inr hash"
  proof -
    from p sc hd d have "reachesCommit H env s request b keys"
      by (simp add: reachesCommit_iff_layers MAX_SCORE_PER_HOUR_def)
    from POST_reachesCommit [OF this] w sc show ?thesis
      by (simp add: accepted_def stateAfterCommit_def)
  qed
  have upd: "(\<exists>keys' hash'. passesOtherLayers H env s request b keys'
                    \<and> writeContract env = Inr hash')
             \<and> hourlyLimits (snd (POST H env s request)) (hourlyKeyOf (now env) (playerAddress b))
                   = Some \<lparr>score = 30000,
                           transactions = transactions d + transactionAmount b,
                           since = since d\<rparr>"
    if "scoreAmount b = 100" and acc: "accepted (fst (POST H env s request))"
  proof -
    from POST_accepted_reaches [OF acc]
    obtain b' keys' hash' where r: "reachesCommit H env s request b' keys'"
      and w: "writeContract env = Inr hash'"
      by blast
    from r b have "b' = b" by (simp add: reachesCommit_def)
    with r have "passesOtherLayers H env s request b keys'"
      by (simp add: reachesCommit_iff_layers)
    moreover from POST_accepted [OF acc] b that(1) hd d
    have "hourlyLimits (snd (POST H env s request)) (hourlyKeyOf (now env) (playerAddress b))
                   = Some \<lparr>score = 30000,
                           transactions = transactions d + transactionAmount b,
                           since = since d\<rparr>"
      by auto
    ultimately show ?thesis using w by blast
  qed
  from over within pass upd show ?thesis
    by (simp add: MAX_SCORE_PER_HOUR_def)
qed

text \<open>
  With 29900 points counted, the sample request for 100 points passes the other layers and is
  accepted and counted; the one for 200 points is answered 429.
\<close>

theorem hourly_score_ceiling_witness:
  "validateOrigin (appUrl env1) request100
   \<and> body request100 = Inr (sampleBody keys4 100 1)
   \<and> hourlyLimits busyState (hourlyKeyOf (now env1) (playerAddress (sampleBody keys4 100 1)))
       = Some \<lparr>score = 29900, transactions = 60, since = 1699999300000\<rparr>
   \<and> passesOtherLayers sampleHmac env1 busyState request100 (sampleBody keys4 100 1) keys4
   \<and> writeContract env1 = Inr ''0xhash1''
   \<and> accepted (fst (POST sampleHmac env1 busyState request100))
   \<and> status (fst (POST sampleHmac env1 busyState request100)) = 200
   \<and> \<not> hourlyScoreRejection (fst (POST sampleHmac env1 busyState request100))
   \<and> contractWrites (snd (POST sampleHmac env1 busyState request100))
       = [\<lparr>playerAddress = samplePlayer, scoreAmount = 100, transactionAmount = 1\<rparr>]
   \<and> hourlyLimits (snd (POST sampleHmac env1 busyState request100)) sampleHourKey
       = Some \<lparr>score = 30000, transactions = 61, since = 1699999300000\<rparr>
   \<and> status (fst (POST sampleHmac env1 busyState request200)) = 429
   \<and> payload (fst (POST sampleHmac env1 busyState request200))
       = HourlyScoreLimitExceeded 29900 200 100
   \<and> snd (POST sampleHmac env1 busyState request200) = busyState"
proof -
  have org: "validateOrigin (appUrl env1) request100" "validateOrigin (appUrl env1) request200"
    by (simp_all add: env1_def sampleEnv_simps request100_def request200_def sample_origin)
  have b: "body request100 = Inr (sampleBody keys4 100 1)"
    "body request200 = Inr (sampleBody keys4 200 1)"
    by (simp_all add: request100_def request200_def sample_body)
  have h: "hourlyLimits busyState (hourlyKeyOf (now env1) (playerAddress (sampleBody keys4 sc txs)))
       = Some \<lparr>score = 29900, transactions = 60, since = 1699999300000\<rparr>" for sc txs
    by (simp add: env1_def sampleEnv_simps sampleBody_simps hourlyKey_sample busyState_simps)
  have d: "score \<lparr>score = 29900, transactions = 60, since = 1699999300000\<rparr> = 29900"
    by simp
  have p: "passesOtherLayers sampleHmac env1 busyState request100 (sampleBody keys4 100 1) keys4"
    using reaches100 [of "Inr ''0xhash1''"]
    by (simp add: reachesCommit_iff_layers env1_def)
  have w: "writeContract env1 = Inr ''0xhash1''"
    by (simp add: env1_def sampleEnv_simps)
  have k: "hourlyKeyOf (now env1) samplePlayer = sampleHourKey"
    by (simp add: env1_def sampleEnv_simps hourlyKey_sample)
  have al: "allowed (ipRateLimit env1)" "allowed (playerRateLimit env1)"
    by (simp_all add: env1_def sampleEnv_simps)
  from hourly_score_ceiling [OF org(1) b(1) h d, of sampleHmac keys4 "''0xhash1''"]
    hourly_score_ceiling [OF org(2) b(2) h d, of sampleHmac]
    org b h p w k al
  show ?thesis
    by (simp add: sampleBody_simps busyState_simps)
qed

section \<open>Claim C7: the counters move only with a commit\<close>

text \<open>
  Claim C7: a request that is not accepted (in particular every request answered with a
  status other than 200: rejected by a layer, or failed in the blockchain section) leaves the
  hourly map, the behaviour map and the ledger as they were. An accepted request is one whose
  \<open>writeContract\<close> returned a hash: it adds its entry to the ledger, its score and transactions
  to the hour's entry, and its score and one request to the player's behaviour entry.
\<close>

theorem counters_advance_only_on_commit:
  fixes H :: hmac and env s request
  defines "r \<equiv> fst (POST H env s request)"
  defines "s' \<equiv> snd (POST H env s request)"
  shows "(\<not> accepted r \<longrightarrow>
            hourlyLimits s' = hourlyLimits s \<and> scoreTracking s' = scoreTracking s
            \<and> contractWrites s' = contractWrites s)
       \<and> (status r \<noteq> 200 \<longrightarrow> \<not> accepted r)
       \<and> (accepted r \<longrightarrow>
            (\<exists>b hash. body request = Inr b \<and> writeContract env = Inr hash
               \<and> contractWrites s' = contractWrites s
                    @ [\<lparr>playerAddress = playerAddress b, scoreAmount = scoreAmount b,
                         transactionAmount = transactionAmount b\<rparr>]
               \<and> hourlyLimits s' = (hourlyLimits s)
                    (hourlyKeyOf (now env) (playerAddress b) \<mapsto>
                       \<lparr>score = score (hourlyDataOf (now env) s (playerAddress b)) + scoreAmount b,
                        transactions = transactions (hourlyDataOf (now env) s (playerAddress b))
                          + transactionAmount b,
                        since = since (hourlyDataOf (now env) s (playerAddress b))\<rparr>)
               \<and> scoreTracking s' = (scoreTracking s)
                    (playerAddress b \<mapsto>
                       \<lparr>totalScore = totalScore (behaviorDataOf (now env) s (playerAddress b))
                          + scoreAmount b,
                        requests = requests (behaviorDataOf (now env) s (playerAddress b)) + 1,
                        firstRequest = firstRequest (behaviorDataOf (now env) s (playerAddress b))\<rparr>)))"
proof -
  have a: "hourlyLimits s' = hourlyLimits s \<and> scoreTracking s' = scoreTracking s
            \<and> contractWrites s' = contractWrites s" if "\<not> accepted r"
    using POST_rejected_counters [of H env s request] that by (simp add: r_def s'_def)
  have b: "\<not> accepted r" if "status r \<noteq> 200"
    using accepted_status [of H env s request] that by (auto simp: r_def)
  have c: "\<exists>b hash. body request = Inr b \<and> writeContract env = Inr hash
               \<and> contractWrites s' = contractWrites s
                    @ [\<lparr>playerAddress = playerAddress b, scoreAmount = scoreAmount b,
                         transactionAmount = transactionAmount b\<rparr>]
               \<and> hourlyLimits s' = (hourlyLimits s)
                    (hourlyKeyOf (now env) (playerAddress b) \<mapsto>
                       \<lparr>score = score (hourlyDataOf (now env) s (playerAddress b)) + scoreAmount b,
                        transactions = transactions (hourlyDataOf (now env) s (playerAddress b))
                          + transactionAmount b,
                        since = since (hourlyDataOf (now env) s (playerAddress b))\<rparr>)
               \<and> scoreTracking s' = (scoreTracking s)
                    (playerAddress b \<mapsto>
                       \<lparr>totalScore = totalScore (behaviorDataOf (now env) s (playerAddress b))
                          + scoreAmount b,
                        requests = requests (behaviorDataOf (now env) s (playerAddress b)) + 1,
                        firstRequest = firstRequest (behaviorDataOf (now env) s (playerAddress b))\<rparr>)"
    if acc: "accepted r"
  proof -
    from acc POST_accepted_reaches [of H env s request]
    obtain b keys hash where rc: "reachesCommit H env s request b keys"
      and w: "writeContract env = Inr hash"
      by (auto simp: r_def)
    from POST_reachesCommit [OF rc] w rc show ?thesis
      by (auto simp: s'_def stateAfterCommit_def reachesCommit_def)
  qed
  from a b c show ?thesis by blast
qed

text \<open>The first sample request with a failing and with a successful \<open>writeContract\<close>.\<close>

theorem counters_advance_only_on_commit_witness:
  "\<not> accepted (fst (POST sampleHmac envFail sampleState request1))
   \<and> status (fst (POST sampleHmac envFail sampleState request1)) = 500
   \<and> hourlyLimits (snd (POST sampleHmac envFail sampleState request1)) = hourlyLimits sampleState
   \<and> scoreTracking (snd (POST sampleHmac envFail sampleState request1)) = scoreTracking sampleState
   \<and> contractWrites (snd (POST sampleHmac envFail sampleState request1)) = []
   \<and> accepted (fst (POST sampleHmac env1 sampleState request1))
   \<and> contractWrites (snd (POST sampleHmac env1 sampleState request1))
       = [\<lparr>playerAddress = samplePlayer, scoreAmount = 150, transactionAmount = 2\<rparr>]
   \<and> hourlyLimits (snd (POST sampleHmac env1 sampleState request1)) sampleHourKey
       = Some \<lparr>score = 150, transactions = 2, since = 1700000000000\<rparr>
   \<and> scoreTracking (snd (POST sampleHmac env1 sampleState request1)) samplePlayer
       = Some \<lparr>totalScore = 150, requests = 1, firstRequest = 1700000000000\<rparr>"
proof -
  have rej: "\<not> accepted (fst (POST sampleHmac envFail sampleState request1))"
    "status (fst (POST sampleHmac envFail sampleState request1)) = 500"
    by (simp_all add: post_fail accepted_def)
  from counters_advance_only_on_commit [of sampleHmac envFail sampleState request1]
    counters_advance_only_on_commit [of sampleHmac env1 sampleState request1] rej
  show ?thesis
    by (simp add: post1 accepted_def stateAfter1_simps sampleState_simps)
qed

section \<open>Claim C8: the dedup entry after a failed commit\<close>

text \<open>
  Claim C8, as stated, fails: the first sample request reaches \<open>writeContract\<close>, which times
  out; the route answers 500 and the dedup entry of the request is still the placeholder
  \<open>{ processing: true }\<close>.
\<close>

theorem failed_commit_entry_still_processing:
  "writeContract envFail = Inl ''The request took too long to respond.''
   \<and> fst (POST sampleHmac envFail sampleState request1) = \<lparr>status = 500, payload = UpdateFailed\<rparr>
   \<and> processedRequests (snd (POST sampleHmac envFail sampleState request1))
        (samplePlayer @ ''-'' @ nonce1)
       = Some \<lparr>reservedAt = 1700000000000, result = Processing\<rparr>"
proof -
  have e: "writeContract envFail = Inl ''The request took too long to respond.''"
    "now envFail = 1700000000000" "generatedNonce (signingEnv envFail) = nonce1"
    by (simp_all add: envFail_def sampleEnv_simps)
  show ?thesis
    by (simp add: post_fail stateAfterFailure_def dedupKeyOf_def e sampleBody_simps)
qed

text \<open>
  Claim C8, amended: when a request has passed every layer and reserved its dedup entry, and
  \<open>writeContract\<close> then throws, the route answers with the status its error handler derives
  from the error's message, commits nothing, and leaves the entry it reserved as the
  placeholder \<open>{ processing: true }\<close> with the time of the reservation: the error handler
  does not write the dedup cache. Whatever requests and timers follow, the entry stays that
  placeholder as long as no sweep of the dedup cache has run more than five minutes after the
  reservation; the first sweep that does deletes it.
\<close>

theorem failed_commit_keeps_placeholder:
  assumes "reachesCommit H env s request b keys"
      and "writeContract env = Inl msg"
  shows "fst (POST H env s request) = errorResponse (now env) msg
       \<and> processedRequests s (dedupKeyOf env b) = None
       \<and> processedRequests (snd (POST H env s request)) (dedupKeyOf env b)
           = Some \<lparr>reservedAt = now env, result = Processing\<rparr>
       \<and> contractWrites (snd (POST H env s request)) = contractWrites s
       \<and> (\<not> sweptAfter (now env) evs \<longrightarrow>
            processedRequests (run H (snd (POST H env s request)) evs) (dedupKeyOf env b)
              = Some \<lparr>reservedAt = now env, result = Processing\<rparr>
            \<and> (REQUEST_DEDUP_WINDOW < t - now env \<longrightarrow>
                 processedRequests (run H (snd (POST H env s request)) (evs @ [DedupCleanup t]))
                   (dedupKeyOf env b) = None))"
proof -
  let ?s1 = "snd (POST H env s request)"
  let ?e = "\<lparr>reservedAt = now env, result = Processing\<rparr>"
  from POST_reachesCommit [OF assms(1)] assms
  have a: "fst (POST H env s request) = errorResponse (now env) msg
       \<and> processedRequests s (dedupKeyOf env b) = None
       \<and> processedRequests ?s1 (dedupKeyOf env b) = Some ?e
       \<and> contractWrites ?s1 = contractWrites s"
    by (simp add: stateAfterFailure_def reachesCommit_def)
  then have e: "processedRequests ?s1 (dedupKeyOf env b) = Some ?e" by simp
  have k: "processedRequests (run H ?s1 evs) (dedupKeyOf env b) = Some ?e"
    if "\<not> sweptAfter (now env) evs"
    using run_keeps_entry [OF e, of evs H] that by simp
  have l: "processedRequests (run H ?s1 (evs @ [DedupCleanup t])) (dedupKeyOf env b) = None"
    if "\<not> sweptAfter (now env) evs" and "REQUEST_DEDUP_WINDOW < t - now env"
    using late_sweep_removes [OF k [OF that(1)], of t] that(2)
    by (simp add: run_append)
  from a k l show ?thesis by blast
qed

text \<open>
  The first sample request when \<open>writeContract\<close> times out. The second sample request, a sweep
  four minutes after the reservation and a key cleanup leave the placeholder; the sweep six
  minutes after the reservation deletes it.
\<close>

theorem failed_commit_keeps_placeholder_witness:
  "reachesCommit sampleHmac envFail sampleState request1 (sampleBody keys1 150 2) keys1
   \<and> writeContract envFail = Inl ''The request took too long to respond.''
   \<and> fst (POST sampleHmac envFail sampleState request1)
       = errorResponse (now envFail) ''The request took too long to respond.''
   \<and> processedRequests (snd (POST sampleHmac envFail sampleState request1))
        (dedupKeyOf envFail (sampleBody keys1 150 2))
       = Some \<lparr>reservedAt = now envFail, result = Processing\<rparr>
   \<and> contractWrites (snd (POST sampleHmac envFail sampleState request1)) = []
   \<and> \<not> sweptAfter (now envFail)
          [Submission env2 request2, DedupCleanup 1700000240000, KeysCleanup]
   \<and> processedRequests
        (run sampleHmac (snd (POST sampleHmac envFail sampleState request1))
           [Submission env2 request2, DedupCleanup 1700000240000, KeysCleanup])
        (dedupKeyOf envFail (sampleBody keys1 150 2))
       = Some \<lparr>reservedAt = now envFail, result = Processing\<rparr>
   \<and> REQUEST_DEDUP_WINDOW < 1700000360000 - now envFail
   \<and> processedRequests
        (run sampleHmac (snd (POST sampleHmac envFail sampleState request1))
           ([Submission env2 request2, DedupCleanup 1700000240000, KeysCleanup]
            @ [DedupCleanup 1700000360000]))
        (dedupKeyOf envFail (sampleBody keys1 150 2))
       = None"
proof -
  have r: "reachesCommit sampleHmac envFail sampleState request1 (sampleBody keys1 150 2) keys1"
    unfolding envFail_def by (rule reaches1)
  have w: "writeContract envFail = Inl ''The request took too long to respond.''"
    "now envFail = 1700000000000"
    by (simp_all add: envFail_def sampleEnv_simps)
  have sw: "\<not> sweptAfter (now envFail)
          [Submission env2 request2, DedupCleanup 1700000240000, KeysCleanup]"
    "REQUEST_DEDUP_WINDOW < 1700000360000 - now envFail"
    by (simp_all add: w REQUEST_DEDUP_WINDOW_def)
  from failed_commit_keeps_placeholder [OF r w(1),
      of "[Submission env2 request2, DedupCleanup 1700000240000, KeysCleanup]" 1700000360000]
    r w(1) sw
  show ?thesis
    by (simp add: sampleState_simps)
qed

section \<open>Claim C9: the suffix check beyond 2^53\<close>

text \<open>
  Claim C9 against the code: the nonce below is the challenge issued to the sample player at
  1700000000000 followed by the suffix \<open>0100000000000428\<close>, which read as an integer is
  72057594037929000, a multiple of 1000. \<open>parseInt\<close> gives the double 72057594037928992, and
  the nonce is accepted. Conversely the suffix \<open>0100000000000041\<close> is 72057594037928001, no
  multiple of 1000, and is rejected as predictable, because its double is 72057594037928000.
\<close>

theorem suffix_check_rounds_to_double:
  "challenge (generateNonceChallenge sampleHmac 1700000000000 sampleService samplePlayer)
     = ''6553f1005375cba3''
   \<and> mathInt 16 ''0100000000000428'' = 72057594037929000
   \<and> mathInt 16 ''0100000000000428'' mod 1000 = 0
   \<and> parseInt ''0100000000000428'' 16 = Some 72057594037928992
   \<and> validateNonceWithChallenge sampleHmac 1700000000000 sampleService
        ''6553f1005375cba30100000000000428'' samplePlayer = Valid
   \<and> mathInt 16 ''0100000000000041'' = 72057594037928001
   \<and> mathInt 16 ''0100000000000041'' mod 1000 = 1
   \<and> parseInt ''0100000000000041'' 16 = Some 72057594037928000
   \<and> validateNonceWithChallenge sampleHmac 1700000000000 sampleService
        ''6553f1005375cba30100000000000041'' samplePlayer = Invalid ''Predictable nonce suffix''"
  using sample_challenge suffix_values nonce_multiple_accepted nonce_nonmultiple_rejected
  by simp

section \<open>Claim C10: the minimum interval between requests\<close>

text \<open>
  Claim C10 against the code: the sample player's first request is accepted at
  1700000000000 and the second at 1700000006000. The third arrives two seconds after the
  second, less than the five seconds the route announces, and is accepted: the route takes
  the first request's time plus one second per counted request for the time of the last one.
\<close>

theorem third_request_after_two_seconds_accepted:
  "POST sampleHmac env1 sampleState request1
     = (\<lparr>status = 200,
         payload = Updated
           \<lparr>transactionHash = ''0xhash1'', cryptoValidationLevel = HIGH,
            resultNonce = nonce1, resultTimestamp = 1700000000000,
            antiAbuse = \<lparr>hourlyScore = 150, hourlyTransactions = 2, sessionRequests = 1\<rparr>\<rparr>\<rparr>,
        stateAfter1)
   \<and> POST sampleHmac env2 stateAfter1 request2
     = (\<lparr>status = 200,
         payload = Updated
           \<lparr>transactionHash = ''0xhash2'', cryptoValidationLevel = HIGH,
            resultNonce = nonce2, resultTimestamp = 1700000006000,
            antiAbuse = \<lparr>hourlyScore = 300, hourlyTransactions = 4, sessionRequests = 2\<rparr>\<rparr>\<rparr>,
        stateAfter2)
   \<and> now env3 - now env2 = 2000
   \<and> scoreTracking stateAfter2 samplePlayer
       = Some \<lparr>totalScore = 300, requests = 2, firstRequest = 1700000000000\<rparr>
   \<and> fst (POST sampleHmac env3 stateAfter2 request3)
     = \<lparr>status = 200,
        payload = Updated
          \<lparr>transactionHash = ''0xhash3'', cryptoValidationLevel = HIGH,
           resultNonce = nonce3, resultTimestamp = 1700000008000,
           antiAbuse = \<lparr>hourlyScore = 450, hourlyTransactions = 6, sessionRequests = 3\<rparr>\<rparr>\<rparr>"
  using post1 post2 post3
  by (simp add: env2_def env3_def sampleEnv_simps stateAfter2_simps)

end
